theory Spec2Isabelle
  imports Complex_Main "HOL-Library.Log_Nat"
begin

section \<open>JavaScript numbers\<close>

text \<open>
  A JavaScript Number is an IEEE 754 binary64 value. A finite Number is modelled by the
  rational it denotes. Every arithmetic operator of the source yields the exact result
  rounded to the nearest binary64 value, ties to the even significand (\<open>fl\<close>): a
  significand of 53 bits, and the fixed quantum \<open>2 powi - 1074\<close> below \<open>2 powi - 1022\<close>.
  A decimal literal of the source (\<open>0.3\<close>) and a decimal text converted by \<open>parseFloat\<close>
  or by an arithmetic operator (\<open>"0.80" - 0.5\<close>) are read through the same rounding.
  Overflow to \<open>Infinity\<close> and \<open>NaN\<close> are left out: the functions below are used on
  magnitudes far under \<open>2 powi 1024\<close>, and on operands that are present.
\<close>

definition ilog2 :: "rat \<Rightarrow> int" where
  "ilog2 x = (let (n, d) = quotient_of x; k = bitlen n - bitlen d
              in if 2 powi k \<le> x then k else k - 1)"

definition rne :: "rat \<Rightarrow> int" where
  "rne q = (let f = \<lfloor>q\<rfloor>; r = q - of_int f
            in if r < 1/2 then f else if 1/2 < r then f + 1
               else if even f then f else f + 1)"

definition fl :: "rat \<Rightarrow> rat" where
  "fl x = (if x = 0 then 0
           else let e = max (ilog2 \<bar>x\<bar>) (- 1022); u = 2 powi (e - 52)
                in sgn x * of_int (rne (\<bar>x\<bar> / u)) * u)"

definition fadd :: "rat \<Rightarrow> rat \<Rightarrow> rat" where
  "fadd a b = fl (a + b)"

definition fsub :: "rat \<Rightarrow> rat \<Rightarrow> rat" where
  "fsub a b = fl (a - b)"

definition fmul :: "rat \<Rightarrow> rat \<Rightarrow> rat" where
  "fmul a b = fl (a * b)"

text \<open>Division, used by the source with the non-zero divisors 2, 8, 100 and a positive count.\<close>

definition fdiv :: "rat \<Rightarrow> rat \<Rightarrow> rat" where
  "fdiv a b = fl (a / b)"

text \<open>\<open>Math.round\<close>: the nearest integer, a tie going up.\<close>

definition Math_round :: "rat \<Rightarrow> rat" where
  "Math_round x = of_int \<lfloor>x + 1/2\<rfloor>"

text \<open>\<open>Number(x.toFixed(2))\<close>: two decimals, a tie going to the larger digit string.\<close>

definition toFixed2 :: "rat \<Rightarrow> rat" where
  "toFixed2 x = fl (of_int \<lfloor>x * 100 + 1/2\<rfloor> / 100)"

text \<open>
  \<open>Number.prototype.toString\<close> writes the decimal with the fewest significant digits
  that reads back as the Number; of two such decimals the nearer one, and of two equally
  near the one whose last digit is even. \<open>Number_toString\<close> is the number that these
  digits denote. The search goes through the multiples of \<open>10 powi p\<close> next to \<open>x\<close>,
  from a power of ten above \<open>x\<close> downwards; for a Number it ends within 17 digits, and
  for a rational that is no Number, which the program cannot hold, it returns the
  rational.
\<close>

fun shortest_from :: "rat \<Rightarrow> int \<Rightarrow> nat \<Rightarrow> rat" where
  "shortest_from x p 0 = x"
| "shortest_from x p (Suc n) =
     (let u = 10 powi p; k = \<lfloor>x / u\<rfloor>; lo = of_int k * u; hi = of_int (k + 1) * u
      in if fl lo = x \<and> fl hi = x then
           (if x - lo < hi - x then lo
            else if hi - x < x - lo then hi
            else if even k then lo else hi)
         else if fl lo = x then lo
         else if fl hi = x then hi
         else shortest_from x (p - 1) n)"

definition Number_toString :: "rat \<Rightarrow> rat" where
  "Number_toString x =
     (if x = 0 then 0
      else let p0 = max 0 (ilog2 \<bar>x\<bar> + 1)
           in sgn x * shortest_from \<bar>x\<bar> p0 (nat (p0 + 400)))"


section \<open>Strings, arrays and column types\<close>

text \<open>
  A JavaScript string is modelled as a \<open>string\<close> over the Latin-1 range, one
  \<open>char\<close> for one code point. \<open>String.prototype.trim\<close> removes white space and
  line terminators at both ends; in this range these are the code points 9 to 13, 32
  and 160.
\<close>

definition is_space :: "char \<Rightarrow> bool" where
  "is_space c = (of_char c \<in> {9, 10, 11, 12, 13, 32, 160 :: nat})"

definition trim :: "string \<Rightarrow> string" where
  "trim s = rev (dropWhile is_space (rev (dropWhile is_space s)))"

text \<open>
  A \<open>Set\<close> of strings keeps its members in insertion order, and \<open>add\<close> of a
  member already present changes nothing: a list without duplicates.
\<close>

definition set_add :: "string list \<Rightarrow> string \<Rightarrow> string list" where
  "set_add s x = (if x \<in> set s then s else s @ [x])"

text \<open>A default parameter \<open>= []\<close> replaces an argument that is \<open>undefined\<close>.\<close>

definition or_empty :: "'a list option \<Rightarrow> 'a list" where
  "or_empty a = (case a of None \<Rightarrow> [] | Some xs \<Rightarrow> xs)"

text \<open>
  The column types of the tables, as PostgreSQL applies them to a parameter. The
  driver sends a Number as the text of \<open>toString\<close>, and the server reads the decimal
  written there. \<open>DECIMAL(p,s)\<close> rounds this decimal to \<open>s\<close> decimals (a tie away
  from zero) and rejects a rounded value that needs more than \<open>p - s\<close> digits before
  the point. \<open>VARCHAR(n)\<close> rejects a longer string, unless the excess is made of
  spaces, which are cut off. An \<open>INT\<close> column rejects a text with a fractional part
  and an integer outside 32 bits. Every \<open>user_id\<close> column has
  \<open>REFERENCES users(id)\<close>: a row for a user who is not in \<open>users\<close> is rejected.
\<close>

definition round_half_away :: "rat \<Rightarrow> int" where
  "round_half_away x = (if 0 \<le> x then \<lfloor>x + 1/2\<rfloor> else - \<lfloor>- x + 1/2\<rfloor>)"

definition decimal_3_2 :: "rat \<Rightarrow> rat option" where
  "decimal_3_2 x = (let r = of_int (round_half_away (x * 100)) / 100
                    in if \<bar>r\<bar> < 10 then Some r else None)"

definition decimal_4_3 :: "rat \<Rightarrow> rat option" where
  "decimal_4_3 x = (let r = of_int (round_half_away (x * 1000)) / 1000
                    in if \<bar>r\<bar> < 10 then Some r else None)"

definition varchar :: "nat \<Rightarrow> string \<Rightarrow> string option" where
  "varchar n s = (if length s \<le> n then Some s
                  else if \<forall>c \<in> set (drop n s). c = CHR '' '' then Some (take n s)
                  else None)"

definition int_column :: "rat \<Rightarrow> int option" where
  "int_column x =
     (if of_int \<lfloor>x\<rfloor> = x \<and> - (2 ^ 31) \<le> \<lfloor>x\<rfloor> \<and> \<lfloor>x\<rfloor> < 2 ^ 31 then Some \<lfloor>x\<rfloor> else None)"

section \<open>The store and the oracle\<close>

text \<open>
  The eight dimensions of a voice vector. A row of \<open>voice_profiles\<close> and the object
  built by \<open>parseVoiceAnalysis\<close> carry a number under each of the eight keys
  \<open>formality\<close>, \<open>humor\<close>, \<open>enthusiasm\<close>, \<open>professionalism\<close>, \<open>creativity\<close>,
  \<open>emotional_tone\<close>, \<open>confidence\<close>, \<open>warmth\<close>.
\<close>

datatype dimension =
  Formality | Humor | Enthusiasm | Professionalism | Creativity | Emotional_tone
  | Confidence | Warmth

type_synonym voice_vector = "dimension \<Rightarrow> rat"

text \<open>
  A row of \<open>voice_profiles\<close> (\<open>user_id\<close> is unique, so the table is a map from the
  user); the serial \<open>id\<close> and the timestamps are not modelled.
\<close>

record voice_profile_row =
  profile_name :: string
  dims :: voice_vector
  is_active :: bool

text \<open>
  The \<open>voiceData\<close> argument of \<open>upsertVoiceProfile\<close>: \<open>profileName\<close> and the numbers
  under the keys \<open>formality\<close>, \<open>humor\<close>, \<open>enthusiasm\<close>, \<open>professionalism\<close>,
  \<open>creativity\<close>, \<open>emotionalTone\<close>, \<open>confidence\<close>, \<open>warmth\<close>; \<open>None\<close> is a key
  that is absent.
\<close>

record voice_data =
  profileName :: "string option"
  supplied :: "dimension \<Rightarrow> rat option"

text \<open>
  The object of \<open>parseVoiceAnalysis\<close>: the eight keys and \<open>confidence_score\<close>, each
  filled with 0.5 when the response has no number for it.
\<close>

record voice_analysis =
  analysed :: voice_vector
  confidence_score :: rat

text \<open>
  The object of \<open>parseVoiceRefinement\<close>: a clamped number under each lower-cased key the
  response gave (the prompt asks for \<open>EMOTIONAL_TONE\<close>, so the key is
  \<open>emotional_tone\<close>), and the reasoning.
\<close>

record refined_profile =
  refined :: "dimension \<Rightarrow> rat option"
  reasoning :: string

record content_analysis_row =
  ca_user_id :: nat
  ca_content_type :: string
  ca_content_text :: string
  ca_analyzed :: "dimension \<Rightarrow> rat option"
  ca_analysis_confidence :: rat

record voice_feedback_row =
  vf_user_id :: nat
  vf_generated_content_id :: "nat option"
  vf_content_type :: string
  vf_feedback_type :: string
  vf_feedback_comment :: "string option"
  vf_expected :: "dimension \<Rightarrow> rat option"

record training_session_row =
  ts_user_id :: nat
  ts_training_type :: string
  ts_samples_used :: nat
  ts_accuracy_score :: rat
  ts_training_duration :: int

record caption_structure =
  hasEmojisAtEnd :: bool
  startsWithQuote :: bool
  containsLineBreaks :: bool
  firstSentenceLength :: nat

text \<open>A row of \<open>user_preferences\<close>; every column but the key is nullable.\<close>

record user_preferences_row =
  row_preferred_tone :: "string option"
  row_emoji_level :: "int option"
  row_common_phrases :: "string list option"
  row_disliked_phrases :: "string list option"
  row_caption_length_preference :: "string option"
  row_language_preference :: "string option"
  row_caption_structure :: "caption_structure option"

text \<open>The preference object that \<open>getPreferences\<close> and \<open>updatePreferences\<close> return.\<close>

record preferences =
  preferred_tone :: string
  emoji_level :: rat
  common_phrases :: "string list"
  disliked_phrases :: "string list"
  caption_length_preference :: string
  language_preference :: string
  caption_structure :: caption_structure

text \<open>The \<open>preferenceUpdates\<close> argument: \<open>None\<close> is a key that is absent.\<close>

record preference_updates =
  upd_preferred_tone :: "string option"
  upd_emoji_level :: "rat option"
  upd_common_phrases :: "string list option"
  upd_disliked_phrases :: "string list option"
  upd_caption_length_preference :: "string option"
  upd_language_preference :: "string option"
  upd_caption_structure :: "caption_structure option"

record saved_post =
  sp_user_id :: nat
  sp_caption :: string
  sp_language :: string

record caption_history_row =
  ch_user_id :: nat
  ch_generated_caption :: string
  ch_final_caption :: string
  ch_feedback_score :: int

record user_row =
  brand_voice :: "string option"
  target_audience :: "string option"

datatype store_op =
  GetUserById | GetVoiceProfile | UpsertVoiceProfile | StoreContentAnalysis
  | StoreVoiceFeedback | GetContentAnalysisHistory | GetVoiceFeedbackHistory
  | RecordTrainingSession | GetSavedPosts | SelectUserPreferences
  | InsertUserPreferences | InsertCaptionHistory

datatype oracle_op =
  AnalyzeContentVoice | RefineVoiceProfile | GenerateCaptionAndHashtags
  | GenerateCaptionAndHashtagsFromImage | SuggestCTAs

datatype call = Store store_op | Oracle oracle_op

text \<open>
  An \<open>Error\<close> that a call throws, with its message. A \<open>StoreFailure\<close> is raised by
  \<open>pool.query\<close>, an \<open>OracleFailure\<close> by a method of \<open>geminiService\<close>.
\<close>

datatype error = StoreFailure string | OracleFailure string | OtherError string

fun message :: "error \<Rightarrow> string" where
  "message (StoreFailure m) = m"
| "message (OracleFailure m) = m"
| "message (OtherError m) = m"

text \<open>The error of an \<open>INSERT\<close> for a user who has no row in \<open>users\<close>.\<close>

definition foreign_key :: error where
  "foreign_key = StoreFailure ''insert or update on table violates foreign key constraint''"

text \<open>
  The state of the database: the tables, newest row first where the source orders by
  time, and the log of the calls made to the store and to the oracle, oldest first.
\<close>

record world =
  users :: "nat \<rightharpoonup> user_row"
  voice_profiles :: "nat \<rightharpoonup> voice_profile_row"
  content_analysis :: "content_analysis_row list"
  voice_feedback :: "voice_feedback_row list"
  voice_training_sessions :: "training_session_row list"
  user_preferences :: "nat \<rightharpoonup> user_preferences_row"
  saved_posts :: "saved_post list"
  caption_history :: "caption_history_row list"
  calls :: "call list"

text \<open>
  What the program does not decide: which queries the database server fails (with the
  message of the error), what the language model answers, the value of
  \<open>Math.random()\<close>, the language identifier \<open>franc\<close>, and the Unicode tables behind
  the regular expressions of the memory engine.
\<close>

record env =
  store_fails :: "store_op \<Rightarrow> string option"
  refine_oracle ::
    "content_analysis_row list \<Rightarrow> voice_feedback_row list \<Rightarrow> voice_profile_row
      \<Rightarrow> error + refined_profile"
  analyze_oracle :: "string \<Rightarrow> error + voice_analysis"
  generate_oracle :: "string \<Rightarrow> error + string"
  image_oracle :: "string \<Rightarrow> error + string"
  cta_oracle :: "string \<Rightarrow> error + string list"
  random :: rat
  franc :: "string \<Rightarrow> string"
  is_emoji :: "char \<Rightarrow> bool"
  word_tokens :: "string \<Rightarrow> string list"

text \<open>
  An \<open>async\<close> function is a function from the state to its outcome and the new
  state: \<open>Inl\<close> is a rejected promise (a \<open>throw\<close>), \<open>Inr\<close> the returned value.
  A write made before a throw stays in the state.
\<close>

type_synonym 'a io = "world \<Rightarrow> (error + 'a) \<times> world"

definition return :: "'a \<Rightarrow> 'a io" where
  "return x = (\<lambda>w. (Inr x, w))"

definition throw :: "error \<Rightarrow> 'a io" where
  "throw e = (\<lambda>w. (Inl e, w))"

definition await :: "'a io \<Rightarrow> ('a \<Rightarrow> 'b io) \<Rightarrow> 'b io" where
  "await m f = (\<lambda>w. case m w of (Inl e, w') \<Rightarrow> (Inl e, w') | (Inr x, w') \<Rightarrow> f x w')"

definition try_catch :: "'a io \<Rightarrow> (error \<Rightarrow> 'a io) \<Rightarrow> 'a io" where
  "try_catch m h = (\<lambda>w. case m w of (Inl e, w') \<Rightarrow> h e w' | (Inr x, w') \<Rightarrow> (Inr x, w'))"

text \<open>
  \<open>pool.query\<close>: the call is logged; the server fails it, or runs the statement, which
  may itself be rejected by a column type.
\<close>

definition query :: "env \<Rightarrow> store_op \<Rightarrow> 'a io \<Rightarrow> 'a io" where
  "query env op statement =
     (\<lambda>w. let w1 = w\<lparr>calls := calls w @ [Store op]\<rparr>
          in case store_fails env op of
               Some m \<Rightarrow> (Inl (StoreFailure m), w1)
             | None \<Rightarrow> statement w1)"

definition ask :: "oracle_op \<Rightarrow> (error + 'a) \<Rightarrow> 'a io" where
  "ask op answer = (\<lambda>w. (answer, w\<lparr>calls := calls w @ [Oracle op]\<rparr>))"


text \<open>
  \<open>Array.prototype.sort\<close> with a comparator: a stable sort; \<open>x\<close> goes behind every
  element that the comparator does not place after it.
\<close>

fun sort_insert :: "('a \<Rightarrow> 'a \<Rightarrow> rat) \<Rightarrow> 'a \<Rightarrow> 'a list \<Rightarrow> 'a list" where
  "sort_insert cmp x [] = [x]"
| "sort_insert cmp x (y # ys) =
     (if 0 < cmp y x then x # y # ys else y # sort_insert cmp x ys)"

definition js_sort :: "('a \<Rightarrow> 'a \<Rightarrow> rat) \<Rightarrow> 'a list \<Rightarrow> 'a list" where
  "js_sort cmp xs = foldl (\<lambda>acc x. sort_insert cmp x acc) [] xs"

section \<open>database.js\<close>

definition getUserById :: "env \<Rightarrow> nat \<Rightarrow> user_row option io" where
  "getUserById env uid = query env GetUserById (\<lambda>w. (Inr (users w uid), w))"

text \<open>\<open>voiceData.formality || 0.5\<close>: a missing number and the number 0 are falsy.\<close>

definition or_default :: "rat option \<Rightarrow> rat" where
  "or_default v = (case v of None \<Rightarrow> 1/2 | Some x \<Rightarrow> if x = 0 then 1/2 else x)"

definition or_default_name :: "string option \<Rightarrow> string" where
  "or_default_name v =
     (case v of None \<Rightarrow> ''Default Profile''
      | Some n \<Rightarrow> if n = [] then ''Default Profile'' else n)"

definition all_dimensions :: "dimension list" where
  "all_dimensions =
     [Formality, Humor, Enthusiasm, Professionalism, Creativity, Emotional_tone,
      Confidence, Warmth]"

text \<open>
  \<open>INSERT ... ON CONFLICT (user_id) DO UPDATE SET ... RETURNING *\<close>: the ten values
  replace the row of the user; a new row is active by the column default. The numbers
  go to the server as decimal texts.
\<close>

definition upsertVoiceProfile :: "env \<Rightarrow> nat \<Rightarrow> voice_data \<Rightarrow> voice_profile_row io" where
  "upsertVoiceProfile env userId voiceData =
     (let name = or_default_name (profileName voiceData);
          vals = (\<lambda>d. Number_toString (or_default (supplied voiceData d)))
      in query env UpsertVoiceProfile
           (\<lambda>w. case varchar 100 name of
                  None \<Rightarrow>
                    (Inl (StoreFailure ''value too long for type character varying(100)''), w)
                | Some n \<Rightarrow>
                    if \<exists>d \<in> set all_dimensions. decimal_3_2 (vals d) = None
                    then (Inl (StoreFailure ''numeric field overflow''), w)
                    else if users w userId = None then (Inl foreign_key, w)
                    else
                      let row = \<lparr>profile_name = n,
                                 dims = (\<lambda>d. the (decimal_3_2 (vals d))),
                                 is_active =
                                   (case voice_profiles w userId of
                                      None \<Rightarrow> True | Some old \<Rightarrow> is_active old)\<rparr>
                      in (Inr row, w\<lparr>voice_profiles := (voice_profiles w)(userId \<mapsto> row)\<rparr>)))"

definition getVoiceProfile :: "env \<Rightarrow> nat \<Rightarrow> voice_profile_row option io" where
  "getVoiceProfile env userId =
     query env GetVoiceProfile
       (\<lambda>w. (Inr (case voice_profiles w userId of
                     None \<Rightarrow> None
                   | Some r \<Rightarrow> if is_active r then Some r else None), w))"

text \<open>
  \<open>storeContentAnalysis\<close> reads \<open>analysisData.emotionalTone\<close>, a key that the object
  of \<open>parseVoiceAnalysis\<close> does not have: the column receives \<open>NULL\<close>. The two
  confidence columns both read \<open>analysisData.confidence\<close>.
\<close>

definition storeContentAnalysis ::
  "env \<Rightarrow> nat \<Rightarrow> string \<Rightarrow> string \<Rightarrow> voice_analysis \<Rightarrow> content_analysis_row io" where
  "storeContentAnalysis env userId contentType contentText voiceAnalysis =
     (let vals = (\<lambda>d. if d = Emotional_tone then None
                       else Some (Number_toString (analysed voiceAnalysis d)));
          conf = Number_toString (analysed voiceAnalysis Confidence)
      in query env StoreContentAnalysis
           (\<lambda>w. case varchar 50 contentType of
                  None \<Rightarrow>
                    (Inl (StoreFailure ''value too long for type character varying(50)''), w)
                | Some ct \<Rightarrow>
                    if (\<exists>d \<in> set all_dimensions.
                          case vals d of None \<Rightarrow> False | Some x \<Rightarrow> decimal_3_2 x = None)
                       \<or> decimal_3_2 conf = None
                    then (Inl (StoreFailure ''numeric field overflow''), w)
                    else if users w userId = None then (Inl foreign_key, w)
                    else
                      let row = \<lparr>ca_user_id = userId, ca_content_type = ct,
                                 ca_content_text = contentText,
                                 ca_analyzed =
                                   (\<lambda>d. case vals d of None \<Rightarrow> None | Some x \<Rightarrow> decimal_3_2 x),
                                 ca_analysis_confidence = the (decimal_3_2 conf)\<rparr>
                      in (Inr row, w\<lparr>content_analysis := row # content_analysis w\<rparr>)))"

record feedback_data =
  generatedContentId :: "nat option"
  fb_contentType :: string
  feedbackType :: string
  feedbackComment :: "string option"
  expected :: "dimension \<Rightarrow> rat option"

text \<open>\<open>feedbackData.expectedFormality || null\<close>, and so on: 0 becomes \<open>NULL\<close> too.\<close>

definition or_null :: "rat option \<Rightarrow> rat option" where
  "or_null v = (case v of None \<Rightarrow> None | Some x \<Rightarrow> if x = 0 then None else Some x)"

definition storeVoiceFeedback :: "env \<Rightarrow> nat \<Rightarrow> feedback_data \<Rightarrow> voice_feedback_row io" where
  "storeVoiceFeedback env userId feedbackData =
     (let vals = (\<lambda>d. map_option Number_toString (or_null (expected feedbackData d)))
      in query env StoreVoiceFeedback
           (\<lambda>w. case (varchar 50 (fb_contentType feedbackData),
                       varchar 20 (feedbackType feedbackData)) of
                  (Some ct, Some ft) \<Rightarrow>
                    if \<exists>d \<in> set all_dimensions.
                         case vals d of None \<Rightarrow> False | Some x \<Rightarrow> decimal_3_2 x = None
                    then (Inl (StoreFailure ''numeric field overflow''), w)
                    else if users w userId = None then (Inl foreign_key, w)
                    else
                      let row = \<lparr>vf_user_id = userId,
                                 vf_generated_content_id =
                                   (case generatedContentId feedbackData of
                                      None \<Rightarrow> None
                                    | Some i \<Rightarrow> if i = 0 then None else Some i),
                                 vf_content_type = ct, vf_feedback_type = ft,
                                 vf_feedback_comment =
                                   (case feedbackComment feedbackData of
                                      None \<Rightarrow> None
                                    | Some c \<Rightarrow> if c = [] then None else Some c),
                                 vf_expected =
                                   (\<lambda>d. case vals d of None \<Rightarrow> None | Some x \<Rightarrow> decimal_3_2 x)\<rparr>
                      in (Inr row, w\<lparr>voice_feedback := row # voice_feedback w\<rparr>)
                | _ \<Rightarrow> (Inl (StoreFailure ''value too long for type character varying''), w)))"

definition getContentAnalysisHistory ::
  "env \<Rightarrow> nat \<Rightarrow> nat \<Rightarrow> content_analysis_row list io" where
  "getContentAnalysisHistory env userId limit =
     query env GetContentAnalysisHistory
       (\<lambda>w. (Inr (take limit (filter (\<lambda>r. ca_user_id r = userId) (content_analysis w))), w))"

definition getVoiceFeedbackHistory ::
  "env \<Rightarrow> nat \<Rightarrow> nat \<Rightarrow> voice_feedback_row list io" where
  "getVoiceFeedbackHistory env userId limit =
     query env GetVoiceFeedbackHistory
       (\<lambda>w. (Inr (take limit (filter (\<lambda>r. vf_user_id r = userId) (voice_feedback w))), w))"

text \<open>The \<open>trainingData\<close> argument; an \<open>accuracyScore\<close> of \<open>None\<close> is \<open>NaN\<close>.\<close>

record training_data =
  trainingType :: string
  samplesUsed :: nat
  accuracyScore :: "rat option"
  trainingDuration :: rat

definition recordTrainingSession ::
  "env \<Rightarrow> nat \<Rightarrow> training_data \<Rightarrow> training_session_row io" where
  "recordTrainingSession env userId trainingData =
     query env RecordTrainingSession
       (\<lambda>w. case (varchar 50 (trainingType trainingData),
                   decimal_4_3 (case accuracyScore trainingData of
                                  None \<Rightarrow> 0 | Some x \<Rightarrow> Number_toString x),
                   int_column (trainingDuration trainingData)) of
              (Some tt, Some acc, Some dur) \<Rightarrow>
                if users w userId = None then (Inl foreign_key, w) else
                let row = \<lparr>ts_user_id = userId, ts_training_type = tt,
                           ts_samples_used = samplesUsed trainingData,
                           ts_accuracy_score = acc, ts_training_duration = dur\<rparr>
                in (Inr row, w\<lparr>voice_training_sessions := row # voice_training_sessions w\<rparr>)
            | _ \<Rightarrow> (Inl (StoreFailure ''invalid value for a column of voice_training_sessions''), w))"

text \<open>\<open>getSavedPosts(userId, limit = null)\<close>: \<open>LIMIT\<close> is added when \<open>limit\<close> is truthy.\<close>

definition getSavedPosts :: "env \<Rightarrow> nat \<Rightarrow> nat option \<Rightarrow> saved_post list io" where
  "getSavedPosts env userId limit =
     query env GetSavedPosts
       (\<lambda>w. let rows = filter (\<lambda>r. sp_user_id r = userId) (saved_posts w)
            in (Inr (case limit of None \<Rightarrow> rows
                     | Some n \<Rightarrow> if n = 0 then rows else take n rows), w))"


section \<open>userPreferenceService.js\<close>

definition DEFAULT_STRUCTURE :: caption_structure where
  "DEFAULT_STRUCTURE =
     \<lparr>hasEmojisAtEnd = False, startsWithQuote = False, containsLineBreaks = False,
      firstSentenceLength = 0\<rparr>"

definition DEFAULT_PREFERENCES :: preferences where
  "DEFAULT_PREFERENCES =
     \<lparr>preferred_tone = ''casual'', emoji_level = 2, common_phrases = [],
      disliked_phrases = [], caption_length_preference = ''medium'',
      language_preference = ''en'', caption_structure = DEFAULT_STRUCTURE\<rparr>"

text \<open>
  \<open>mergeUniqueLists(existing = [], incoming = [], limit = 10)\<close>. An item that is
  \<open>null\<close> is skipped as the empty string is.
\<close>

definition mergeUniqueLists ::
  "string list option \<Rightarrow> string list option \<Rightarrow> nat \<Rightarrow> string list" where
  "mergeUniqueLists existing incoming limit =
     take limit
       (foldl (\<lambda>s item. if item \<noteq> [] \<and> 0 < length (trim item) then set_add s (trim item) else s)
          [] (or_empty existing @ or_empty incoming))"

text \<open>\<open>row.preferred_tone || DEFAULT\<close>: \<open>NULL\<close> and the empty string are falsy.\<close>

definition str_or :: "string option \<Rightarrow> string \<Rightarrow> string" where
  "str_or v d = (case v of None \<Rightarrow> d | Some s \<Rightarrow> if s = [] then d else s)"

text \<open>The user id: \<open>None\<close> is \<open>undefined\<close> or \<open>null\<close>; \<open>!userId\<close> holds for these and for 0.\<close>

definition falsy_id :: "nat option \<Rightarrow> bool" where
  "falsy_id userId = (case userId of None \<Rightarrow> True | Some n \<Rightarrow> n = 0)"

definition getPreferences :: "env \<Rightarrow> nat option \<Rightarrow> preferences io" where
  "getPreferences env userId =
     (if falsy_id userId then return DEFAULT_PREFERENCES
      else await (query env SelectUserPreferences
                    (\<lambda>w. (Inr (user_preferences w (the userId)), w)))
             (\<lambda>rows. case rows of
                  None \<Rightarrow> return DEFAULT_PREFERENCES
                | Some row \<Rightarrow>
                    return
                      \<lparr>preferred_tone =
                         str_or (row_preferred_tone row) (preferred_tone DEFAULT_PREFERENCES),
                       emoji_level =
                         (case row_emoji_level row of
                            None \<Rightarrow> emoji_level DEFAULT_PREFERENCES | Some n \<Rightarrow> of_int n),
                       common_phrases = or_empty (row_common_phrases row),
                       disliked_phrases = or_empty (row_disliked_phrases row),
                       caption_length_preference =
                         str_or (row_caption_length_preference row)
                           (caption_length_preference DEFAULT_PREFERENCES),
                       language_preference =
                         str_or (row_language_preference row)
                           (language_preference DEFAULT_PREFERENCES),
                       caption_structure =
                         (case row_caption_structure row of
                            None \<Rightarrow> caption_structure DEFAULT_PREFERENCES | Some c \<Rightarrow> c)\<rparr>))"

text \<open>\<open>{ ...currentPrefs, ...preferenceUpdates }\<close>: a key of the updates wins.\<close>

definition spread :: "preferences \<Rightarrow> preference_updates \<Rightarrow> preferences" where
  "spread cur upd =
     \<lparr>preferred_tone = (case upd_preferred_tone upd of None \<Rightarrow> preferred_tone cur | Some v \<Rightarrow> v),
      emoji_level = (case upd_emoji_level upd of None \<Rightarrow> emoji_level cur | Some v \<Rightarrow> v),
      common_phrases =
        (case upd_common_phrases upd of None \<Rightarrow> common_phrases cur | Some v \<Rightarrow> v),
      disliked_phrases =
        (case upd_disliked_phrases upd of None \<Rightarrow> disliked_phrases cur | Some v \<Rightarrow> v),
      caption_length_preference =
        (case upd_caption_length_preference upd of
           None \<Rightarrow> caption_length_preference cur | Some v \<Rightarrow> v),
      language_preference =
        (case upd_language_preference upd of None \<Rightarrow> language_preference cur | Some v \<Rightarrow> v),
      caption_structure =
        (case upd_caption_structure upd of None \<Rightarrow> caption_structure cur | Some v \<Rightarrow> v)\<rparr>"

text \<open>
  The \<open>INSERT ... ON CONFLICT (user_id) DO UPDATE ... RETURNING *\<close> of
  \<open>updatePreferences\<close>, with the column types of the migration:
  \<open>emoji_level INT CHECK (emoji_level BETWEEN 0 AND 5)\<close>, \<open>VARCHAR(50)\<close>,
  \<open>VARCHAR(20)\<close>, \<open>VARCHAR(10)\<close>.
\<close>

definition insert_user_preferences ::
  "env \<Rightarrow> nat \<Rightarrow> preferences \<Rightarrow> user_preferences_row io" where
  "insert_user_preferences env userId nextPrefs =
     query env InsertUserPreferences
       (\<lambda>w. case (varchar 50 (preferred_tone nextPrefs),
                   int_column (emoji_level nextPrefs),
                   varchar 20 (caption_length_preference nextPrefs),
                   varchar 10 (language_preference nextPrefs)) of
              (Some tone, Some level, Some len, Some lang) \<Rightarrow>
                if \<not> (0 \<le> level \<and> level \<le> 5)
                then (Inl (StoreFailure ''violates check constraint: emoji_level''), w)
                else if users w userId = None then (Inl foreign_key, w)
                else
                  let row = \<lparr>row_preferred_tone = Some tone, row_emoji_level = Some level,
                             row_common_phrases = Some (common_phrases nextPrefs),
                             row_disliked_phrases = Some (disliked_phrases nextPrefs),
                             row_caption_length_preference = Some len,
                             row_language_preference = Some lang,
                             row_caption_structure = Some (caption_structure nextPrefs)\<rparr>
                  in (Inr row, w\<lparr>user_preferences := (user_preferences w)(userId \<mapsto> row)\<rparr>)
            | _ \<Rightarrow> (Inl (StoreFailure ''invalid value for a column of user_preferences''), w))"

definition updatePreferences :: "env \<Rightarrow> nat option \<Rightarrow> preference_updates \<Rightarrow> preferences io" where
  "updatePreferences env userId preferenceUpdates =
     (if falsy_id userId then throw (OtherError ''User ID is required to update preferences.'')
      else
        await (getPreferences env userId) (\<lambda>currentPrefs.
          let nextPrefs0 = spread currentPrefs preferenceUpdates;
              nextPrefs1 = nextPrefs0\<lparr>common_phrases :=
                  mergeUniqueLists (Some (common_phrases currentPrefs))
                    (upd_common_phrases preferenceUpdates) 10\<rparr>;
              nextPrefs =
                (case upd_disliked_phrases preferenceUpdates of
                   None \<Rightarrow> nextPrefs1
                 | Some incoming \<Rightarrow>
                     nextPrefs1\<lparr>disliked_phrases :=
                       mergeUniqueLists (Some (disliked_phrases currentPrefs)) (Some incoming) 10\<rparr>)
          in await (insert_user_preferences env (the userId) nextPrefs) (\<lambda>row.
               return
                 \<lparr>preferred_tone = (case row_preferred_tone row of None \<Rightarrow> [] | Some v \<Rightarrow> v),
                  emoji_level = (case row_emoji_level row of None \<Rightarrow> 0 | Some v \<Rightarrow> of_int v),
                  common_phrases = or_empty (row_common_phrases row),
                  disliked_phrases = or_empty (row_disliked_phrases row),
                  caption_length_preference =
                    (case row_caption_length_preference row of None \<Rightarrow> [] | Some v \<Rightarrow> v),
                  language_preference =
                    str_or (row_language_preference row) (language_preference nextPrefs),
                  caption_structure =
                    (case row_caption_structure row of
                       None \<Rightarrow> caption_structure nextPrefs | Some c \<Rightarrow> c)\<rparr>)))"

text \<open>\<open>initPreferences\<close> passes a copy of the defaults as the updates.\<close>

definition initPreferences :: "env \<Rightarrow> nat option \<Rightarrow> preferences io" where
  "initPreferences env userId =
     updatePreferences env userId
       \<lparr>upd_preferred_tone = Some (preferred_tone DEFAULT_PREFERENCES),
        upd_emoji_level = Some (emoji_level DEFAULT_PREFERENCES),
        upd_common_phrases = Some (common_phrases DEFAULT_PREFERENCES),
        upd_disliked_phrases = Some (disliked_phrases DEFAULT_PREFERENCES),
        upd_caption_length_preference = Some (caption_length_preference DEFAULT_PREFERENCES),
        upd_language_preference = Some (language_preference DEFAULT_PREFERENCES),
        upd_caption_structure = Some (caption_structure DEFAULT_PREFERENCES)\<rparr>"


section \<open>geminiMemoryEngine.js\<close>

definition clamp :: "rat \<Rightarrow> rat \<Rightarrow> rat \<Rightarrow> rat" where
  "clamp v lo hi = max lo (min hi v)"

text \<open>
  \<open>acc[word] = (acc[word] || 0) + 1\<close> on an object whose keys keep their insertion
  order. The words are the matches of
  \<open>text.toLowerCase().match(...)\<close> for the pattern of six or more letters
  between word boundaries, given by \<open>word_tokens\<close>; the word \<open>constructor\<close>, which an object inherits as a property,
  is outside the model.
\<close>

fun count_word :: "(string \<times> nat) list \<Rightarrow> string \<Rightarrow> (string \<times> nat) list" where
  "count_word [] word = [(word, 1)]"
| "count_word ((k, n) # acc) word =
     (if k = word then (k, n + 1) # acc else (k, n) # count_word acc word)"

definition extractPhrases :: "env \<Rightarrow> string \<Rightarrow> string list" where
  "extractPhrases env text =
     (let words = word_tokens env text
      in if words = [] then []
         else let counts = foldl count_word [] words
              in take 10
                   (map fst
                      (js_sort (\<lambda>a b. fsub (of_nat (snd b)) (of_nat (snd a))) counts)))"

definition is_terminator :: "char \<Rightarrow> bool" where
  "is_terminator c = (c = CHR ''.'' \<or> c = CHR ''!'' \<or> c = CHR ''?'')"

text \<open>
  \<open>detectStructure\<close>. The first match of \<open>/[^.!?]+[.!?]?/\<close> starts at the first
  character that is no terminator, runs to the next terminator and takes it in; there
  is no match when every character is a terminator. The typographic quotation marks
  of \<open>/^["'...]/\<close> lie outside the Latin-1 range.
\<close>

definition detectStructure :: "env \<Rightarrow> string \<Rightarrow> caption_structure" where
  "detectStructure env text =
     (let trimmed = trim text;
          rest = dropWhile is_terminator trimmed;
          run = takeWhile (\<lambda>c. \<not> is_terminator c) rest
      in \<lparr>hasEmojisAtEnd = (trimmed \<noteq> [] \<and> is_emoji env (last trimmed)),
          startsWithQuote =
            (trimmed \<noteq> [] \<and> (hd trimmed = CHR 0x22 \<or> hd trimmed = CHR 0x27)),
          containsLineBreaks = (CHR 0x0A \<in> set text),
          firstSentenceLength =
            (if run = [] then length trimmed
             else length run + (if length run < length rest then 1 else 0))\<rparr>)"

definition mergeLists :: "string list option \<Rightarrow> string list option \<Rightarrow> nat \<Rightarrow> string list" where
  "mergeLists listA listB limit =
     take limit
       (foldl (\<lambda>s item. if item \<noteq> [] \<and> 0 < length (trim item) then set_add s (trim item) else s)
          [] (or_empty listA @ or_empty listB))"

definition detectTone :: "string \<Rightarrow> string" where
  "detectTone text =
     (if text = [] then ''casual''
      else if CHR ''!'' \<in> set text then ''energetic''
      else if 200 < length text then ''detailed''
      else ''casual'')"

definition detectLengthPreference :: "string \<Rightarrow> string" where
  "detectLengthPreference text =
     (if length text < 150 then ''short''
      else if length text < 250 then ''medium''
      else ''long'')"

text \<open>The matches of \<open>EMOJI_REGEX\<close> are the characters of the Unicode emoji classes.\<close>

definition detectEmojiLevel :: "env \<Rightarrow> string \<Rightarrow> rat" where
  "detectEmojiLevel env text = clamp (of_nat (length (filter (is_emoji env) text))) 0 5"

text \<open>
  \<open>learnFromCaption(userId, finalCaption = '', context = {})\<close>. \<open>None\<close> for the
  caption is \<open>undefined\<close> or \<open>null\<close>; the result \<open>None\<close> is \<open>null\<close>. The object
  returned has no key \<open>disliked_phrases\<close>.
\<close>

definition learnFromCaption ::
  "env \<Rightarrow> nat option \<Rightarrow> string option \<Rightarrow> string option \<Rightarrow> preference_updates option io" where
  "learnFromCaption env userId finalCaption context_language =
     (if falsy_id userId \<or> finalCaption = None \<or> finalCaption = Some [] then return None
      else
        let caption = the finalCaption in
        await (getPreferences env userId) (\<lambda>existingPrefs.
          let languagePreference =
                str_or context_language (language_preference existingPrefs);
              detectedEmoji = detectEmojiLevel env caption;
              newEmojiLevel = fdiv (fadd (emoji_level existingPrefs) detectedEmoji) 2;
              detectedTone = detectTone caption;
              extractedPhrases = extractPhrases env caption;
              structure = detectStructure env caption;
              lengthPreference = detectLengthPreference caption
          in return (Some
               \<lparr>upd_preferred_tone = Some (str_or (Some detectedTone) (preferred_tone existingPrefs)),
                upd_emoji_level = Some (toFixed2 newEmojiLevel),
                upd_common_phrases =
                  Some (mergeLists (Some (common_phrases existingPrefs)) (Some extractedPhrases) 10),
                upd_disliked_phrases = None,
                upd_caption_length_preference = Some lengthPreference,
                upd_language_preference =
                  Some (str_or (Some languagePreference) (language_preference existingPrefs)),
                upd_caption_structure = Some structure\<rparr>)))"


section \<open>languageService: the language advisor\<close>

definition FRANC_TO_ISO :: "(string \<times> string) list" where
  "FRANC_TO_ISO =
     [(''eng'', ''en''), (''hin'', ''hi''), (''tel'', ''te''), (''tam'', ''ta''),
      (''kan'', ''kn''), (''mal'', ''ml''), (''ben'', ''bn''), (''mar'', ''mr''),
      (''pan'', ''pa''), (''guj'', ''gu''), (''urd'', ''ur''), (''spa'', ''es''),
      (''deu'', ''de''), (''fra'', ''fr'')]"

definition LANGUAGE_LABELS :: "(string \<times> string) list" where
  "LANGUAGE_LABELS =
     [(''en'', ''English''), (''hi'', ''Hindi''), (''te'', ''Telugu''), (''ta'', ''Tamil''),
      (''kn'', ''Kannada''), (''ml'', ''Malayalam''), (''bn'', ''Bengali''),
      (''mr'', ''Marathi''), (''pa'', ''Punjabi''), (''gu'', ''Gujarati''), (''ur'', ''Urdu''),
      (''es'', ''Spanish''), (''de'', ''German''), (''fr'', ''French'')]"

definition DEFAULT_LANGUAGE :: string where
  "DEFAULT_LANGUAGE = ''en''"

definition mapFrancToIso :: "string \<Rightarrow> string option" where
  "mapFrancToIso code =
     (if code = [] \<or> code = ''und'' then None else map_of FRANC_TO_ISO code)"

text \<open>\<open>\w\<close> is a letter of a to z in either case, a digit or the underscore.\<close>

definition is_word_char :: "char \<Rightarrow> bool" where
  "is_word_char c =
     (let n = (of_char c :: nat)
      in (65 \<le> n \<and> n \<le> 90) \<or> (97 \<le> n \<and> n \<le> 122) \<or> (48 \<le> n \<and> n \<le> 57) \<or> n = 95)"

definition is_tag_char :: "char \<Rightarrow> bool" where
  "is_tag_char c = (is_word_char c \<or> c = CHR ''-'')"

text \<open>\<open>.replace(/[#@][\w-]+/g, ' ')\<close>\<close>

function replace_tags :: "string \<Rightarrow> string" where
  "replace_tags [] = []"
| "replace_tags (c # cs) =
     (if (c = CHR ''#'' \<or> c = CHR ''@'') \<and> cs \<noteq> [] \<and> is_tag_char (hd cs)
      then CHR '' '' # replace_tags (dropWhile is_tag_char cs)
      else c # replace_tags cs)"
  by pat_completeness auto
termination
  by (relation "measure length") (auto simp: length_dropWhile_le less_Suc_eq_le)

text \<open>\<open>.replace(/https?:\/\/\S+/g, ' ')\<close>\<close>

definition after_scheme :: "string \<Rightarrow> string option" where
  "after_scheme s =
     (if take 8 s = ''https://'' then Some (drop 8 s)
      else if take 7 s = ''http://'' then Some (drop 7 s)
      else None)"

function replace_urls :: "string \<Rightarrow> string" where
  "replace_urls [] = []"
| "replace_urls (c # cs) =
     (case after_scheme (c # cs) of
        None \<Rightarrow> c # replace_urls cs
      | Some rest \<Rightarrow>
          if rest \<noteq> [] \<and> \<not> is_space (hd rest)
          then CHR '' '' # replace_urls (dropWhile (\<lambda>x. \<not> is_space x) rest)
          else c # replace_urls cs)"
  by pat_completeness auto
termination
proof (relation "measure length")
  fix c :: char and cs rest :: string
  assume "after_scheme (c # cs) = Some rest"
  then have "length rest < length (c # cs)"
    by (auto simp: after_scheme_def split: if_splits)
  moreover have "length (dropWhile (\<lambda>x. \<not> is_space x) rest) \<le> length rest"
    by (rule length_dropWhile_le)
  ultimately show "(dropWhile (\<lambda>x. \<not> is_space x) rest, c # cs) \<in> measure length"
    by simp
qed auto

text \<open>\<open>.replace(/\s+/g, ' ')\<close>\<close>

function collapse_spaces :: "string \<Rightarrow> string" where
  "collapse_spaces [] = []"
| "collapse_spaces (c # cs) =
     (if is_space c then CHR '' '' # collapse_spaces (dropWhile is_space cs)
      else c # collapse_spaces cs)"
  by pat_completeness auto
termination
  by (relation "measure length") (auto simp: length_dropWhile_le less_Suc_eq_le)

definition sanitizeText :: "string \<Rightarrow> string" where
  "sanitizeText text = trim (collapse_spaces (replace_urls (replace_tags text)))"

record detection =
  isoCode :: string
  label :: string
  raw :: string

text \<open>
  \<open>detectLanguageFromCaption\<close>; \<open>None\<close> as the argument is a value that is no string
  (\<open>null\<close>, \<open>undefined\<close>). \<open>franc\<close> is called with the whitelist of the keys of
  \<open>FRANC_TO_ISO\<close>.
\<close>

definition detectLanguageFromCaption :: "env \<Rightarrow> string option \<Rightarrow> detection option" where
  "detectLanguageFromCaption env text =
     (case text of
        None \<Rightarrow> None
      | Some t \<Rightarrow>
          if t = [] then None
          else let cleaned = sanitizeText t
               in if length cleaned < 3 then None
                  else let francCode = franc env cleaned
                       in case mapFrancToIso francCode of
                            None \<Rightarrow> None
                          | Some code \<Rightarrow>
                              if code = [] then None
                              else Some \<lparr>isoCode = code,
                                         label = str_or (map_of LANGUAGE_LABELS code) code,
                                         raw = francCode\<rparr>)"

text \<open>
  The loop of \<open>detectLanguageDistributionForUser\<close> over the posts: the tally (a
  \<open>Map\<close>, which keeps the order of first insertion) and the total.
\<close>

definition post_language :: "env \<Rightarrow> saved_post \<Rightarrow> string option" where
  "post_language env post =
     (case detectLanguageFromCaption env (Some (sp_caption post)) of
        Some d \<Rightarrow> if isoCode d \<noteq> [] then Some (isoCode d)
                  else if sp_language post \<noteq> [] then Some (sp_language post) else None
      | None \<Rightarrow> if sp_language post \<noteq> [] then Some (sp_language post) else None)"

fun tally_posts ::
  "env \<Rightarrow> saved_post list \<Rightarrow> (string \<times> nat) list \<times> nat \<Rightarrow> (string \<times> nat) list \<times> nat" where
  "tally_posts env [] (tally, tot) = (tally, tot)"
| "tally_posts env (post # posts) (tally, tot) =
     (case post_language env post of
        None \<Rightarrow> tally_posts env posts (tally, tot)
      | Some lang \<Rightarrow> tally_posts env posts (count_word tally lang, tot + 1))"

text \<open>
  The distribution is an object from the language to its share, in the order of the
  tally (a language whose name is a canonical array index would come first, and is
  outside the model); \<open>None\<close> is \<open>null\<close>.
\<close>

definition detectLanguageDistributionForUser ::
  "env \<Rightarrow> nat option \<Rightarrow> nat \<Rightarrow> (string \<times> rat) list option io" where
  "detectLanguageDistributionForUser env userId limit =
     (if falsy_id userId then return None
      else await (getSavedPosts env (the userId) (Some limit)) (\<lambda>posts.
             if posts = [] then return None
             else let (tally, tot) = tally_posts env posts ([], 0)
                  in if tot = 0 then return None
                     else return (Some (map (\<lambda>(lang, n).
                                    (lang, fdiv (of_nat n) (of_nat tot))) tally))))"

record recommend_args =
  userId :: "nat option"
  captionText :: "string option"
  preferredLanguage :: "string option"
  imageLanguageHint :: "string option"
  fallbackLanguage :: "string option"

record language_recommendation =
  mode :: string
  primary :: string
  secondary :: "string option"
  reason :: string
  sources :: "string list"

definition truthy :: "string option \<Rightarrow> bool" where
  "truthy v = (case v of None \<Rightarrow> False | Some s \<Rightarrow> s \<noteq> [])"

text \<open>The branch of \<open>recommendLanguage\<close> under \<open>if (distribution)\<close>.\<close>

definition from_distribution ::
  "(string \<times> rat) list \<Rightarrow> string list \<Rightarrow> language_recommendation io" where
  "from_distribution distribution srcs =
     (let ranked = js_sort (\<lambda>a b. fsub (snd b) (snd a)) distribution
      in case ranked of
           [] \<Rightarrow> throw (OtherError ''undefined is not iterable'')
         | (topLang, topShare) # others \<Rightarrow>
             let secondLang = (case others of [] \<Rightarrow> None | second # _ \<Rightarrow> Some (fst second));
                 secondShare = (case others of [] \<Rightarrow> 0 | second # _ \<Rightarrow> snd second)
             in if fl (7/10) \<le> topShare then
                  return \<lparr>mode = ''single'', primary = topLang, secondary = None,
                          reason = ''audience-majority'', sources = srcs\<rparr>
                else if fl (1/2) \<le> topShare \<and> fl (2/10) \<le> secondShare then
                  return \<lparr>mode = ''bilingual'', primary = topLang, secondary = secondLang,
                          reason = ''audience-mixed'', sources = srcs\<rparr>
                else
                  return \<lparr>mode = ''single'', primary = topLang, secondary = None,
                          reason = ''audience-default'', sources = srcs\<rparr>)"

definition recommendLanguage :: "env \<Rightarrow> recommend_args \<Rightarrow> language_recommendation io" where
  "recommendLanguage env args =
     (if truthy (preferredLanguage args) then
        return \<lparr>mode = ''single'', primary = the (preferredLanguage args), secondary = None,
                reason = ''user-preference'', sources = [''preference'']\<rparr>
      else
        let captionDetection =
              (if truthy (captionText args)
               then detectLanguageFromCaption env (captionText args) else None);
            sources1 = (if captionDetection \<noteq> None then [''caption''] else [])
        in await (detectLanguageDistributionForUser env (userId args) 50) (\<lambda>distribution.
             let sources2 = (if distribution \<noteq> None then sources1 @ [''history''] else sources1)
             in if captionDetection \<noteq> None \<and> isoCode (the captionDetection) \<noteq> [] then
                  return \<lparr>mode = ''single'', primary = isoCode (the captionDetection),
                          secondary = None, reason = ''caption-detected'', sources = sources2\<rparr>
                else if truthy (imageLanguageHint args) then
                  return \<lparr>mode = ''single'', primary = the (imageLanguageHint args),
                          secondary = None, reason = ''image-detected'',
                          sources = sources2 @ [''image'']\<rparr>
                else if distribution \<noteq> None then
                  from_distribution (the distribution) sources2
                else
                  return \<lparr>mode = ''single'',
                          primary = (case fallbackLanguage args of
                                       None \<Rightarrow> DEFAULT_LANGUAGE | Some f \<Rightarrow> f),
                          secondary = None, reason = ''fallback'', sources = sources2\<rparr>))"

definition describeLanguage :: "string option \<Rightarrow> string option" where
  "describeLanguage code =
     (if truthy code then Some (str_or (map_of LANGUAGE_LABELS (the code)) (the code))
      else None)"


section \<open>captionHistoryService.js\<close>

text \<open>\<open>saveEntry\<close>; \<open>feedback_score INT CHECK (feedback_score BETWEEN 0 AND 5)\<close>.\<close>

definition saveEntry :: "env \<Rightarrow> nat \<Rightarrow> string \<Rightarrow> string \<Rightarrow> int \<Rightarrow> caption_history_row io" where
  "saveEntry env uid generatedCaption finalCaption feedbackScore =
     query env InsertCaptionHistory
       (\<lambda>w. if \<not> (0 \<le> feedbackScore \<and> feedbackScore \<le> 5)
            then (Inl (StoreFailure ''violates check constraint: feedback_score''), w)
            else if users w uid = None then (Inl foreign_key, w)
            else
              let row = \<lparr>ch_user_id = uid, ch_generated_caption = generatedCaption,
                         ch_final_caption = finalCaption, ch_feedback_score = feedbackScore\<rparr>
              in (Inr row, w\<lparr>caption_history := row # caption_history w\<rparr>))"

section \<open>routes/generate.js\<close>

subsection \<open>Helper functions\<close>

text \<open>
  \<open>voiceProfile[dimension]\<close> is a column of type \<open>DECIMAL(3,2)\<close>, which the driver
  hands over as a decimal text; the arithmetic operator converts it to the nearest
  Number. \<open>contentAnalysis[dimension]\<close> is a Number.
\<close>

definition profileValue :: "voice_profile_row \<Rightarrow> dimension \<Rightarrow> rat" where
  "profileValue voiceProfile d = fl (dims voiceProfile d)"

definition calculateConsistencyScore :: "voice_profile_row \<Rightarrow> voice_vector \<Rightarrow> rat" where
  "calculateConsistencyScore voiceProfile contentAnalysis =
     (let totalScore =
            foldl (\<lambda>total d.
                     let difference = \<bar>fsub (profileValue voiceProfile d) (contentAnalysis d)\<bar>;
                         dimensionScore = max 0 (fsub 1 difference)
                     in fadd total dimensionScore)
              0 all_dimensions
      in fdiv (Math_round (fmul (fdiv totalScore (of_nat (length all_dimensions))) 100)) 100)"

record recommendation =
  dimension :: string
  difference :: rat
  suggestion :: string

definition toLowerCase :: "string \<Rightarrow> string" where
  "toLowerCase s =
     map (\<lambda>c. let n = (of_char c :: nat)
              in if 65 \<le> n \<and> n \<le> 90 then char_of (n + 32) else c) s"

definition profileLabel :: "dimension \<Rightarrow> string" where
  "profileLabel d =
     (case d of Formality \<Rightarrow> ''Formality'' | Humor \<Rightarrow> ''Humor''
      | Enthusiasm \<Rightarrow> ''Enthusiasm'' | Professionalism \<Rightarrow> ''Professionalism''
      | Creativity \<Rightarrow> ''Creativity'' | Emotional_tone \<Rightarrow> ''Emotional Tone''
      | Confidence \<Rightarrow> ''Confidence'' | Warmth \<Rightarrow> ''Warmth'')"

definition contentLabel :: "dimension \<Rightarrow> string" where
  "contentLabel d =
     (case d of Formality \<Rightarrow> ''Formal'' | Humor \<Rightarrow> ''Humorous''
      | Enthusiasm \<Rightarrow> ''Enthusiastic'' | Professionalism \<Rightarrow> ''Professional''
      | Creativity \<Rightarrow> ''Creative'' | Emotional_tone \<Rightarrow> ''Emotional''
      | Confidence \<Rightarrow> ''Confident'' | Warmth \<Rightarrow> ''Warm'')"

definition threshold :: rat where
  "threshold = fl (3/10)"

definition direction :: "voice_profile_row \<Rightarrow> voice_vector \<Rightarrow> dimension \<Rightarrow> string" where
  "direction voiceProfile contentAnalysis d =
     (if profileValue voiceProfile d < contentAnalysis d then ''more'' else ''less'')"

definition recommend_entry ::
  "voice_profile_row \<Rightarrow> voice_vector \<Rightarrow> dimension \<Rightarrow> recommendation" where
  "recommend_entry voiceProfile contentAnalysis d =
     \<lparr>dimension = profileLabel d,
      difference =
        Math_round (fmul \<bar>fsub (profileValue voiceProfile d) (contentAnalysis d)\<bar> 100),
      suggestion =
        ''Consider making the content '' @ direction voiceProfile contentAnalysis d @ '' ''
          @ toLowerCase (contentLabel d) @ '' to better match your brand voice''\<rparr>"

definition generateConsistencyRecommendations ::
  "voice_profile_row \<Rightarrow> voice_vector \<Rightarrow> recommendation list" where
  "generateConsistencyRecommendations voiceProfile contentAnalysis =
     foldl (\<lambda>recommendations d.
              if threshold < \<bar>fsub (profileValue voiceProfile d) (contentAnalysis d)\<bar>
              then recommendations @ [recommend_entry voiceProfile contentAnalysis d]
              else recommendations)
       [] all_dimensions"

text \<open>
  \<open>calculateRefinementAccuracy\<close>: a key that the refined profile lacks makes the sum,
  and \<open>Math.max\<close> of it, \<open>NaN\<close> (\<open>None\<close>).
\<close>

definition calculateRefinementAccuracy ::
  "voice_profile_row \<Rightarrow> refined_profile \<Rightarrow> rat option" where
  "calculateRefinementAccuracy oldProfile newProfile =
     (case (refined newProfile Formality, refined newProfile Humor,
            refined newProfile Enthusiasm) of
        (Some f, Some h, Some e) \<Rightarrow>
          let changes =
                fadd (fadd \<bar>fsub f (profileValue oldProfile Formality)\<bar>
                           \<bar>fsub h (profileValue oldProfile Humor)\<bar>)
                     \<bar>fsub e (profileValue oldProfile Enthusiasm)\<bar>
          in Some (max (fl (7/10)) (fsub 1 changes))
      | _ \<Rightarrow> None)"

text \<open>
  The refined profile as the \<open>voiceData\<close> of \<open>upsertVoiceProfile\<close>: it has no
  \<open>profileName\<close>, and its key \<open>emotional_tone\<close> is not the key \<open>emotionalTone\<close>
  that the upsert reads.
\<close>

definition as_voice_data :: "refined_profile \<Rightarrow> voice_data" where
  "as_voice_data refinedProfile =
     \<lparr>profileName = None,
      supplied = (\<lambda>d. if d = Emotional_tone then None else refined refinedProfile d)\<rparr>"

definition triggerVoiceRefinement :: "env \<Rightarrow> nat \<Rightarrow> unit io" where
  "triggerVoiceRefinement env uid =
     try_catch
       (await (getContentAnalysisHistory env uid 20) (\<lambda>analysisHistory.
        await (getVoiceFeedbackHistory env uid 10) (\<lambda>feedbackHistory.
          if length analysisHistory < 5 then return ()
          else
            await (getVoiceProfile env uid) (\<lambda>currentProfile.
              case currentProfile of
                None \<Rightarrow> return ()
              | Some current \<Rightarrow>
                  await (ask RefineVoiceProfile
                           (refine_oracle env analysisHistory feedbackHistory current))
                    (\<lambda>refinedProfile.
                  await (upsertVoiceProfile env uid (as_voice_data refinedProfile)) (\<lambda>_.
                  await (recordTrainingSession env uid
                           \<lparr>trainingType = ''feedback_based'',
                            samplesUsed = length analysisHistory,
                            accuracyScore = calculateRefinementAccuracy current refinedProfile,
                            trainingDuration = fadd (of_int \<lfloor>fmul (random env) 30\<rfloor>) 10\<rparr>)
                    (\<lambda>_. return ())))))))
       (\<lambda>error. return ())"


subsection \<open>Route handlers\<close>

text \<open>
  What a handler sends: \<open>res.json\<close> of a body, or \<open>res.status(n).json\<close> of an
  error text and, in a \<open>catch\<close>, the message of the error caught.
\<close>

datatype 'a response = Json 'a | Status nat string "string option"

text \<open>
  \<open>POST /create-voice-profile\<close>: the destructuring of \<open>req.body\<close> gives a key that
  is absent its default.
\<close>

definition with_defaults :: "voice_data \<Rightarrow> voice_data" where
  "with_defaults body =
     \<lparr>profileName =
        Some (case profileName body of None \<Rightarrow> ''Default Profile'' | Some n \<Rightarrow> n),
      supplied = (\<lambda>d. Some (case supplied body d of None \<Rightarrow> 1/2 | Some v \<Rightarrow> v))\<rparr>"

definition post_create_voice_profile ::
  "env \<Rightarrow> nat \<Rightarrow> voice_data \<Rightarrow> voice_profile_row response io" where
  "post_create_voice_profile env uid body =
     try_catch
       (await (upsertVoiceProfile env uid (with_defaults body)) (\<lambda>voiceProfile.
          return (Json voiceProfile)))
       (\<lambda>error. return (Status 500 ''Failed to create voice profile'' (Some (message error))))"

text \<open>\<open>PUT /voice-profiles/:id\<close>: \<open>req.body\<close> goes to the upsert as it is.\<close>

definition put_voice_profile ::
  "env \<Rightarrow> nat \<Rightarrow> voice_data \<Rightarrow> voice_profile_row response io" where
  "put_voice_profile env uid updates =
     try_catch
       (await (upsertVoiceProfile env uid updates) (\<lambda>voiceProfile.
          return (Json voiceProfile)))
       (\<lambda>error. return (Status 500 ''Failed to update voice profile'' (Some (message error))))"

text \<open>\<open>POST /voice-feedback\<close>\<close>

definition post_voice_feedback ::
  "env \<Rightarrow> nat \<Rightarrow> feedback_data \<Rightarrow> voice_feedback_row response io" where
  "post_voice_feedback env uid body =
     try_catch
       (if fb_contentType body = [] \<or> feedbackType body = [] then
          return (Status 400 ''Content type and feedback type are required'' None)
        else
          await (storeVoiceFeedback env uid body) (\<lambda>feedback.
          await (triggerVoiceRefinement env uid) (\<lambda>_.
            return (Json feedback))))
       (\<lambda>error. return (Status 500 ''Failed to store voice feedback'' (Some (message error))))"

text \<open>
  \<open>POST /analyze-voice\<close>. A text of the request that is missing is the empty
  string; the language of the request only reaches the oracle.
\<close>

definition post_analyze_voice ::
  "env \<Rightarrow> nat \<Rightarrow> string \<Rightarrow> string \<Rightarrow> voice_analysis response io" where
  "post_analyze_voice env uid contentText contentType =
     try_catch
       (if contentText = [] \<or> contentType = [] then
          return (Status 400 ''Content text and content type are required for voice analysis''
                    None)
        else
          await (ask AnalyzeContentVoice (analyze_oracle env contentText)) (\<lambda>voiceAnalysis.
          await (storeContentAnalysis env uid contentType contentText voiceAnalysis) (\<lambda>_.
            return (Json voiceAnalysis))))
       (\<lambda>error. return (Status 500 ''Failed to analyze voice characteristics''
                          (Some (message error))))"

text \<open>\<open>GET /voice-profiles\<close> and \<open>GET /voice-profiles/:id\<close>\<close>

definition get_voice_profiles :: "env \<Rightarrow> nat \<Rightarrow> voice_profile_row option response io" where
  "get_voice_profiles env uid =
     try_catch
       (await (getVoiceProfile env uid) (\<lambda>voiceProfile. return (Json voiceProfile)))
       (\<lambda>error. return (Status 500 ''Failed to retrieve voice profiles'' (Some (message error))))"

definition get_voice_profile_by_id :: "env \<Rightarrow> nat \<Rightarrow> voice_profile_row response io" where
  "get_voice_profile_by_id env uid =
     try_catch
       (await (getVoiceProfile env uid) (\<lambda>voiceProfile.
          case voiceProfile of
            None \<Rightarrow> return (Status 404 ''Voice profile not found'' None)
          | Some profile \<Rightarrow> return (Json profile)))
       (\<lambda>error. return (Status 500 ''Failed to retrieve voice profile'' (Some (message error))))"

text \<open>
  \<open>GET /content-analysis\<close>; \<open>None\<close> is a query without \<open>limit\<close>, and a limit that
  is given is taken to be a natural number. Of the response the model keeps the two
  histories.
\<close>

definition get_content_analysis ::
  "env \<Rightarrow> nat \<Rightarrow> nat option
    \<Rightarrow> (content_analysis_row list \<times> voice_feedback_row list) response io" where
  "get_content_analysis env uid query_limit =
     try_catch
       (let limit = (case query_limit of None \<Rightarrow> 50 | Some n \<Rightarrow> n) in
          await (getContentAnalysisHistory env uid limit) (\<lambda>analysisHistory.
          await (getVoiceFeedbackHistory env uid limit) (\<lambda>feedbackHistory.
            return (Json (analysisHistory, feedbackHistory)))))
       (\<lambda>error. return (Status 500 ''Failed to retrieve content analysis''
                          (Some (message error))))"

text \<open>
  \<open>POST /validate-consistency\<close>; of the response the model keeps the score and the
  recommendations.
\<close>

definition post_validate_consistency ::
  "env \<Rightarrow> nat \<Rightarrow> string \<Rightarrow> (rat \<times> recommendation list) response io" where
  "post_validate_consistency env uid contentText =
     try_catch
       (if contentText = [] then
          return (Status 400 ''Content text is required for consistency validation'' None)
        else
          await (getVoiceProfile env uid) (\<lambda>voiceProfile.
            case voiceProfile of
              None \<Rightarrow>
                return (Status 404
                  ''No voice profile found. Please create a voice profile first.'' None)
            | Some profile \<Rightarrow>
                await (ask AnalyzeContentVoice (analyze_oracle env contentText))
                  (\<lambda>contentAnalysis.
                     return (Json (calculateConsistencyScore profile (analysed contentAnalysis),
                                   generateConsistencyRecommendations profile
                                     (analysed contentAnalysis))))))
       (\<lambda>error. return (Status 500 ''Failed to validate content consistency''
                          (Some (message error))))"

text \<open>
  \<open>POST /\<close>, the text generation. Of the request the model keeps the topic, which
  stands for the whole prompt, and the language; of the response the caption, the
  \<open>memorySnapshot\<close>, \<open>voiceProfileUsed\<close> and whether the history entry has an id.
\<close>

record generate_request =
  topic :: string
  mood :: string
  persona :: string
  language :: string

record generate_body =
  caption :: string
  memorySnapshot :: preferences
  voiceProfileUsed :: bool
  historyEntryId :: bool

text \<open>The three \<open>try\<close> blocks of the handler, whose \<open>catch\<close> only logs a warning.\<close>

definition analysis_block :: "env \<Rightarrow> nat \<Rightarrow> string \<Rightarrow> unit io" where
  "analysis_block env uid generatedCaption =
     try_catch
       (await (ask AnalyzeContentVoice (analyze_oracle env generatedCaption))
          (\<lambda>contentAnalysis.
        await (storeContentAnalysis env uid ''caption'' generatedCaption contentAnalysis)
          (\<lambda>_. return ())))
       (\<lambda>analysisError. return ())"

definition memory_block ::
  "env \<Rightarrow> nat \<Rightarrow> string \<Rightarrow> string \<Rightarrow> preferences \<Rightarrow> preferences io" where
  "memory_block env uid generatedCaption lang memoryPreferences =
     try_catch
       (await (learnFromCaption env (Some uid) (Some generatedCaption) (Some lang))
          (\<lambda>learnedPrefs.
             case learnedPrefs of
               None \<Rightarrow> return memoryPreferences
             | Some learned \<Rightarrow> updatePreferences env (Some uid) learned))
       (\<lambda>memoryError. return memoryPreferences)"

definition history_block :: "env \<Rightarrow> nat \<Rightarrow> string \<Rightarrow> bool io" where
  "history_block env uid generatedCaption =
     try_catch
       (await (saveEntry env uid generatedCaption generatedCaption 5)
          (\<lambda>historyEntry. return True))
       (\<lambda>historyError. return False)"

definition post_generate :: "env \<Rightarrow> nat \<Rightarrow> generate_request \<Rightarrow> generate_body response io" where
  "post_generate env uid req =
     try_catch
       (if topic req = [] \<or> mood req = [] \<or> persona req = [] \<or> language req = [] then
          return (Status 400 ''Topic, mood, persona, and language are required'' None)
        else
          await (getUserById env uid) (\<lambda>user.
          await (getVoiceProfile env uid) (\<lambda>voiceProfile.
          await (getPreferences env (Some uid)) (\<lambda>userPreferences.
            let memoryPreferences =
                  userPreferences\<lparr>language_preference :=
                    str_or (Some (language_preference userPreferences)) (language req)\<rparr>
            in
          await (ask GenerateCaptionAndHashtags (generate_oracle env (topic req)))
            (\<lambda>generatedCaption.
          await (analysis_block env uid generatedCaption) (\<lambda>_.
          await (memory_block env uid generatedCaption (language req) memoryPreferences)
            (\<lambda>updatedPreferences.
          await (history_block env uid generatedCaption) (\<lambda>saved.
            return (Json \<lparr>caption = generatedCaption,
                          memorySnapshot = updatedPreferences,
                          voiceProfileUsed = (voiceProfile \<noteq> None),
                          historyEntryId = saved\<rparr>)))))))))
       (\<lambda>error. return (Status 500 ''Failed to generate content'' (Some (message error))))"

text \<open>
  \<open>POST /image-caption\<close>, whose \<open>try\<close> block around the content analysis is the one
  of \<open>POST /\<close>; of the response the model keeps the caption and \<open>voiceProfileUsed\<close>.
\<close>

definition post_image_caption ::
  "env \<Rightarrow> nat \<Rightarrow> string \<Rightarrow> string \<Rightarrow> string \<Rightarrow> (string \<times> bool) response io" where
  "post_image_caption env uid base64Image mimeType lang =
     try_catch
       (if base64Image = [] \<or> mimeType = [] \<or> lang = [] then
          return (Status 400 ''Image data, MIME type, and language are required.'' None)
        else
          await (getUserById env uid) (\<lambda>user.
          await (getVoiceProfile env uid) (\<lambda>voiceProfile.
          await (ask GenerateCaptionAndHashtagsFromImage (image_oracle env base64Image))
            (\<lambda>generatedCaption.
          await (analysis_block env uid generatedCaption) (\<lambda>_.
            return (Json (generatedCaption, voiceProfile \<noteq> None)))))))
       (\<lambda>error. return (Status 500 ''Failed to generate content from image''
                          (Some (message error))))"

text \<open>\<open>POST /suggest-ctas\<close>; of the response the model keeps the suggestions and \<open>voiceProfileUsed\<close>.\<close>

definition post_suggest_ctas ::
  "env \<Rightarrow> nat \<Rightarrow> string \<Rightarrow> string \<Rightarrow> (string list \<times> bool) response io" where
  "post_suggest_ctas env uid caption_text postGoal =
     try_catch
       (if caption_text = [] \<or> postGoal = [] then
          return (Status 400 ''Caption text and post goal are required for CTA suggestions.''
                    None)
        else
          await (getUserById env uid) (\<lambda>user.
          await (getVoiceProfile env uid) (\<lambda>voiceProfile.
          await (ask SuggestCTAs (cta_oracle env caption_text)) (\<lambda>suggestedCTAs.
            return (Json (suggestedCTAs, voiceProfile \<noteq> None))))))
       (\<lambda>error. return (Status 500 ''Failed to suggest CTAs'' (Some (message error))))"

section \<open>Properties\<close>

subsection \<open>The phrase lists of the preference profile\<close>

text \<open>An entry is blank when it is empty or made of white space only.\<close>

definition blank :: "string \<Rightarrow> bool" where
  "blank s = (\<forall>c \<in> set s. is_space c)"

definition phrase_list_ok :: "string list \<Rightarrow> bool" where
  "phrase_list_ok xs = (length xs \<le> 10 \<and> distinct xs \<and> (\<forall>x \<in> set xs. \<not> blank x))"

definition stored_lists_ok :: "world \<Rightarrow> bool" where
  "stored_lists_ok w =
     (\<forall>row \<in> ran (user_preferences w).
        phrase_list_ok (or_empty (row_common_phrases row))
        \<and> phrase_list_ok (or_empty (row_disliked_phrases row)))"

text \<open>
  The states of the database that the preference operations reach from a table
  \<open>user_preferences\<close> without rows.
\<close>

inductive reachable :: "world \<Rightarrow> bool" where
  start: "user_preferences w = Map.empty \<Longrightarrow> reachable w"
| update:
    "reachable w \<Longrightarrow> updatePreferences env uid upd w = (r, w') \<Longrightarrow> reachable w'"
| init: "reachable w \<Longrightarrow> initPreferences env uid w = (r, w') \<Longrightarrow> reachable w'"
| learn:
    "reachable w \<Longrightarrow> learnFromCaption env uid finalCaption lang w = (r, w') \<Longrightarrow> reachable w'"
| generate: "reachable w \<Longrightarrow> post_generate env n req w = (r', w') \<Longrightarrow> reachable w'"


text \<open>An operation keeps a property of the state, whatever it returns or throws.\<close>

definition preserves :: "(world \<Rightarrow> bool) \<Rightarrow> 'a io \<Rightarrow> bool" where
  "preserves P m = (\<forall>w. P w \<longrightarrow> P (snd (m w)))"


subsection \<open>A concrete environment and state\<close>

text \<open>
  An environment in which no query fails, the language model is unreachable, and no
  character is an emoji; a database without rows, and one whose only row is the
  user 1.
\<close>

definition example_env :: env where
  "example_env =
     \<lparr>store_fails = (\<lambda>_. None),
      refine_oracle = (\<lambda>_ _ _. Inl (OracleFailure ''Failed to refine voice profile.'')),
      analyze_oracle =
        (\<lambda>_. Inl (OracleFailure ''Failed to analyze content voice characteristics.'')),
      generate_oracle = (\<lambda>_. Inl (OracleFailure ''Failed to generate content.'')),
      image_oracle = (\<lambda>_. Inl (OracleFailure ''Failed to generate content from image.'')),
      cta_oracle = (\<lambda>_. Inl (OracleFailure ''Failed to suggest CTAs.'')),
      random = 0,
      franc = (\<lambda>_. ''und''),
      is_emoji = (\<lambda>_. False),
      word_tokens = (\<lambda>_. [])\<rparr>"

definition empty_world :: world where
  "empty_world =
     \<lparr>users = Map.empty, voice_profiles = Map.empty, content_analysis = [],
      voice_feedback = [], voice_training_sessions = [], user_preferences = Map.empty,
      saved_posts = [], caption_history = [], calls = []\<rparr>"

definition example_user :: user_row where
  "example_user = \<lparr>brand_voice = None, target_audience = None\<rparr>"

definition one_user_world :: world where
  "one_user_world = empty_world\<lparr>users := [1 \<mapsto> example_user]\<rparr>"

definition no_updates :: preference_updates where
  "no_updates =
     \<lparr>upd_preferred_tone = None, upd_emoji_level = None, upd_common_phrases = None,
      upd_disliked_phrases = None, upd_caption_length_preference = None,
      upd_language_preference = None, upd_caption_structure = None\<rparr>"


subsection \<open>The preference profile as a blank caption leaves it\<close>

text \<open>The number of \<open>INSERT\<close> statements sent for \<open>user_preferences\<close> so far.\<close>

definition preference_writes :: "world \<Rightarrow> nat" where
  "preference_writes w = length (filter (\<lambda>c. c = Store InsertUserPreferences) (calls w))"

definition preferences_as_in :: "world \<Rightarrow> world \<Rightarrow> bool" where
  "preferences_as_in w0 w =
     (user_preferences w = user_preferences w0 \<and> preference_writes w = preference_writes w0)"

definition example_request :: generate_request where
  "example_request =
     \<lparr>topic = ''sunset'', mood = ''calm'', persona = ''traveller'', language = ''English''\<rparr>"

subsection \<open>The frame of an operation\<close>

text \<open>
  From \<open>w\<close> to \<open>w'\<close> no table has changed, and the calls made are among the allowed
  ones.
\<close>

definition only_calls :: "call set \<Rightarrow> world \<Rightarrow> world \<Rightarrow> bool" where
  "only_calls allowed w w' = (\<exists>k. w' = w\<lparr>calls := calls w @ k\<rparr> \<and> set k \<subseteq> allowed)"

text \<open>A user with six analysis records and a profile; a language model that answers.\<close>

definition example_analysis_row :: content_analysis_row where
  "example_analysis_row =
     \<lparr>ca_user_id = 1, ca_content_type = ''caption'', ca_content_text = ''hello'',
      ca_analyzed = (\<lambda>_. Some (1/2)), ca_analysis_confidence = 1/2\<rparr>"

definition example_profile :: voice_profile_row where
  "example_profile =
     \<lparr>profile_name = ''Default Profile'', dims = (\<lambda>_. 1/2), is_active = True\<rparr>"

definition trained_world :: world where
  "trained_world =
     one_user_world\<lparr>content_analysis := replicate 6 example_analysis_row,
                  voice_profiles := [1 \<mapsto> example_profile]\<rparr>"

definition answering_env :: env where
  "answering_env =
     example_env\<lparr>refine_oracle :=
       (\<lambda>_ _ _. Inr \<lparr>refined = (\<lambda>_. Some (3/4)), reasoning = ''more of everything''\<rparr>)\<rparr>"


text \<open>
  A user whose stored profile has a formality of 0.9, and three request bodies: a
  formality of 2, a humor of 0.3 alone, and a warmth of 0.285.
\<close>

definition formal_world :: world where
  "formal_world =
     one_user_world\<lparr>voice_profiles :=
       [1 \<mapsto> \<lparr>profile_name = ''Brand'',
                dims = (\<lambda>d. if d = Formality then 9/10 else 1/2), is_active = True\<rparr>]\<rparr>"

definition formality_two :: voice_data where
  "formality_two =
     \<lparr>profileName = None, supplied = (\<lambda>d. if d = Formality then Some 2 else None)\<rparr>"

definition humor_only :: voice_data where
  "humor_only =
     \<lparr>profileName = None, supplied = (\<lambda>d. if d = Humor then Some (fl (3/10)) else None)\<rparr>"

definition warmth_only :: voice_data where
  "warmth_only =
     \<lparr>profileName = None, supplied = (\<lambda>d. if d = Warmth then Some (fl (285/1000)) else None)\<rparr>"

subsection \<open>The language advisor\<close>

text \<open>The caption stage of \<open>recommendLanguage\<close>.\<close>

definition caption_detection :: "env \<Rightarrow> recommend_args \<Rightarrow> detection option" where
  "caption_detection env args =
     (if truthy (captionText args) then detectLanguageFromCaption env (captionText args)
      else None)"

text \<open>
  An identifier that takes every text for English; a user with one saved post; a
  request with a caption, and the request of a user without one.
\<close>

definition english_env :: env where
  "english_env = example_env\<lparr>franc := (\<lambda>_. ''eng'')\<rparr>"

definition posted_world :: world where
  "posted_world =
     one_user_world\<lparr>saved_posts :=
       [\<lparr>sp_user_id = 1, sp_caption = ''Good morning'', sp_language = ''English''\<rparr>]\<rparr>"

definition caption_request :: recommend_args where
  "caption_request =
     \<lparr>userId = Some 1, captionText = Some ''Hello world'', preferredLanguage = None,
      imageLanguageHint = None, fallbackLanguage = None\<rparr>"

definition history_request :: recommend_args where
  "history_request =
     \<lparr>userId = Some 1, captionText = None, preferredLanguage = None,
      imageLanguageHint = None, fallbackLanguage = None\<rparr>"

subsection \<open>The consistency score as the specification words it\<close>

text \<open>
  The formula of the specification in exact arithmetic: the score of a dimension is
  \<open>max(0, 1 - |P[d] - A[d]|)\<close>, and the result is the mean of the eight scores,
  rounded to two decimals (a tie going up, as \<open>Math.round\<close> does).
\<close>

definition mean_score :: "voice_profile_row \<Rightarrow> voice_vector \<Rightarrow> rat" where
  "mean_score P A = (\<Sum>d\<leftarrow>all_dimensions. max 0 (1 - \<bar>dims P d - A d\<bar>)) / 8"

definition computeConsistency :: "voice_profile_row \<Rightarrow> voice_vector \<Rightarrow> rat" where
  "computeConsistency P A = of_int \<lfloor>mean_score P A * 100 + 1/2\<rfloor> / 100"

text \<open>
  The distance from \<open>x\<close> to the nearest tie of the rounding to an integer, which is
  \<open>\<lfloor>x\<rfloor> + 1/2\<close>.
\<close>

definition tie_distance :: "rat \<Rightarrow> rat" where
  "tie_distance x = \<bar>x - (of_int \<lfloor>x\<rfloor> + 1/2)\<bar>"

text \<open>The score of one dimension as the program computes it.\<close>

definition dimension_score :: "voice_profile_row \<Rightarrow> voice_vector \<Rightarrow> dimension \<Rightarrow> rat" where
  "dimension_score P A d = max 0 (fsub 1 \<bar>fsub (profileValue P d) (A d)\<bar>)"

text \<open>
  The profile and the analysed vector of the worked example: a formality of 0.8
  against 0.5, every other dimension 0.5; a profile with a formality of 0.3 against
  an analysed formality of 0; and an analysed enthusiasm and confidence of 0.44,
  every other dimension 0.5, as Numbers and as decimals.
\<close>

definition formal_profile :: voice_profile_row where
  "formal_profile =
     \<lparr>profile_name = ''Default Profile'',
      dims = (\<lambda>d. if d = Formality then 8/10 else 5/10), is_active = True\<rparr>"

definition neutral_vector :: voice_vector where
  "neutral_vector = (\<lambda>d. 5/10)"

definition boundary_profile :: voice_profile_row where
  "boundary_profile =
     \<lparr>profile_name = ''Default Profile'',
      dims = (\<lambda>d. if d = Formality then 3/10 else 5/10), is_active = True\<rparr>"

definition boundary_vector :: voice_vector where
  "boundary_vector = (\<lambda>d. if d = Formality then 0 else 5/10)"

definition two_off_vector :: voice_vector where
  "two_off_vector = (\<lambda>d. if d = Enthusiasm \<or> d = Confidence then fl (44/100) else 1/2)"

definition two_off_decimals :: voice_vector where
  "two_off_decimals = (\<lambda>d. if d = Enthusiasm \<or> d = Confidence then 44/100 else 1/2)"

text \<open>
  The order of the ranking, and the two distributions of the worked examples: shares
  of 0.8 and 0.2, and shares of 0.55, 0.25 and 0.2.
\<close>

definition by_share :: "string \<times> rat \<Rightarrow> string \<times> rat \<Rightarrow> rat" where
  "by_share a b = fsub (snd b) (snd a)"

definition majority_distribution :: "(string \<times> rat) list" where
  "majority_distribution = [(''en'', fl (8/10)), (''hi'', fl (2/10))]"

definition mixed_distribution :: "(string \<times> rat) list" where
  "mixed_distribution = [(''en'', fl (55/100)), (''hi'', fl (25/100)), (''ta'', fl (2/10))]"

text \<open>A user with four posts in English and one in Hindi, by the stored language.\<close>

definition five_posts_world :: world where
  "five_posts_world =
     one_user_world\<lparr>saved_posts :=
       [\<lparr>sp_user_id = 1, sp_caption = ''a'', sp_language = ''en''\<rparr>,
        \<lparr>sp_user_id = 1, sp_caption = ''b'', sp_language = ''en''\<rparr>,
        \<lparr>sp_user_id = 1, sp_caption = ''c'', sp_language = ''hi''\<rparr>,
        \<lparr>sp_user_id = 1, sp_caption = ''d'', sp_language = ''en''\<rparr>,
        \<lparr>sp_user_id = 1, sp_caption = ''e'', sp_language = ''en''\<rparr>]\<rparr>"

text \<open>
  The refinement of the user in the state \<open>w\<close> gets as far as the oracle, and the
  oracle fails on what it is handed there: the analysis records, the feedback records
  and the active profile that the three reads return.
\<close>

definition oracle_fails_for :: "env \<Rightarrow> nat \<Rightarrow> world \<Rightarrow> bool" where
  "oracle_fails_for env uid w =
     (case (fst (getContentAnalysisHistory env uid 20 w),
            fst (getVoiceFeedbackHistory env uid 10 w),
            fst (getVoiceProfile env uid w)) of
        (Inr analysisHistory, Inr feedbackHistory, Inr (Some currentProfile)) \<Rightarrow>
          5 \<le> length analysisHistory
          \<and> isl (refine_oracle env analysisHistory feedbackHistory currentProfile)
      | _ \<Rightarrow> False)"

text \<open>The calls of a refinement that ends at the oracle.\<close>

definition refinement_calls :: "call list" where
  "refinement_calls =
     [Store GetContentAnalysisHistory, Store GetVoiceFeedbackHistory, Store GetVoiceProfile,
      Oracle RefineVoiceProfile]"

text \<open>A language model that fails on a history of six records and answers any other.\<close>

definition picky_env :: env where
  "picky_env =
     answering_env\<lparr>refine_oracle :=
       (\<lambda>a f p. if length a = 6 then Inl (OracleFailure ''Failed to refine voice profile.'')
                else refine_oracle answering_env a f p)\<rparr>"

text \<open>A request body of \<open>POST /voice-feedback\<close>.\<close>

definition example_feedback :: feedback_data where
  "example_feedback =
     \<lparr>generatedContentId = None, fb_contentType = ''caption'', feedbackType = ''positive'',
      feedbackComment = None, expected = (\<lambda>_. None)\<rparr>"

text \<open>The same identifier with a database that is unreachable.\<close>

definition english_failing_env :: env where
  "english_failing_env =
     english_env\<lparr>store_fails := (\<lambda>_. Some ''Connection terminated unexpectedly'')\<rparr>"

text \<open>A language model whose caption is made of two spaces.\<close>

definition spaces_env :: env where
  "spaces_env = example_env\<lparr>generate_oracle := (\<lambda>_. Inr ''  '')\<rparr>"

subsection \<open>The first query that the server fails\<close>

text \<open>
  Of the store operations that a handler sends in this order, the message of the
  first one that the server fails.
\<close>

fun first_failure :: "env \<Rightarrow> store_op list \<Rightarrow> string option" where
  "first_failure env [] = None"
| "first_failure env (op # ops) =
     (case store_fails env op of Some m \<Rightarrow> Some m | None \<Rightarrow> first_failure env ops)"

text \<open>
  An environment in which the server fails every write and no read, and the language
  model writes a caption.
\<close>

definition read_only_env :: env where
  "read_only_env =
     example_env\<lparr>store_fails :=
         (\<lambda>op. if op \<in> {UpsertVoiceProfile, StoreContentAnalysis, StoreVoiceFeedback,
                          RecordTrainingSession, InsertUserPreferences, InsertCaptionHistory}
               then Some ''cannot execute INSERT in a read-only transaction'' else None),
       generate_oracle := (\<lambda>_. Inr ''Golden hour''),
       image_oracle := (\<lambda>_. Inr ''Golden hour'')\<rparr>"

section \<open>Proofs\<close>

subsection \<open>Rounding to the nearest Number\<close>

lemma two_powi_pos: "0 < (2::rat) powi k"
  by (simp add: zero_less_power_int)

lemma two_powi_mono: "a \<le> b \<Longrightarrow> (2::rat) powi a \<le> 2 powi b"
  by (rule power_int_increasing) simp_all

lemma two_powi_nat: "0 \<le> a \<Longrightarrow> (2::rat) powi a = of_int (2 ^ nat a)"
  by (simp add: power_int_def)

lemma ilog2_bounds:
  assumes "0 < x"
  shows "2 powi (ilog2 x) \<le> x \<and> x < 2 powi (ilog2 x + 1)"
proof -
  obtain n d where q: "quotient_of x = (n, d)" by (cases "quotient_of x")
  then have d: "0 < d" and x: "x = of_int n / of_int d"
    by (simp_all add: quotient_of_denom_pos quotient_of_div)
  with assms have n: "0 < n" by (simp add: zero_less_divide_iff)
  let ?a = "bitlen n" and ?b = "bitlen d"
  from n have a1: "1 \<le> ?a" by (simp add: bitlen_alt_def)
  from d have b1: "1 \<le> ?b" by (simp add: bitlen_alt_def)
  from bitlen_bounds[OF n] have nl: "(2::int) ^ nat (?a - 1) \<le> n" and nu: "n < 2 ^ nat ?a"
    by simp_all
  from bitlen_bounds[OF d] have dl: "(2::int) ^ nat (?b - 1) \<le> d" and du: "d < 2 ^ nat ?b"
    by simp_all
  have nl': "(2::rat) powi (?a - 1) \<le> of_int n"
    using nl a1 by (simp only: two_powi_nat of_int_le_iff)
  have nu': "of_int n < (2::rat) powi ?a"
    using nu a1 by (simp only: two_powi_nat of_int_less_iff)
  have dl': "(2::rat) powi (?b - 1) \<le> of_int d"
    using dl b1 by (simp only: two_powi_nat of_int_le_iff)
  have du': "of_int d < (2::rat) powi ?b"
    using du b1 by (simp only: two_powi_nat of_int_less_iff)
  have dpos: "(0::rat) < of_int d" using d by simp
  have upper: "x < 2 powi (?a - ?b + 1)"
  proof -
    have "x < 2 powi ?a / 2 powi (?b - 1)"
      unfolding x
      by (rule frac_less) (use n nu' dl' two_powi_pos[of "?b - 1"] in simp_all)
    also have "\<dots> = 2 powi (?a - ?b + 1)"
      by (simp add: power_int_diff[symmetric] algebra_simps)
    finally show ?thesis .
  qed
  have lower: "2 powi (?a - ?b - 1) < x"
  proof -
    have "(2::rat) powi (?a - ?b - 1) = 2 powi (?a - 1) / 2 powi ?b"
      by (simp add: power_int_diff[symmetric] algebra_simps)
    also have "\<dots> < x"
      unfolding x
      by (rule frac_less2) (use nl' du' dpos two_powi_pos[of "?a - 1"] in simp_all)
    finally show ?thesis .
  qed
  show ?thesis
  proof (cases "2 powi (?a - ?b) \<le> x")
    case True
    with q upper show ?thesis by (simp add: ilog2_def Let_def)
  next
    case False
    with q lower show ?thesis by (simp add: ilog2_def Let_def)
  qed
qed

lemma ilog2_unique:
  assumes "2 powi k \<le> x" and "x < 2 powi (k + 1)"
  shows "ilog2 x = k"
proof -
  have pos: "0 < x" by (rule less_le_trans[OF two_powi_pos assms(1)])
  from ilog2_bounds[OF pos] have l: "2 powi (ilog2 x) \<le> x" and u: "x < 2 powi (ilog2 x + 1)"
    by simp_all
  have "ilog2 x < k + 1"
  proof (rule ccontr)
    assume "\<not> ilog2 x < k + 1"
    then have "(2::rat) powi (k + 1) \<le> 2 powi (ilog2 x)" by (intro two_powi_mono) simp
    with l assms(2) show False by simp
  qed
  moreover have "k < ilog2 x + 1"
  proof (rule ccontr)
    assume "\<not> k < ilog2 x + 1"
    then have "(2::rat) powi (ilog2 x + 1) \<le> 2 powi k" by (intro two_powi_mono) simp
    with u assms(1) show False by simp
  qed
  ultimately show ?thesis by simp
qed

lemma ilog2_mono:
  assumes "0 < x" and "x \<le> y"
  shows "ilog2 x \<le> ilog2 y"
proof (rule ccontr)
  assume "\<not> ilog2 x \<le> ilog2 y"
  then have "(2::rat) powi (ilog2 y + 1) \<le> 2 powi (ilog2 x)" by (intro two_powi_mono) simp
  moreover from assms have "0 < y" by simp
  from ilog2_bounds[OF this] have "y < 2 powi (ilog2 y + 1)" by simp
  moreover from ilog2_bounds[OF assms(1)] have "2 powi (ilog2 x) \<le> x" by simp
  ultimately show False using assms(2) by simp
qed

lemma rne_of_int: "rne (of_int k) = k"
  by (simp add: rne_def)

lemma rne_floor_le: "\<lfloor>q\<rfloor> \<le> rne q"
  by (simp add: rne_def Let_def)

lemma rne_le_ceil: "rne q \<le> \<lfloor>q\<rfloor> + 1"
  by (simp add: rne_def Let_def)

lemma rne_mono:
  assumes "q \<le> q'"
  shows "rne q \<le> rne q'"
proof (cases "\<lfloor>q\<rfloor> = \<lfloor>q'\<rfloor>")
  case True
  from assms have "q - of_int \<lfloor>q'\<rfloor> \<le> q' - of_int \<lfloor>q'\<rfloor>" by simp
  with True show ?thesis by (auto simp: rne_def Let_def)
next
  case False
  from assms have "\<lfloor>q\<rfloor> \<le> \<lfloor>q'\<rfloor>" by (rule floor_mono)
  with False have "\<lfloor>q\<rfloor> + 1 \<le> \<lfloor>q'\<rfloor>" by simp
  with rne_le_ceil[of q] rne_floor_le[of q'] show ?thesis by linarith
qed

lemma rne_ge: "of_int k \<le> q \<Longrightarrow> k \<le> rne q"
  using rne_mono[of "of_int k" q] by (simp add: rne_of_int)

lemma rne_le: "q \<le> of_int k \<Longrightarrow> rne q \<le> k"
  using rne_mono[of q "of_int k"] by (simp add: rne_of_int)

lemma two_powi_mult_eq: "a + b = c \<Longrightarrow> (2::rat) powi a * 2 powi b = 2 powi c"
  by (simp add: power_int_add[symmetric])

lemma two_powi_div_eq: "a - b = c \<Longrightarrow> (2::rat) powi a / 2 powi b = 2 powi c"
  by (simp add: power_int_diff[symmetric])

text \<open>The exponent and the quantum of a positive number.\<close>

lemma fl_pos_eq:
  "0 < x \<Longrightarrow>
   fl x = of_int (rne (x / 2 powi (max (ilog2 x) (- 1022) - 52)))
            * 2 powi (max (ilog2 x) (- 1022) - 52)"
  by (simp add: fl_def Let_def)

lemma fl_zero: "fl 0 = 0"
  by (simp add: fl_def)

lemma fl_minus: "fl (- x) = - fl x"
  by (simp add: fl_def Let_def)

lemma fl_nonneg: "0 \<le> x \<Longrightarrow> 0 \<le> fl x"
proof (cases "x = 0")
  case True
  then show ?thesis by (simp add: fl_zero)
next
  case False
  assume "0 \<le> x"
  with False have pos: "0 < x" by simp
  let ?u = "(2::rat) powi (max (ilog2 x) (- 1022) - 52)"
  have u: "0 < ?u" by (rule two_powi_pos)
  with pos have "of_int 0 \<le> x / ?u" by simp
  then have "0 \<le> rne (x / ?u)" by (rule rne_ge)
  with u show ?thesis by (simp add: fl_pos_eq[OF pos])
qed

lemma fl_mono_pos:
  assumes pos: "0 < x" and le: "x \<le> y"
  shows "fl x \<le> fl y"
proof -
  from pos le have ypos: "0 < y" by simp
  let ?ex = "max (ilog2 x) (- 1022)" and ?ey = "max (ilog2 y) (- 1022)"
  let ?ux = "(2::rat) powi (?ex - 52)" and ?uy = "(2::rat) powi (?ey - 52)"
  have ux: "0 < ?ux" and uy: "0 < ?uy" by (rule two_powi_pos)+
  from ilog2_mono[OF pos le] have e: "?ex \<le> ?ey" by simp
  show ?thesis
  proof (cases "?ex = ?ey")
    case True
    from le uy have "x / ?uy \<le> y / ?uy" by (simp add: divide_right_mono)
    then have "rne (x / ?uy) \<le> rne (y / ?uy)" by (rule rne_mono)
    then have "(of_int (rne (x / ?uy)) :: rat) * ?uy \<le> of_int (rne (y / ?uy)) * ?uy"
      using uy by (simp add: mult_right_mono)
    then show ?thesis by (simp add: fl_pos_eq[OF pos] fl_pos_eq[OF ypos] True)
  next
    case False
    with e have lt: "?ex + 1 \<le> ?ey" by simp
    then have ey: "?ey = ilog2 y" by (simp add: max_def split: if_splits)
    \<comment> \<open>\<open>fl x\<close> is at most the next power of two\<close>
    have "x < 2 powi (ilog2 x + 1)" using ilog2_bounds[OF pos] by simp
    also have "\<dots> \<le> 2 powi (?ex + 1)" by (rule two_powi_mono) simp
    finally have "x / ?ux \<le> 2 powi (?ex + 1) / ?ux" using ux by (simp add: divide_right_mono)
    also have "2 powi (?ex + 1) / ?ux = (2::rat) powi 53"
      by (rule two_powi_div_eq) simp
    also have "(2::rat) powi 53 = of_int (2 ^ 53)" by (simp add: power_int_def)
    finally have "rne (x / ?ux) \<le> 2 ^ 53" by (rule rne_le)
    then have r53: "(of_int (rne (x / ?ux)) :: rat) \<le> of_int (2 ^ 53)"
      by (simp only: of_int_le_iff)
    have "fl x = of_int (rne (x / ?ux)) * ?ux" by (simp only: fl_pos_eq[OF pos])
    also have "\<dots> \<le> of_int (2 ^ 53) * ?ux"
      by (rule mult_right_mono[OF r53 less_imp_le[OF ux]])
    also have "\<dots> = (2::rat) powi 53 * ?ux" by (simp add: power_int_def)
    also have "\<dots> = 2 powi (?ex + 1)" by (rule two_powi_mult_eq) simp
    finally have fx: "fl x \<le> 2 powi (?ex + 1)" .
    \<comment> \<open>\<open>fl y\<close> is at least the power of two below \<open>y\<close>\<close>
    have "2 powi ?ey \<le> y" using ilog2_bounds[OF ypos] ey by simp
    then have "2 powi ?ey / ?uy \<le> y / ?uy" using uy by (simp add: divide_right_mono)
    moreover have "2 powi ?ey / ?uy = (2::rat) powi 52"
      by (rule two_powi_div_eq) simp
    moreover have "(2::rat) powi 52 = of_int (2 ^ 52)" by (simp add: power_int_def)
    ultimately have "of_int (2 ^ 52) \<le> y / ?uy" by simp
    then have "2 ^ 52 \<le> rne (y / ?uy)" by (rule rne_ge)
    then have r52: "(of_int (2 ^ 52) :: rat) \<le> of_int (rne (y / ?uy))"
      by (simp only: of_int_le_iff)
    have "2 powi ?ey = (2::rat) powi 52 * ?uy" by (rule two_powi_mult_eq[symmetric]) simp
    also have "\<dots> = of_int (2 ^ 52) * ?uy" by (simp add: power_int_def)
    also have "\<dots> \<le> of_int (rne (y / ?uy)) * ?uy"
      by (rule mult_right_mono[OF r52 less_imp_le[OF uy]])
    also have "\<dots> = fl y" by (simp only: fl_pos_eq[OF ypos])
    finally have fy: "2 powi ?ey \<le> fl y" .
    from lt have "(2::rat) powi (?ex + 1) \<le> 2 powi ?ey" by (rule two_powi_mono)
    with fx fy show ?thesis by linarith
  qed
qed

lemma fl_mono:
  assumes "x \<le> y"
  shows "fl x \<le> fl y"
proof -
  consider "0 < x" | "x \<le> 0" "0 \<le> y" | "y < 0" by linarith
  then show ?thesis
  proof cases
    case 1
    then show ?thesis using assms by (rule fl_mono_pos)
  next
    case 2
    then have "0 \<le> fl (- x)" and "0 \<le> fl y" by (simp_all add: fl_nonneg)
    then show ?thesis by (simp add: fl_minus)
  next
    case 3
    with assms have "0 < - y" and "- y \<le> - x" by simp_all
    then have "fl (- y) \<le> fl (- x)" by (rule fl_mono_pos)
    then show ?thesis by (simp add: fl_minus)
  qed
qed

text \<open>Every Number is a multiple of the least quantum, \<open>2 powi - 1074\<close>.\<close>

lemma fl_on_grid: "\<exists>k. fl x = of_int k * 2 powi (- 1074)"
proof (cases "x = 0")
  case True
  then have "fl x = of_int 0 * 2 powi (- 1074)" by (simp add: fl_zero)
  then show ?thesis ..
next
  case False
  let ?e = "max (ilog2 \<bar>x\<bar>) (- 1022)"
  have "0 \<le> ?e + 1022" by simp
  then have "(2::rat) powi (?e + 1022) = of_int (2 ^ nat (?e + 1022))" by (rule two_powi_nat)
  moreover have "(2::rat) powi (?e - 52) = 2 powi (?e + 1022) * 2 powi (- 1074)"
    by (rule two_powi_mult_eq[symmetric]) simp
  ultimately have u: "(2::rat) powi (?e - 52) = of_int (2 ^ nat (?e + 1022)) * 2 powi (- 1074)"
    by simp
  have "sgn x = of_int (if 0 < x then 1 else - 1)"
    using False by (simp add: sgn_if)
  then obtain s :: int where s: "sgn x = of_int s" ..
  have "fl x = sgn x * of_int (rne (\<bar>x\<bar> / 2 powi (?e - 52))) * 2 powi (?e - 52)"
    using False by (simp add: fl_def Let_def)
  also have "\<dots> = of_int (s * rne (\<bar>x\<bar> / 2 powi (?e - 52)) * 2 ^ nat (?e + 1022))
                  * 2 powi (- 1074)"
    by (simp only: s u of_int_mult mult.assoc)
  finally show ?thesis ..
qed

lemma fl_least: "fl (2 powi (- 1074)) = 2 powi (- 1074)"
proof -
  let ?q = "(2::rat) powi (- 1074)"
  have q: "0 < ?q" by (rule two_powi_pos)
  have "?q < 2 powi (- 1074 + 1)"
    by (rule power_int_strict_increasing) simp_all
  then have "ilog2 ?q = - 1074" by (intro ilog2_unique) simp
  then have e: "max (ilog2 ?q) (- 1022) - 52 = - 1074" by simp
  have "rne (?q / ?q) = 1" using q rne_of_int[of 1] by simp
  then show ?thesis by (simp only: fl_pos_eq[OF q] e)
qed

lemma fl_positive_difference:
  assumes "\<exists>k. a = of_int k * 2 powi (- 1074)" and "\<exists>l. b = of_int l * 2 powi (- 1074)"
  shows "0 < fsub a b \<longleftrightarrow> b < a"
proof
  assume "0 < fsub a b"
  show "b < a"
  proof (rule ccontr)
    assume "\<not> b < a"
    then have "a - b \<le> 0" by simp
    then have "fl (a - b) \<le> fl 0" by (rule fl_mono)
    with \<open>0 < fsub a b\<close> show False by (simp add: fsub_def fl_zero)
  qed
next
  assume lt: "b < a"
  from assms
  obtain k l where a: "a = of_int k * 2 powi (- 1074)" and b: "b = of_int l * 2 powi (- 1074)"
    by auto
  have q: "(0::rat) < 2 powi (- 1074)" by (rule two_powi_pos)
  from lt have "of_int l * (2::rat) powi (- 1074) < of_int k * 2 powi (- 1074)"
    by (simp only: a b)
  with q have "(of_int l :: rat) < of_int k" by (simp only: mult_less_cancel_right_pos)
  then have "l + 1 \<le> k" by simp
  then have "(of_int (l + 1) :: rat) \<le> of_int k" by (simp only: of_int_le_iff)
  then have "of_int (l + 1) * (2::rat) powi (- 1074) \<le> of_int k * 2 powi (- 1074)"
    by (rule mult_right_mono) (rule less_imp_le[OF q])
  then have "2 powi (- 1074) \<le> a - b" by (simp add: a b algebra_simps)
  then have "fl (2 powi (- 1074)) \<le> fl (a - b)" by (rule fl_mono)
  with q show "0 < fsub a b" by (simp only: fl_least fsub_def)
qed

subsection \<open>Effects\<close>

lemma preserves_return: "preserves P (return x)"
  by (simp add: preserves_def return_def)

lemma preserves_throw: "preserves P (throw e)"
  by (simp add: preserves_def throw_def)

lemma preserves_await:
  assumes "preserves P m" and "\<And>x. preserves P (f x)"
  shows "preserves P (await m f)"
  unfolding preserves_def
proof (intro allI impI)
  fix w assume "P w"
  with assms(1) have 1: "P (snd (m w))" by (simp add: preserves_def)
  show "P (snd (await m f w))"
  proof (cases "m w")
    case (Pair r w')
    with 1 have "P w'" by simp
    with assms(2) have "\<And>x. P (snd (f x w'))" by (simp add: preserves_def)
    with Pair \<open>P w'\<close> show ?thesis by (cases r) (simp_all add: await_def)
  qed
qed

lemma preserves_try_catch:
  assumes "preserves P m" and "\<And>e. preserves P (h e)"
  shows "preserves P (try_catch m h)"
  unfolding preserves_def
proof (intro allI impI)
  fix w assume "P w"
  with assms(1) have 1: "P (snd (m w))" by (simp add: preserves_def)
  show "P (snd (try_catch m h w))"
  proof (cases "m w")
    case (Pair r w')
    with 1 have "P w'" by simp
    with assms(2) have "\<And>e. P (snd (h e w'))" by (simp add: preserves_def)
    with Pair \<open>P w'\<close> show ?thesis by (cases r) (simp_all add: try_catch_def)
  qed
qed

lemma preserves_query:
  assumes "\<And>w. P w \<Longrightarrow> P (w\<lparr>calls := calls w @ [Store op]\<rparr>)"
    and "preserves P statement"
  shows "preserves P (query env op statement)"
  using assms by (auto simp: preserves_def query_def Let_def split: option.splits)

lemma preserves_ask:
  assumes "\<And>w. P w \<Longrightarrow> P (w\<lparr>calls := calls w @ [Oracle op]\<rparr>)"
  shows "preserves P (ask op answer)"
  using assms by (auto simp: preserves_def ask_def)

text \<open>The continuation need only keep the property for the values that are returned.\<close>

lemma preserves_await_value:
  assumes "preserves P m" and "\<And>x. \<exists>w w'. m w = (Inr x, w') \<Longrightarrow> preserves P (f x)"
  shows "preserves P (await m f)"
  unfolding preserves_def
proof (intro allI impI)
  fix w assume "P w"
  with assms(1) have 1: "P (snd (m w))" by (simp add: preserves_def)
  show "P (snd (await m f w))"
  proof (cases "m w")
    case (Pair r w')
    with 1 have "P w'" by simp
    show ?thesis
    proof (cases r)
      case (Inl e)
      with Pair \<open>P w'\<close> show ?thesis by (simp add: await_def)
    next
      case (Inr x)
      with Pair have "\<exists>w w'. m w = (Inr x, w')" by blast
      then have "preserves P (f x)" by (rule assms(2))
      with \<open>P w'\<close> Pair Inr show ?thesis by (simp add: await_def preserves_def)
    qed
  qed
qed

lemma preserves_if:
  "preserves P a \<Longrightarrow> preserves P b \<Longrightarrow> preserves P (if c then a else b)"
  by simp

lemma trim_not_blank: "trim s \<noteq> [] \<Longrightarrow> \<not> blank (trim s)"
proof -
  assume ne: "trim s \<noteq> []"
  let ?t = "dropWhile is_space (rev (dropWhile is_space s))"
  from ne have "?t \<noteq> []" by (simp add: trim_def)
  then have "\<not> is_space (hd ?t)" by (rule hd_dropWhile)
  moreover from \<open>?t \<noteq> []\<close> have "hd ?t \<in> set (trim s)" by (simp add: trim_def)
  ultimately show ?thesis by (auto simp: blank_def)
qed

lemma merge_fold_ok:
  "distinct acc \<Longrightarrow> \<forall>x \<in> set acc. \<not> blank x \<Longrightarrow>
   distinct (foldl (\<lambda>s item. if item \<noteq> [] \<and> 0 < length (trim item) then set_add s (trim item) else s) acc xs)
   \<and> (\<forall>x \<in> set (foldl (\<lambda>s item. if item \<noteq> [] \<and> 0 < length (trim item) then set_add s (trim item) else s) acc xs). \<not> blank x)"
proof (induction xs arbitrary: acc)
  case Nil
  then show ?case by simp
next
  case (Cons a xs)
  show ?case
  proof (cases "a \<noteq> [] \<and> 0 < length (trim a)")
    case True
    then have "\<not> blank (trim a)" using trim_not_blank by simp
    with Cons.prems have "distinct (set_add acc (trim a))"
      and "\<forall>x \<in> set (set_add acc (trim a)). \<not> blank x"
      by (auto simp: set_add_def)
    from Cons.IH[OF this] True show ?thesis by simp
  next
    case False
    with Cons.IH[OF Cons.prems] show ?thesis by auto
  qed
qed

lemma mergeUniqueLists_ok: "limit \<le> 10 \<Longrightarrow> phrase_list_ok (mergeUniqueLists a b limit)"
  using merge_fold_ok[of "[]" "or_empty a @ or_empty b"]
  by (auto simp: phrase_list_ok_def mergeUniqueLists_def dest: in_set_takeD)

lemma mergeLists_ok: "limit \<le> 10 \<Longrightarrow> phrase_list_ok (mergeLists a b limit)"
  using merge_fold_ok[of "[]" "or_empty a @ or_empty b"]
  by (auto simp: phrase_list_ok_def mergeLists_def dest: in_set_takeD)

lemma mergeUniqueLists_example:
  "mergeUniqueLists (Some [''a'', ''b'', ''a'']) (Some [''b'', ''c'']) 2 = [''a'', ''b'']"
  by (simp add: mergeUniqueLists_def or_empty_def set_add_def trim_def is_space_def)

lemma stored_lists_ok_calls: "stored_lists_ok w \<Longrightarrow> stored_lists_ok (w\<lparr>calls := c\<rparr>)"
  by (simp add: stored_lists_ok_def)

lemma phrase_list_ok_Nil: "phrase_list_ok []"
  by (simp add: phrase_list_ok_def)

lemma getPreferences_lists:
  assumes "stored_lists_ok w" and "getPreferences env uid w = (Inr p, w')"
  shows "phrase_list_ok (common_phrases p) \<and> phrase_list_ok (disliked_phrases p)
         \<and> stored_lists_ok w'"
proof (cases "falsy_id uid")
  case True
  with assms show ?thesis
    by (auto simp: getPreferences_def return_def DEFAULT_PREFERENCES_def phrase_list_ok_Nil)
next
  case False
  show ?thesis
  proof (cases "store_fails env SelectUserPreferences")
    case (Some m)
    with False assms show ?thesis
      by (simp add: getPreferences_def await_def query_def Let_def)
  next
    case None
    let ?w1 = "w\<lparr>calls := calls w @ [Store SelectUserPreferences]\<rparr>"
    have ok1: "stored_lists_ok ?w1" using assms(1) by (rule stored_lists_ok_calls)
    show ?thesis
    proof (cases "user_preferences w (the uid)")
      case None': None
      with None False assms ok1 show ?thesis
        by (auto simp: getPreferences_def await_def query_def Let_def return_def
            DEFAULT_PREFERENCES_def phrase_list_ok_Nil)
    next
      case (Some row)
      then have "row \<in> ran (user_preferences w)" by (auto simp: ran_def)
      with assms(1) have "phrase_list_ok (or_empty (row_common_phrases row))"
        and "phrase_list_ok (or_empty (row_disliked_phrases row))"
        by (auto simp: stored_lists_ok_def)
      with None False assms ok1 Some show ?thesis
        by (auto simp: getPreferences_def await_def query_def Let_def return_def)
    qed
  qed
qed

lemma getPreferences_state:
  "getPreferences env uid w = (r, w') \<Longrightarrow> \<exists>c. w' = w\<lparr>calls := c\<rparr>"
  by (auto simp: getPreferences_def await_def query_def Let_def return_def
      split: if_splits option.splits intro: exI[of _ "calls w"])

lemma insert_user_preferences_ok:
  assumes "stored_lists_ok w" and "phrase_list_ok (common_phrases p)"
    and "phrase_list_ok (disliked_phrases p)"
  shows "stored_lists_ok (snd (insert_user_preferences env n p w))
    \<and> (\<forall>row. fst (insert_user_preferences env n p w) = Inr row \<longrightarrow>
           row_common_phrases row = Some (common_phrases p)
           \<and> row_disliked_phrases row = Some (disliked_phrases p))"
proof -
  have ok1: "stored_lists_ok (w\<lparr>calls := calls w @ [Store InsertUserPreferences]\<rparr>)"
    using assms(1) by (rule stored_lists_ok_calls)
  have upd: "stored_lists_ok (w\<lparr>calls := c, user_preferences := (user_preferences w)(n \<mapsto> row)\<rparr>)"
    if "phrase_list_ok (or_empty (row_common_phrases row))"
      and "phrase_list_ok (or_empty (row_disliked_phrases row))" for c row
    using assms(1) that
    by (auto simp: stored_lists_ok_def ran_def split: if_splits)
  show ?thesis
    using ok1 assms(2,3)
    by (auto simp: insert_user_preferences_def query_def Let_def or_empty_def
        intro!: upd split: option.splits prod.splits)
qed

lemma await_Inl: "m w = (Inl e, w') \<Longrightarrow> await m f w = (Inl e, w')"
  by (simp add: await_def)

lemma await_Inr: "m w = (Inr x, w') \<Longrightarrow> await m f w = f x w'"
  by (simp add: await_def)

lemma updatePreferences_lists:
  assumes ok: "stored_lists_ok w"
  shows "stored_lists_ok (snd (updatePreferences env uid upd w))
    \<and> (\<forall>p. fst (updatePreferences env uid upd w) = Inr p \<longrightarrow>
           phrase_list_ok (common_phrases p) \<and> phrase_list_ok (disliked_phrases p))"
proof (cases "falsy_id uid")
  case True
  with ok show ?thesis by (simp add: updatePreferences_def throw_def)
next
  case False
  obtain r w1 where g: "getPreferences env uid w = (r, w1)" by (cases "getPreferences env uid w")
  from getPreferences_state[OF g] ok have ok1: "stored_lists_ok w1"
    by (auto intro: stored_lists_ok_calls)
  show ?thesis
  proof (cases r)
    case (Inl e)
    with False g ok1 show ?thesis by (simp add: updatePreferences_def await_Inl)
  next
    case (Inr cur)
    with g getPreferences_lists[OF ok] have cur_ok: "phrase_list_ok (disliked_phrases cur)"
      by auto
    define nxt where "nxt =
      (case upd_disliked_phrases upd of
         None \<Rightarrow> (spread cur upd)\<lparr>common_phrases :=
                    mergeUniqueLists (Some (common_phrases cur)) (upd_common_phrases upd) 10\<rparr>
       | Some incoming \<Rightarrow>
           (spread cur upd)\<lparr>common_phrases :=
                    mergeUniqueLists (Some (common_phrases cur)) (upd_common_phrases upd) 10,
              disliked_phrases :=
                    mergeUniqueLists (Some (disliked_phrases cur)) (Some incoming) 10\<rparr>)"
    have c: "phrase_list_ok (common_phrases nxt)"
      by (simp add: nxt_def mergeUniqueLists_ok split: option.splits)
    have d: "phrase_list_ok (disliked_phrases nxt)"
      using cur_ok by (simp add: nxt_def spread_def mergeUniqueLists_ok split: option.splits)
    from insert_user_preferences_ok[OF ok1 c d, of env "the uid"]
    have ins: "stored_lists_ok (snd (insert_user_preferences env (the uid) nxt w1))"
      and row: "\<And>row. fst (insert_user_preferences env (the uid) nxt w1) = Inr row \<Longrightarrow>
           row_common_phrases row = Some (common_phrases nxt)
           \<and> row_disliked_phrases row = Some (disliked_phrases nxt)"
      by auto
    obtain r2 w2 where i: "insert_user_preferences env (the uid) nxt w1 = (r2, w2)"
      by (cases "insert_user_preferences env (the uid) nxt w1")
    with ins have ok2: "stored_lists_ok w2" by simp
    have nxt_eq: "(let nextPrefs0 = spread cur upd;
              nextPrefs1 = nextPrefs0\<lparr>common_phrases :=
                  mergeUniqueLists (Some (common_phrases cur)) (upd_common_phrases upd) 10\<rparr>
          in (case upd_disliked_phrases upd of
                   None \<Rightarrow> nextPrefs1
                 | Some incoming \<Rightarrow>
                     nextPrefs1\<lparr>disliked_phrases :=
                       mergeUniqueLists (Some (disliked_phrases cur)) (Some incoming) 10\<rparr>)) = nxt"
      by (simp add: nxt_def Let_def split: option.splits)
    show ?thesis
    proof (cases r2)
      case (Inl e)
      with False g Inr i ok2 show ?thesis
        unfolding updatePreferences_def
        by (simp add: await_Inr Let_def nxt_eq[unfolded Let_def] await_Inl)
    next
      case (Inr row')
      with i row[of row'] have "row_common_phrases row' = Some (common_phrases nxt)"
        and "row_disliked_phrases row' = Some (disliked_phrases nxt)" by auto
      with False g \<open>r = Inr cur\<close> i Inr ok2 c d show ?thesis
        unfolding updatePreferences_def
        by (simp add: await_Inr Let_def nxt_eq[unfolded Let_def] return_def or_empty_def)
    qed
  qed
qed

lemma learnFromCaption_lists:
  assumes l: "learnFromCaption env uid c lang w = (Inr (Some u), w')"
  shows "(\<exists>xs. upd_common_phrases u = Some xs \<and> phrase_list_ok xs)
         \<and> upd_disliked_phrases u = None"
proof -
  from l have nf: "\<not> falsy_id uid" and "c \<noteq> None" and ne: "c \<noteq> Some []"
    by (auto simp: learnFromCaption_def return_def split: if_splits)
  then obtain cap where cap: "c = Some cap" by auto
  obtain r w1 where g: "getPreferences env uid w = (r, w1)" by (cases "getPreferences env uid w")
  show ?thesis
  proof (cases r)
    case (Inl e)
    with nf cap ne g l show ?thesis by (simp add: learnFromCaption_def await_Inl)
  next
    case (Inr cur)
    with nf cap ne g l show ?thesis
      by (auto simp: learnFromCaption_def await_Inr Let_def return_def mergeLists_ok)
  qed
qed

lemma learnFromCaption_state:
  assumes l: "learnFromCaption env uid c lang w = (r, w')"
  shows "\<exists>k. w' = w\<lparr>calls := k\<rparr>"
proof (cases "falsy_id uid \<or> c = None \<or> c = Some []")
  case True
  with l have "w' = w" by (auto simp: learnFromCaption_def return_def)
  then have "w' = w\<lparr>calls := calls w\<rparr>" by simp
  then show ?thesis ..
next
  case False
  then obtain cap where cap: "c = Some cap" by auto
  obtain r1 w1 where g: "getPreferences env uid w = (r1, w1)"
    by (cases "getPreferences env uid w")
  from getPreferences_state[OF g] obtain k where "w1 = w\<lparr>calls := k\<rparr>" by blast
  with False cap g l have "w' = w\<lparr>calls := k\<rparr>"
    by (cases r1) (auto simp: learnFromCaption_def await_Inl await_Inr Let_def return_def)
  then show ?thesis ..
qed

lemma stored_lists_ok_cong:
  "user_preferences w' = user_preferences w \<Longrightarrow> stored_lists_ok w' = stored_lists_ok w"
  by (simp add: stored_lists_ok_def)

lemma preserves_getUserById: "preserves stored_lists_ok (getUserById env uid)"
  unfolding getUserById_def
  by (rule preserves_query) (auto simp: preserves_def stored_lists_ok_calls)

lemma preserves_getVoiceProfile: "preserves stored_lists_ok (getVoiceProfile env uid)"
  unfolding getVoiceProfile_def
  by (rule preserves_query) (auto simp: preserves_def stored_lists_ok_calls)

lemma preserves_getPreferences: "preserves stored_lists_ok (getPreferences env uid)"
  unfolding preserves_def
proof (intro allI impI)
  fix w assume "stored_lists_ok w"
  obtain r w' where g: "getPreferences env uid w = (r, w')" by (cases "getPreferences env uid w")
  from getPreferences_state[OF g] \<open>stored_lists_ok w\<close> g
  show "stored_lists_ok (snd (getPreferences env uid w))"
    by (auto intro: stored_lists_ok_calls)
qed

lemma preserves_storeContentAnalysis:
  "preserves stored_lists_ok (storeContentAnalysis env uid ct tx va)"
  unfolding storeContentAnalysis_def Let_def
  by (rule preserves_query)
     (auto simp: preserves_def stored_lists_ok_def split: option.splits)

lemma preserves_saveEntry: "preserves stored_lists_ok (saveEntry env uid g f s)"
  unfolding saveEntry_def
  by (rule preserves_query) (auto simp: preserves_def stored_lists_ok_def Let_def)

lemma preserves_learnFromCaption:
  "preserves stored_lists_ok (learnFromCaption env uid c lang)"
  unfolding preserves_def
proof (intro allI impI)
  fix w assume ok: "stored_lists_ok w"
  obtain r w' where l: "learnFromCaption env uid c lang w = (r, w')"
    by (cases "learnFromCaption env uid c lang w")
  from learnFromCaption_state[OF l] ok l
  show "stored_lists_ok (snd (learnFromCaption env uid c lang w))"
    by (auto intro: stored_lists_ok_calls)
qed

lemma preserves_updatePreferences:
  "preserves stored_lists_ok (updatePreferences env uid upd)"
  using updatePreferences_lists by (simp add: preserves_def)

lemma preserves_post_generate: "preserves stored_lists_ok (post_generate env uid req)"
  unfolding post_generate_def Let_def analysis_block_def memory_block_def history_block_def
  by (intro preserves_try_catch preserves_if preserves_await preserves_return
      preserves_getUserById preserves_getVoiceProfile preserves_getPreferences
      preserves_ask preserves_storeContentAnalysis preserves_learnFromCaption
      preserves_updatePreferences preserves_saveEntry stored_lists_ok_calls)
     (auto split: option.splits intro: preserves_return preserves_updatePreferences)

lemma reachable_lists_ok: "reachable w \<Longrightarrow> stored_lists_ok w"
proof (induction rule: reachable.induct)
  case (start w)
  then show ?case by (simp add: stored_lists_ok_def)
next
  case (update w env uid upd r w')
  with updatePreferences_lists[of w env uid upd] show ?case by simp
next
  case (init w env uid r w')
  then have "snd (initPreferences env uid w) = w'" by simp
  moreover have "preserves stored_lists_ok (initPreferences env uid)"
    unfolding initPreferences_def by (rule preserves_updatePreferences)
  ultimately show ?case using init.IH by (auto simp: preserves_def)
next
  case (learn w env uid finalCaption lang r w')
  with preserves_learnFromCaption[of env uid finalCaption lang] show ?case
    by (auto simp: preserves_def)
next
  case (generate w env n req r' w')
  with preserves_post_generate[of env n req] show ?case
    by (auto simp: preserves_def)
qed

subsection \<open>The phrase lists\<close>

lemma example_update:
  "updatePreferences example_env (Some 1)
     (no_updates\<lparr>upd_common_phrases := Some ['' a '', ''b'', '''', ''a'']\<rparr>) one_user_world
   = (Inr (DEFAULT_PREFERENCES\<lparr>common_phrases := [''a'', ''b'']\<rparr>),
      one_user_world\<lparr>user_preferences :=
          [1 \<mapsto> \<lparr>row_preferred_tone = Some ''casual'', row_emoji_level = Some 2,
                  row_common_phrases = Some [''a'', ''b''],
                  row_disliked_phrases = Some [],
                  row_caption_length_preference = Some ''medium'',
                  row_language_preference = Some ''en'',
                  row_caption_structure = Some DEFAULT_STRUCTURE\<rparr>],
        calls := [Store SelectUserPreferences, Store InsertUserPreferences]\<rparr>)"
  by (simp add: updatePreferences_def getPreferences_def falsy_id_def await_def query_def
      example_env_def one_user_world_def empty_world_def example_user_def no_updates_def return_def spread_def
      DEFAULT_PREFERENCES_def insert_user_preferences_def varchar_def int_column_def
      mergeUniqueLists_def or_empty_def set_add_def trim_def is_space_def str_or_def Let_def)

text \<open>
  Claim C9. In every state that the preference operations reach from an empty table,
  the stored \<open>common_phrases\<close> and \<open>disliked_phrases\<close> have at most 10 entries, none
  blank and none twice; so have the two lists that \<open>updatePreferences\<close> returns and the
  \<open>common_phrases\<close> that \<open>learnFromCaption\<close> returns (its object has no
  \<open>disliked_phrases\<close>); and \<open>mergeUniqueLists(["a","b","a"], ["b","c"], 2)\<close> is
  \<open>["a","b"]\<close>.
\<close>

theorem phrase_lists_invariant:
  assumes "reachable w"
  shows "stored_lists_ok w
    \<and> (\<forall>env uid upd.
          stored_lists_ok (snd (updatePreferences env uid upd w))
          \<and> (\<forall>p. fst (updatePreferences env uid upd w) = Inr p \<longrightarrow>
                 phrase_list_ok (common_phrases p) \<and> phrase_list_ok (disliked_phrases p)))
    \<and> (\<forall>env uid c lang u.
          fst (learnFromCaption env uid c lang w) = Inr (Some u) \<longrightarrow>
            (\<exists>xs. upd_common_phrases u = Some xs \<and> phrase_list_ok xs)
            \<and> upd_disliked_phrases u = None)
    \<and> mergeUniqueLists (Some [''a'', ''b'', ''a'']) (Some [''b'', ''c'']) 2 = [''a'', ''b'']"
proof -
  from assms have ok: "stored_lists_ok w" by (rule reachable_lists_ok)
  have learn: "(\<exists>xs. upd_common_phrases u = Some xs \<and> phrase_list_ok xs)
            \<and> upd_disliked_phrases u = None"
    if "fst (learnFromCaption env uid c lang w) = Inr (Some u)" for env uid c lang u
  proof -
    have "learnFromCaption env uid c lang w
            = (Inr (Some u), snd (learnFromCaption env uid c lang w))"
      using that by (simp add: prod_eq_iff)
    then show ?thesis by (rule learnFromCaption_lists)
  qed
  from ok updatePreferences_lists[OF ok] learn mergeUniqueLists_example
  show ?thesis by blast
qed

theorem phrase_lists_invariant_witness:
  "reachable one_user_world
   \<and> fst (updatePreferences example_env (Some 1)
       (no_updates\<lparr>upd_common_phrases := Some ['' a '', ''b'', '''', ''a'']\<rparr>) one_user_world)
     = Inr (DEFAULT_PREFERENCES\<lparr>common_phrases := [''a'', ''b'']\<rparr>)
   \<and> phrase_list_ok [''a'', ''b'']
   \<and> stored_lists_ok (snd (updatePreferences example_env (Some 1)
       (no_updates\<lparr>upd_common_phrases := Some ['' a '', ''b'', '''', ''a'']\<rparr>) one_user_world))"
proof -
  have r: "reachable one_user_world"
    by (rule reachable.start) (simp add: one_user_world_def empty_world_def example_user_def)
  let ?upd = "no_updates\<lparr>upd_common_phrases := Some ['' a '', ''b'', '''', ''a'']\<rparr>"
  let ?p = "DEFAULT_PREFERENCES\<lparr>common_phrases := [''a'', ''b'']\<rparr>"
  have e: "fst (updatePreferences example_env (Some 1) ?upd one_user_world) = Inr ?p"
    by (subst example_update) simp
  from phrase_lists_invariant[OF r]
  have "stored_lists_ok (snd (updatePreferences example_env (Some 1) ?upd one_user_world))"
    and "fst (updatePreferences example_env (Some 1) ?upd one_user_world) = Inr ?p
         \<longrightarrow> phrase_list_ok (common_phrases ?p)"
    by blast+
  with e r show ?thesis by simp
qed

subsection \<open>A blank caption\<close>

lemma learnFromCaption_blank:
  "falsy_id uid \<or> c = None \<or> c = Some [] \<Longrightarrow> learnFromCaption env uid c lang w = (Inr None, w)"
  by (auto simp: learnFromCaption_def return_def)

lemma as_in_read:
  "op \<noteq> InsertUserPreferences \<Longrightarrow> preferences_as_in w0 w \<Longrightarrow>
   preferences_as_in w0 (w\<lparr>calls := calls w @ [Store op]\<rparr>)"
  by (simp add: preferences_as_in_def preference_writes_def)

lemma as_in_ask:
  "preferences_as_in w0 w \<Longrightarrow> preferences_as_in w0 (w\<lparr>calls := calls w @ [Oracle op]\<rparr>)"
  by (simp add: preferences_as_in_def preference_writes_def)

lemma as_in_getUserById: "preserves (preferences_as_in w0) (getUserById env uid)"
  unfolding getUserById_def
  by (rule preserves_query) (auto simp: preserves_def as_in_read)

lemma as_in_getVoiceProfile: "preserves (preferences_as_in w0) (getVoiceProfile env uid)"
  unfolding getVoiceProfile_def
  by (rule preserves_query) (auto simp: preserves_def as_in_read)

lemma as_in_getPreferences: "preserves (preferences_as_in w0) (getPreferences env uid)"
  unfolding getPreferences_def
  by (intro preserves_if preserves_return preserves_await preserves_query)
     (auto simp: preserves_def as_in_read return_def split: option.splits)

lemma as_in_storeContentAnalysis:
  "preserves (preferences_as_in w0) (storeContentAnalysis env uid ct tx va)"
  unfolding storeContentAnalysis_def Let_def
  by (rule preserves_query)
     (auto simp: preserves_def as_in_read preferences_as_in_def preference_writes_def
       split: option.splits)

lemma as_in_saveEntry: "preserves (preferences_as_in w0) (saveEntry env uid g f s)"
  unfolding saveEntry_def
  by (rule preserves_query)
     (auto simp: preserves_def as_in_read preferences_as_in_def preference_writes_def Let_def)

lemma as_in_learn_blank:
  "preserves (preferences_as_in w0) (learnFromCaption env uid (Some []) lang)"
  by (simp add: preserves_def learnFromCaption_blank)

lemma ask_value: "\<exists>w w'. ask op answer w = (Inr x, w') \<Longrightarrow> answer = Inr x"
  by (auto simp: ask_def)

lemma as_in_analysis_block: "preserves (preferences_as_in w0) (analysis_block env uid x)"
  unfolding analysis_block_def
  by (intro preserves_try_catch preserves_return preserves_await preserves_ask
      as_in_ask as_in_storeContentAnalysis)

lemma as_in_history_block: "preserves (preferences_as_in w0) (history_block env uid x)"
  unfolding history_block_def
  by (intro preserves_try_catch preserves_return preserves_await as_in_saveEntry)

lemma as_in_memory_block_blank:
  "preserves (preferences_as_in w0) (memory_block env uid [] lang prefs)"
proof -
  have "learnFromCaption env (Some uid) (Some []) (Some lang) = return None"
    by (rule ext) (simp add: learnFromCaption_blank return_def)
  then show ?thesis
    unfolding memory_block_def
    by (simp add: preserves_def await_def return_def try_catch_def)
qed

lemma as_in_post_generate_blank:
  assumes "generate_oracle env (topic req) = Inr []"
  shows "preserves (preferences_as_in w0) (post_generate env uid req)"
  unfolding post_generate_def Let_def
  apply (rule preserves_try_catch)
   apply (rule preserves_if)
    apply (rule preserves_return)
   apply (rule preserves_await[OF as_in_getUserById])
   apply (rule preserves_await[OF as_in_getVoiceProfile])
   apply (rule preserves_await[OF as_in_getPreferences])
   apply (rule preserves_await_value)
    apply (rule preserves_ask)
    apply (erule as_in_ask)
   apply (drule ask_value)
   apply (simp add: assms)
   apply (intro preserves_await as_in_analysis_block as_in_memory_block_blank
      as_in_history_block preserves_return)
  apply (rule preserves_return)
  done

lemma getPreferences_reads:
  assumes "\<not> falsy_id uid" and "store_fails env SelectUserPreferences = None"
  shows "\<exists>p. getPreferences env uid w
              = (Inr p, w\<lparr>calls := calls w @ [Store SelectUserPreferences]\<rparr>)"
  using assms
  by (simp add: getPreferences_def await_def query_def Let_def return_def
      split: option.splits)

lemma learnFromCaption_learns:
  assumes "\<not> falsy_id uid" and "t \<noteq> []" and "store_fails env SelectUserPreferences = None"
  shows "\<exists>u. learnFromCaption env uid (Some t) lang w
              = (Inr (Some u), w\<lparr>calls := calls w @ [Store SelectUserPreferences]\<rparr>)"
proof -
  from getPreferences_reads[OF assms(1,3)] obtain p where
    "getPreferences env uid w = (Inr p, w\<lparr>calls := calls w @ [Store SelectUserPreferences]\<rparr>)"
    by blast
  with assms(1,2) show ?thesis
    by (simp add: learnFromCaption_def await_Inr Let_def return_def)
qed

lemma spaces_learned:
  "learnFromCaption spaces_env (Some 1) (Some ''  '') (Some ''English'')
     (one_user_world\<lparr>calls := k\<rparr>)
   = (Inr (Some \<lparr>upd_preferred_tone = Some ''casual'', upd_emoji_level = Some 1,
                 upd_common_phrases = Some [], upd_disliked_phrases = None,
                 upd_caption_length_preference = Some ''short'',
                 upd_language_preference = Some ''English'',
                 upd_caption_structure =
                   Some \<lparr>hasEmojisAtEnd = False, startsWithQuote = False,
                         containsLineBreaks = False, firstSentenceLength = 0\<rparr>\<rparr>),
      one_user_world\<lparr>calls := k @ [Store SelectUserPreferences]\<rparr>)"
proof -
  have n: "fdiv (fadd 2 0) 2 = 1" "toFixed2 1 = 1" by code_simp+
  show ?thesis
    by (simp add: learnFromCaption_def getPreferences_def falsy_id_def await_def query_def
        return_def Let_def spaces_env_def example_env_def one_user_world_def empty_world_def
        DEFAULT_PREFERENCES_def DEFAULT_STRUCTURE_def str_or_def detectEmojiLevel_def
        clamp_def detectTone_def extractPhrases_def detectStructure_def mergeLists_def
        or_empty_def detectLengthPreference_def trim_def is_space_def is_terminator_def n)
qed

lemma spaces_stored:
  "user_preferences
     (snd (updatePreferences spaces_env (Some 1)
        \<lparr>upd_preferred_tone = Some ''casual'', upd_emoji_level = Some 1,
         upd_common_phrases = Some [], upd_disliked_phrases = None,
         upd_caption_length_preference = Some ''short'',
         upd_language_preference = Some ''English'',
         upd_caption_structure =
           Some \<lparr>hasEmojisAtEnd = False, startsWithQuote = False,
                 containsLineBreaks = False, firstSentenceLength = 0\<rparr>\<rparr>
        (one_user_world\<lparr>calls := k\<rparr>))) 1
   = Some \<lparr>row_preferred_tone = Some ''casual'', row_emoji_level = Some 1,
           row_common_phrases = Some [], row_disliked_phrases = Some [],
           row_caption_length_preference = Some ''short'',
           row_language_preference = Some ''English'',
           row_caption_structure =
             Some \<lparr>hasEmojisAtEnd = False, startsWithQuote = False,
                   containsLineBreaks = False, firstSentenceLength = 0\<rparr>\<rparr>"
  by (simp add: updatePreferences_def getPreferences_def falsy_id_def await_def query_def
      return_def Let_def spaces_env_def example_env_def one_user_world_def empty_world_def
      DEFAULT_PREFERENCES_def DEFAULT_STRUCTURE_def str_or_def spread_def
      insert_user_preferences_def varchar_def int_column_def mergeUniqueLists_def
      or_empty_def example_user_def)

lemma one_user_world_fields:
  "calls one_user_world = []" "users one_user_world = [1 \<mapsto> example_user]"
  "user_preferences one_user_world = Map.empty"
  by (simp_all add: one_user_world_def empty_world_def)

lemma spaces_update:
  "updatePreferences spaces_env (Some 1)
     \<lparr>upd_preferred_tone = Some ''casual'', upd_emoji_level = Some 1,
      upd_common_phrases = Some [], upd_disliked_phrases = None,
      upd_caption_length_preference = Some ''short'',
      upd_language_preference = Some ''English'',
      upd_caption_structure =
        Some \<lparr>hasEmojisAtEnd = False, startsWithQuote = False,
              containsLineBreaks = False, firstSentenceLength = 0\<rparr>\<rparr>
     (one_user_world\<lparr>calls := k\<rparr>)
   = (Inr \<lparr>preferred_tone = ''casual'', emoji_level = 1, common_phrases = [],
           disliked_phrases = [], caption_length_preference = ''short'',
           language_preference = ''English'',
           caption_structure =
             \<lparr>hasEmojisAtEnd = False, startsWithQuote = False,
              containsLineBreaks = False, firstSentenceLength = 0\<rparr>\<rparr>,
      one_user_world\<lparr>calls := k @ [Store SelectUserPreferences, Store InsertUserPreferences],
        user_preferences :=
          [1 \<mapsto> \<lparr>row_preferred_tone = Some ''casual'', row_emoji_level = Some 1,
                  row_common_phrases = Some [], row_disliked_phrases = Some [],
                  row_caption_length_preference = Some ''short'',
                  row_language_preference = Some ''English'',
                  row_caption_structure =
                    Some \<lparr>hasEmojisAtEnd = False, startsWithQuote = False,
                          containsLineBreaks = False, firstSentenceLength = 0\<rparr>\<rparr>]\<rparr>)"
  by (simp add: updatePreferences_def getPreferences_def falsy_id_def await_def query_def
      return_def Let_def spaces_env_def example_env_def one_user_world_def empty_world_def
      DEFAULT_PREFERENCES_def DEFAULT_STRUCTURE_def str_or_def spread_def
      insert_user_preferences_def varchar_def int_column_def mergeUniqueLists_def
      or_empty_def example_user_def)

lemma spaces_run:
  "user_preferences (snd (post_generate spaces_env 1 example_request one_user_world)) 1
   = Some \<lparr>row_preferred_tone = Some ''casual'', row_emoji_level = Some 1,
           row_common_phrases = Some [], row_disliked_phrases = Some [],
           row_caption_length_preference = Some ''short'',
           row_language_preference = Some ''English'',
           row_caption_structure =
             Some \<lparr>hasEmojisAtEnd = False, startsWithQuote = False,
                   containsLineBreaks = False, firstSentenceLength = 0\<rparr>\<rparr>"
proof -
  have e: "store_fails spaces_env = (\<lambda>_. None)" "generate_oracle spaces_env = (\<lambda>_. Inr ''  '')"
    "analyze_oracle spaces_env
     = (\<lambda>_. Inl (OracleFailure ''Failed to analyze content voice characteristics.''))"
    by (simp_all add: spaces_env_def example_env_def)
  show ?thesis
    by (simp add: post_generate_def example_request_def getUserById_def getVoiceProfile_def
        getPreferences_def falsy_id_def query_def await_def try_catch_def return_def ask_def
        analysis_block_def memory_block_def history_block_def saveEntry_def Let_def e
        one_user_world_fields spaces_learned spaces_update del: One_nat_def)
qed

text \<open>
  Claim C10, as stated, fails: a caption of two spaces is blank, and \<open>POST /\<close> learns
  from it: the user, who had no row in \<open>user_preferences\<close>, has one afterwards.
\<close>

theorem blank_caption_counterexample:
  "blank ''  '' \<and> generate_oracle spaces_env (topic example_request) = Inr ''  ''
   \<and> user_preferences one_user_world 1 = None
   \<and> user_preferences (snd (post_generate spaces_env 1 example_request one_user_world)) 1
     = Some \<lparr>row_preferred_tone = Some ''casual'', row_emoji_level = Some 1,
             row_common_phrases = Some [], row_disliked_phrases = Some [],
             row_caption_length_preference = Some ''short'',
             row_language_preference = Some ''English'',
             row_caption_structure =
               Some \<lparr>hasEmojisAtEnd = False, startsWithQuote = False,
                     containsLineBreaks = False, firstSentenceLength = 0\<rparr>\<rparr>"
proof -
  have "blank ''  ''" by (simp add: blank_def is_space_def)
  moreover have "generate_oracle spaces_env (topic example_request) = Inr ''  ''"
    by (simp add: spaces_env_def)
  moreover have "user_preferences one_user_world 1 = None"
    by (simp add: one_user_world_fields)
  ultimately show ?thesis using spaces_run by blast
qed

text \<open>
  Claim C10, amended. \<open>learnFromCaption\<close> returns \<open>null\<close> and leaves the state as it
  is, call log included, when the user id is falsy or the caption is missing or the
  empty string, whatever the heuristics of the environment are; and when the caption
  generated in \<open>POST /\<close> is the empty string, the request leaves the table
  \<open>user_preferences\<close> as it was and sends no \<open>INSERT\<close> for it. The guard is on the
  empty string: for a user id that is not falsy and any other caption, one of white
  space included, \<open>learnFromCaption\<close> reads the preferences and, when the read
  succeeds, returns an object that is not \<open>null\<close>.
\<close>

theorem empty_caption_learns_nothing:
  "(falsy_id uid \<or> c = None \<or> c = Some [] \<longrightarrow>
      learnFromCaption env uid c lang w = (Inr None, w))
   \<and> (generate_oracle env (topic req) = Inr [] \<longrightarrow>
        preferences_as_in w (snd (post_generate env n req w)))
   \<and> (\<not> falsy_id uid \<and> t \<noteq> [] \<and> store_fails env SelectUserPreferences = None \<longrightarrow>
        (\<exists>u. learnFromCaption env uid (Some t) lang w
               = (Inr (Some u), w\<lparr>calls := calls w @ [Store SelectUserPreferences]\<rparr>)))"
proof -
  have "preferences_as_in w w" by (simp add: preferences_as_in_def)
  with as_in_post_generate_blank[of env req w n]
  have "generate_oracle env (topic req) = Inr [] \<longrightarrow>
        preferences_as_in w (snd (post_generate env n req w))"
    by (simp add: preserves_def)
  with learnFromCaption_blank learnFromCaption_learns show ?thesis by blast
qed

theorem empty_caption_learns_nothing_witness:
  "learnFromCaption example_env (Some 1) (Some []) None one_user_world
     = (Inr None, one_user_world)
   \<and> preferences_as_in one_user_world
        (snd (post_generate (example_env\<lparr>generate_oracle := (\<lambda>_. Inr [])\<rparr>) 1
                example_request one_user_world))
   \<and> (\<exists>u. learnFromCaption example_env (Some 1) (Some ''  '') None one_user_world
            = (Inr (Some u),
               one_user_world\<lparr>calls := calls one_user_world @ [Store SelectUserPreferences]\<rparr>))"
  using empty_caption_learns_nothing[of "Some 1" "Some []"
      "example_env\<lparr>generate_oracle := (\<lambda>_. Inr [])\<rparr>" None one_user_world example_request 1]
    empty_caption_learns_nothing[of "Some 1" "Some []" example_env None one_user_world
      example_request 1 "''  ''"]
  by (simp add: falsy_id_def example_env_def)

subsection \<open>Refinement\<close>

lemma only_calls_refl: "only_calls A w w"
  unfolding only_calls_def by (rule exI[of _ "[]"]) simp

lemma only_calls_step:
  "only_calls A w w' \<Longrightarrow> c \<in> A \<Longrightarrow> only_calls A w (w'\<lparr>calls := calls w' @ [c]\<rparr>)"
  unfolding only_calls_def
proof (elim exE conjE)
  fix k assume "w' = w\<lparr>calls := calls w @ k\<rparr>" and "set k \<subseteq> A" and "c \<in> A"
  then have "w'\<lparr>calls := calls w' @ [c]\<rparr> = w\<lparr>calls := calls w @ (k @ [c])\<rparr>
             \<and> set (k @ [c]) \<subseteq> A" by simp
  then show "\<exists>k. w'\<lparr>calls := calls w' @ [c]\<rparr> = w\<lparr>calls := calls w @ k\<rparr> \<and> set k \<subseteq> A" ..
qed

lemma only_calls_tables:
  "only_calls A w w' \<Longrightarrow>
     voice_profiles w' = voice_profiles w
     \<and> voice_training_sessions w' = voice_training_sessions w
     \<and> content_analysis w' = content_analysis w \<and> voice_feedback w' = voice_feedback w
     \<and> user_preferences w' = user_preferences w \<and> saved_posts w' = saved_posts w
     \<and> caption_history w' = caption_history w \<and> users w' = users w"
  by (auto simp: only_calls_def)

lemma triggerVoiceRefinement_returns: "fst (triggerVoiceRefinement env uid w) = Inr ()"
  unfolding triggerVoiceRefinement_def try_catch_def return_def
  by (auto split: prod.splits sum.splits)

lemma frame_getContentAnalysisHistory:
  "Store GetContentAnalysisHistory \<in> A \<Longrightarrow>
   preserves (only_calls A w0) (getContentAnalysisHistory env uid n)"
  unfolding getContentAnalysisHistory_def
  by (rule preserves_query) (auto simp: preserves_def only_calls_step)

lemma frame_getVoiceFeedbackHistory:
  "Store GetVoiceFeedbackHistory \<in> A \<Longrightarrow>
   preserves (only_calls A w0) (getVoiceFeedbackHistory env uid n)"
  unfolding getVoiceFeedbackHistory_def
  by (rule preserves_query) (auto simp: preserves_def only_calls_step)

lemma frame_getVoiceProfile:
  "Store GetVoiceProfile \<in> A \<Longrightarrow> preserves (only_calls A w0) (getVoiceProfile env uid)"
  unfolding getVoiceProfile_def
  by (rule preserves_query) (auto simp: preserves_def only_calls_step)

lemma frame_ask: "Oracle op \<in> A \<Longrightarrow> preserves (only_calls A w0) (ask op answer)"
  by (rule preserves_ask) (simp add: only_calls_step)

lemma preserves_case_option:
  "preserves P a \<Longrightarrow> (\<And>x. preserves P (b x)) \<Longrightarrow>
   preserves P (case v of None \<Rightarrow> a | Some x \<Rightarrow> b x)"
  by (cases v) simp_all

text \<open>The two history reads, and what follows them when fewer than 5 records come back.\<close>

lemma refinement_without_data:
  assumes "length (filter (\<lambda>r. ca_user_id r = uid) (content_analysis w)) < 5"
  shows "snd (triggerVoiceRefinement env uid w) =
    w\<lparr>calls := calls w @
        (if store_fails env GetContentAnalysisHistory = None
         then [Store GetContentAnalysisHistory, Store GetVoiceFeedbackHistory]
         else [Store GetContentAnalysisHistory])\<rparr>"
proof (cases "store_fails env GetContentAnalysisHistory")
  case (Some m)
  then show ?thesis
    by (simp add: triggerVoiceRefinement_def getContentAnalysisHistory_def query_def
        await_def try_catch_def return_def Let_def)
next
  case None
  from assms
  have short: "length (take 20 (filter (\<lambda>r. ca_user_id r = uid) (content_analysis w))) < 5"
    by simp
  show ?thesis
  proof (cases "store_fails env GetVoiceFeedbackHistory")
    case None': None
    with None short show ?thesis
      by (simp add: triggerVoiceRefinement_def getContentAnalysisHistory_def
          getVoiceFeedbackHistory_def query_def await_def try_catch_def return_def Let_def
          del: length_take)
  next
    case (Some m)
    with None show ?thesis
      by (simp add: triggerVoiceRefinement_def getContentAnalysisHistory_def
          getVoiceFeedbackHistory_def query_def await_def try_catch_def return_def Let_def)
  qed
qed

text \<open>
  Claim C5. For a user with fewer than 5 stored analysis records,
  \<open>triggerVoiceRefinement\<close> returns normally and leaves every table as it was; the only
  calls it makes are the two history reads (the second one only when the first one
  succeeded): no call to the oracle, no upsert, no training session.
\<close>

theorem refinement_needs_five_records:
  assumes "length (filter (\<lambda>r. ca_user_id r = uid) (content_analysis w)) < 5"
  shows "fst (triggerVoiceRefinement env uid w) = Inr ()
    \<and> only_calls {Store GetContentAnalysisHistory, Store GetVoiceFeedbackHistory} w
         (snd (triggerVoiceRefinement env uid w))
    \<and> voice_profiles (snd (triggerVoiceRefinement env uid w)) = voice_profiles w
    \<and> voice_training_sessions (snd (triggerVoiceRefinement env uid w))
        = voice_training_sessions w
    \<and> Oracle RefineVoiceProfile \<notin> set (drop (length (calls w))
          (calls (snd (triggerVoiceRefinement env uid w))))"
proof -
  let ?k = "if store_fails env GetContentAnalysisHistory = None
            then [Store GetContentAnalysisHistory, Store GetVoiceFeedbackHistory]
            else [Store GetContentAnalysisHistory]"
  have s: "snd (triggerVoiceRefinement env uid w) = w\<lparr>calls := calls w @ ?k\<rparr>"
    using assms by (rule refinement_without_data)
  have "set ?k \<subseteq> {Store GetContentAnalysisHistory, Store GetVoiceFeedbackHistory}"
    by simp
  with s have "only_calls {Store GetContentAnalysisHistory, Store GetVoiceFeedbackHistory} w
         (snd (triggerVoiceRefinement env uid w))"
    unfolding only_calls_def by blast
  moreover have "Oracle RefineVoiceProfile \<notin> set (drop (length (calls w))
          (calls (snd (triggerVoiceRefinement env uid w))))"
    by (simp add: s)
  ultimately show ?thesis
    using triggerVoiceRefinement_returns[of env uid w] by (simp add: s)
qed

theorem refinement_needs_five_records_witness:
  "length (filter (\<lambda>r. ca_user_id r = 1)
      (content_analysis (trained_world\<lparr>content_analysis := replicate 4 example_analysis_row\<rparr>))) < 5
   \<and> fst (triggerVoiceRefinement answering_env 1
        (trained_world\<lparr>content_analysis := replicate 4 example_analysis_row\<rparr>)) = Inr ()
   \<and> voice_profiles (snd (triggerVoiceRefinement answering_env 1
        (trained_world\<lparr>content_analysis := replicate 4 example_analysis_row\<rparr>)))
      = [1 \<mapsto> example_profile]
   \<and> voice_training_sessions (snd (triggerVoiceRefinement answering_env 1
        (trained_world\<lparr>content_analysis := replicate 4 example_analysis_row\<rparr>))) = []"
proof -
  let ?w = "trained_world\<lparr>content_analysis := replicate 4 example_analysis_row\<rparr>"
  have h: "length (filter (\<lambda>r. ca_user_id r = 1) (content_analysis ?w)) < 5"
    by (rule le_less_trans[OF length_filter_le]) simp
  from refinement_needs_five_records[OF h, of answering_env] h show ?thesis
    by (simp add: trained_world_def one_user_world_def empty_world_def example_user_def)
qed

lemma storeVoiceFeedback_tables:
  "voice_profiles (snd (storeVoiceFeedback env uid body w)) = voice_profiles w
   \<and> voice_training_sessions (snd (storeVoiceFeedback env uid body w))
       = voice_training_sessions w"
  by (auto simp: storeVoiceFeedback_def query_def Let_def split: option.splits prod.splits)

lemma oracle_failure_run:
  assumes "oracle_fails_for env uid w"
  shows "triggerVoiceRefinement env uid w = (Inr (), w\<lparr>calls := calls w @ refinement_calls\<rparr>)"
proof -
  let ?a = "take 20 (filter (\<lambda>r. ca_user_id r = uid) (content_analysis w))"
  let ?f = "take 10 (filter (\<lambda>r. vf_user_id r = uid) (voice_feedback w))"
  from assms have nf: "store_fails env GetContentAnalysisHistory = None"
    "store_fails env GetVoiceFeedbackHistory = None" "store_fails env GetVoiceProfile = None"
    by (auto simp: oracle_fails_for_def getContentAnalysisHistory_def
        getVoiceFeedbackHistory_def getVoiceProfile_def query_def Let_def
        split: option.splits sum.splits)
  with assms obtain p where p: "voice_profiles w uid = Some p" "is_active p"
    and len: "5 \<le> length ?a" and fails: "isl (refine_oracle env ?a ?f p)"
    by (auto simp: oracle_fails_for_def getContentAnalysisHistory_def
        getVoiceFeedbackHistory_def getVoiceProfile_def query_def Let_def
        split: option.splits sum.splits if_splits)
  from fails obtain e where e: "refine_oracle env ?a ?f p = Inl e"
    by (cases "refine_oracle env ?a ?f p") simp_all
  from len have l: "\<not> length ?a < 5" by simp
  show ?thesis
    using nf p e l
    by (simp add: triggerVoiceRefinement_def getContentAnalysisHistory_def
        getVoiceFeedbackHistory_def getVoiceProfile_def query_def await_def try_catch_def
        return_def ask_def Let_def refinement_calls_def del: length_take)
qed

text \<open>
  Claim C6. When the call to the oracle fails, \<open>triggerVoiceRefinement\<close> returns
  normally: the error does not reach the caller. The state it leaves is the state it
  found with the three reads and the call to the oracle added to the log: no table has
  changed, the voice profile and the training sessions among them. \<open>POST /voice-feedback\<close>,
  which awaits it after storing the feedback, answers with the stored feedback.
\<close>

theorem oracle_failure_is_swallowed:
  "(oracle_fails_for env uid w \<longrightarrow>
      triggerVoiceRefinement env uid w = (Inr (), w\<lparr>calls := calls w @ refinement_calls\<rparr>)
      \<and> voice_profiles (snd (triggerVoiceRefinement env uid w)) = voice_profiles w
      \<and> voice_training_sessions (snd (triggerVoiceRefinement env uid w))
          = voice_training_sessions w)
   \<and> (\<forall>fb w1. fb_contentType body \<noteq> [] \<and> feedbackType body \<noteq> []
          \<and> storeVoiceFeedback env uid body w = (Inr fb, w1) \<and> oracle_fails_for env uid w1 \<longrightarrow>
          post_voice_feedback env uid body w
            = (Inr (Json fb), w1\<lparr>calls := calls w1 @ refinement_calls\<rparr>)
          \<and> voice_profiles (snd (post_voice_feedback env uid body w)) = voice_profiles w
          \<and> voice_training_sessions (snd (post_voice_feedback env uid body w))
              = voice_training_sessions w)"
proof -
  have run: "triggerVoiceRefinement env uid v = (Inr (), v\<lparr>calls := calls v @ refinement_calls\<rparr>)"
    if "oracle_fails_for env uid v" for v
    using that by (rule oracle_failure_run)
  have route: "post_voice_feedback env uid body w
            = (Inr (Json fb), w1\<lparr>calls := calls w1 @ refinement_calls\<rparr>)
          \<and> voice_profiles (snd (post_voice_feedback env uid body w)) = voice_profiles w
          \<and> voice_training_sessions (snd (post_voice_feedback env uid body w))
              = voice_training_sessions w"
    if valid: "fb_contentType body \<noteq> []" "feedbackType body \<noteq> []"
      and stored: "storeVoiceFeedback env uid body w = (Inr fb, w1)"
      and fails: "oracle_fails_for env uid w1" for fb w1
  proof -
    from valid stored run[OF fails]
    have p: "post_voice_feedback env uid body w
             = (Inr (Json fb), w1\<lparr>calls := calls w1 @ refinement_calls\<rparr>)"
      by (simp add: post_voice_feedback_def try_catch_def await_def return_def)
    from storeVoiceFeedback_tables[of env uid body w] stored
    have "voice_profiles w1 = voice_profiles w"
      and "voice_training_sessions w1 = voice_training_sessions w" by simp_all
    with p show ?thesis by simp
  qed
  from run[of w] route show ?thesis by auto
qed

lemma picky_oracle:
  "oracle_fails_for picky_env 1 trained_world"
  "\<not> (\<forall>a f p. isl (refine_oracle picky_env a f p))"
proof -
  show "oracle_fails_for picky_env 1 trained_world"
    by (simp add: oracle_fails_for_def getContentAnalysisHistory_def
        getVoiceFeedbackHistory_def getVoiceProfile_def query_def Let_def picky_env_def
        answering_env_def example_env_def trained_world_def one_user_world_def
        empty_world_def example_analysis_row_def example_profile_def)
  have "\<not> isl (refine_oracle picky_env [] [] example_profile)"
    by (simp add: picky_env_def answering_env_def)
  then show "\<not> (\<forall>a f p. isl (refine_oracle picky_env a f p))" by blast
qed

lemma example_feedback_stored:
  "storeVoiceFeedback picky_env 1 example_feedback trained_world
   = (Inr \<lparr>vf_user_id = 1, vf_generated_content_id = None, vf_content_type = ''caption'',
           vf_feedback_type = ''positive'', vf_feedback_comment = None,
           vf_expected = (\<lambda>_. None)\<rparr>,
      trained_world\<lparr>calls := [Store StoreVoiceFeedback],
        voice_feedback :=
          [\<lparr>vf_user_id = 1, vf_generated_content_id = None, vf_content_type = ''caption'',
            vf_feedback_type = ''positive'', vf_feedback_comment = None,
            vf_expected = (\<lambda>_. None)\<rparr>]\<rparr>)"
  by (simp add: storeVoiceFeedback_def query_def Let_def picky_env_def answering_env_def
      example_env_def trained_world_def one_user_world_def empty_world_def
      example_feedback_def varchar_def or_null_def all_dimensions_def)

lemma picky_oracle_after_feedback:
  "oracle_fails_for picky_env 1
     (trained_world\<lparr>calls := [Store StoreVoiceFeedback],
        voice_feedback :=
          [\<lparr>vf_user_id = 1, vf_generated_content_id = None, vf_content_type = ''caption'',
            vf_feedback_type = ''positive'', vf_feedback_comment = None,
            vf_expected = (\<lambda>_. None)\<rparr>]\<rparr>)"
  by (simp add: oracle_fails_for_def getContentAnalysisHistory_def
      getVoiceFeedbackHistory_def getVoiceProfile_def query_def Let_def picky_env_def
      answering_env_def example_env_def trained_world_def one_user_world_def
      empty_world_def example_analysis_row_def example_profile_def)

theorem oracle_failure_is_swallowed_witness:
  "oracle_fails_for picky_env 1 trained_world
   \<and> \<not> (\<forall>a f p. isl (refine_oracle picky_env a f p))
   \<and> fst (triggerVoiceRefinement picky_env 1 trained_world) = Inr ()
   \<and> calls (snd (triggerVoiceRefinement picky_env 1 trained_world)) = refinement_calls
   \<and> voice_profiles (snd (triggerVoiceRefinement picky_env 1 trained_world))
       = [1 \<mapsto> example_profile]
   \<and> voice_training_sessions (snd (triggerVoiceRefinement picky_env 1 trained_world)) = []
   \<and> fst (post_voice_feedback picky_env 1 example_feedback trained_world)
       = Inr (Json \<lparr>vf_user_id = 1, vf_generated_content_id = None,
                      vf_content_type = ''caption'', vf_feedback_type = ''positive'',
                      vf_feedback_comment = None, vf_expected = (\<lambda>_. None)\<rparr>)
   \<and> voice_profiles (snd (post_voice_feedback picky_env 1 example_feedback trained_world))
       = [1 \<mapsto> example_profile]
   \<and> voice_training_sessions
        (snd (post_voice_feedback picky_env 1 example_feedback trained_world)) = []"
proof -
  have t: "voice_profiles trained_world = [1 \<mapsto> example_profile]"
    "voice_training_sessions trained_world = []" "calls trained_world = []"
    by (simp_all add: trained_world_def one_user_world_def empty_world_def)
  have v: "fb_contentType example_feedback \<noteq> [] \<and> feedbackType example_feedback \<noteq> []"
    by (simp add: example_feedback_def)
  from oracle_failure_is_swallowed[of picky_env 1 trained_world example_feedback]
    picky_oracle example_feedback_stored picky_oracle_after_feedback v
  show ?thesis
    by (simp add: t)
qed

subsection \<open>The voice profile\<close>

lemma shortest_from_cases: "shortest_from x p n = x \<or> fl (shortest_from x p n) = x"
  by (induction n arbitrary: p) (auto simp: Let_def)

lemma Number_toString_values:
  "Number_toString 1 = 1" "Number_toString (1/2) = 1/2" "Number_toString 2 = 2"
  "Number_toString (fl (3/10)) = 3/10" "Number_toString (fl (285/1000)) = 285/1000"
  by code_simp+

lemma fl_one: "fl 1 = 1"
  by code_simp

lemma Number_toString_unit:
  assumes "0 \<le> x" and "x \<le> 1"
  shows "0 \<le> Number_toString x \<and> Number_toString x \<le> 1"
proof (cases "x = 0 \<or> x = 1")
  case True
  then show ?thesis
  proof
    assume "x = 0"
    then show ?thesis by (simp add: Number_toString_def)
  next
    assume "x = 1"
    then show ?thesis by (simp add: Number_toString_values)
  qed
next
  case False
  with assms have pos: "0 < x" and less: "x < 1" by auto
  define c where
    "c = shortest_from x (max 0 (ilog2 x + 1)) (nat (max 0 (ilog2 x + 1) + 400))"
  from pos have nts: "Number_toString x = c"
    by (simp add: Number_toString_def c_def Let_def)
  have "c = x \<or> fl c = x" unfolding c_def by (rule shortest_from_cases)
  then have "0 \<le> c \<and> c \<le> 1"
  proof
    assume "c = x"
    with pos less show ?thesis by simp
  next
    assume f: "fl c = x"
    have "0 \<le> c"
    proof (rule ccontr)
      assume "\<not> 0 \<le> c"
      then have "c \<le> 0" by simp
      then have "fl c \<le> fl 0" by (rule fl_mono)
      with f pos show False by (simp add: fl_zero)
    qed
    moreover have "c \<le> 1"
    proof (rule ccontr)
      assume "\<not> c \<le> 1"
      then have "1 \<le> c" by simp
      then have "fl 1 \<le> fl c" by (rule fl_mono)
      with f less show False by (simp add: fl_one)
    qed
    ultimately show ?thesis ..
  qed
  with nts show ?thesis by simp
qed

lemma decimal_3_2_value:
  "decimal_3_2 x = Some r \<Longrightarrow> r = of_int (round_half_away (x * 100)) / 100"
  by (auto simp: decimal_3_2_def Let_def split: if_splits)

lemma decimal_3_2_values:
  "decimal_3_2 (1/2) = Some (1/2)" "decimal_3_2 2 = Some 2" "decimal_3_2 (3/10) = Some (3/10)"
  "decimal_3_2 (285/1000) = Some (29/100)"
  by code_simp+

lemma decimal_3_2_unit:
  assumes "0 \<le> x" and "x \<le> 1"
  shows "\<exists>r. decimal_3_2 x = Some r \<and> 0 \<le> r \<and> r \<le> 1"
proof -
  from assms(1) have f: "0 \<le> \<lfloor>x * 100 + 1/2\<rfloor>" by simp
  from assms(2) have "x * 100 + 1/2 < 101" by simp
  then have "\<lfloor>x * 100 + 1/2\<rfloor> < 101" by (simp add: floor_less_iff)
  then have "\<lfloor>x * 100 + 1/2\<rfloor> \<le> 100" by simp
  then have c: "(of_int \<lfloor>x * 100 + 1/2\<rfloor> :: rat) \<le> 100" by (metis of_int_le_iff of_int_numeral)
  from f c assms(1)
  have "decimal_3_2 x = Some (of_int \<lfloor>x * 100 + 1/2\<rfloor> / 100)"
    by (simp add: decimal_3_2_def round_half_away_def Let_def)
  moreover from f c
  have "0 \<le> (of_int \<lfloor>x * 100 + 1/2\<rfloor> / 100 :: rat)
        \<and> (of_int \<lfloor>x * 100 + 1/2\<rfloor> / 100 :: rat) \<le> 1"
    by simp
  ultimately show ?thesis by blast
qed

lemma dimension_in_all: "d \<in> set all_dimensions"
  by (cases d) (simp_all add: all_dimensions_def)

lemma upsertVoiceProfile_row:
  assumes u: "upsertVoiceProfile env uid voiceData w = (Inr row, w')"
  shows "voice_profiles w' uid = Some row
    \<and> (\<forall>d. decimal_3_2 (Number_toString (or_default (supplied voiceData d)))
              = Some (dims row d))"
proof -
  from u have nf: "store_fails env UpsertVoiceProfile = None"
    by (auto simp: upsertVoiceProfile_def query_def Let_def split: option.splits)
  from u nf obtain n where n: "varchar 100 (or_default_name (profileName voiceData)) = Some n"
    by (auto simp: upsertVoiceProfile_def query_def Let_def split: option.splits)
  from u nf n
  have all: "\<not> (\<exists>d \<in> set all_dimensions.
                  decimal_3_2 (Number_toString (or_default (supplied voiceData d))) = None)"
    by (auto simp: upsertVoiceProfile_def query_def Let_def split: if_splits)
  have some: "decimal_3_2 (Number_toString (or_default (supplied voiceData d))) \<noteq> None" for d
    using all dimension_in_all[of d] by auto
  from u nf n all have reg: "users w uid \<noteq> None"
    by (auto simp: upsertVoiceProfile_def query_def Let_def split: if_splits)
  from u nf n all reg
  have row: "dims row
               = (\<lambda>d. the (decimal_3_2 (Number_toString (or_default (supplied voiceData d)))))"
    and st: "voice_profiles w' uid = Some row"
    by (auto simp: upsertVoiceProfile_def query_def Let_def split: if_splits)
  from some row st show ?thesis by auto
qed

lemma upsertVoiceProfile_succeeds:
  assumes "store_fails env UpsertVoiceProfile = None" and "users w uid \<noteq> None"
    and "length (or_default_name (profileName voiceData)) \<le> 100"
    and "\<forall>d. decimal_3_2 (Number_toString (or_default (supplied voiceData d))) \<noteq> None"
  shows "\<exists>row. fst (upsertVoiceProfile env uid voiceData w) = Inr row"
  using assms
  by (auto simp: upsertVoiceProfile_def query_def Let_def varchar_def)

lemma upsertVoiceProfile_unregistered:
  assumes "users w uid = None"
  shows "isl (fst (upsertVoiceProfile env uid voiceData w))
    \<and> voice_profiles (snd (upsertVoiceProfile env uid voiceData w)) = voice_profiles w"
  using assms
  by (auto simp: upsertVoiceProfile_def query_def Let_def split: option.splits)

lemma with_defaults_upsert:
  "upsertVoiceProfile env uid (with_defaults body) = upsertVoiceProfile env uid body"
proof -
  have "or_default_name (profileName (with_defaults body)) = or_default_name (profileName body)"
    by (simp add: with_defaults_def or_default_name_def split: option.splits)
  moreover have "or_default (supplied (with_defaults body) d) = or_default (supplied body d)"
    for d
    by (auto simp: with_defaults_def or_default_def split: option.splits)
  ultimately show ?thesis by (simp add: upsertVoiceProfile_def)
qed

lemma routes_state:
  "snd (post_create_voice_profile env uid body w) = snd (upsertVoiceProfile env uid body w)"
  "snd (put_voice_profile env uid body w) = snd (upsertVoiceProfile env uid body w)"
  by (auto simp: post_create_voice_profile_def put_voice_profile_def with_defaults_upsert
      try_catch_def await_def return_def split: prod.splits sum.splits)

lemma example_values:
  "or_default (Some (fl (3/10))) = fl (3/10)"
  "or_default (Some (fl (57/200))) = fl (57/200)"
  "decimal_3_2 (Number_toString (fl (3/10))) = Some (3/10)"
  "decimal_3_2 (Number_toString (fl (57/200))) = Some (29/100)"
  by code_simp+

lemma example_upserts:
  "map_option dims (voice_profiles (snd (upsertVoiceProfile example_env 1 formality_two
       one_user_world)) 1) = Some (\<lambda>d. if d = Formality then 2 else 1/2)"
  "map_option dims (voice_profiles (snd (upsertVoiceProfile example_env 1 humor_only
       formal_world)) 1) = Some (\<lambda>d. if d = Humor then 3/10 else 1/2)"
  "map_option dims (voice_profiles (snd (upsertVoiceProfile example_env 1 warmth_only
       one_user_world)) 1) = Some (\<lambda>d. if d = Warmth then 29/100 else 1/2)"
  by (auto simp: upsertVoiceProfile_def query_def Let_def example_env_def one_user_world_def
      empty_world_def formal_world_def formality_two_def humor_only_def warmth_only_def
      or_default_name_def varchar_def all_dimensions_def example_values
      or_default_def[of None] or_default_def[of "Some 2"]
      Number_toString_values decimal_3_2_values fun_eq_iff)

text \<open>
  Claim C1, as stated, fails twice: a formality of 2 sent to
  \<open>PUT /voice-profiles/:id\<close> is stored as 2, and an update that carries the humor
  alone sets a stored formality of 0.9 to 0.5.
\<close>

theorem upsert_profile_counterexample:
  "users one_user_world 1 \<noteq> None \<and> users formal_world 1 \<noteq> None
   \<and> map_option (\<lambda>r. dims r Formality)
     (voice_profiles (snd (put_voice_profile example_env 1 formality_two one_user_world)) 1)
     = Some 2
   \<and> map_option (\<lambda>r. dims r Formality) (voice_profiles formal_world 1) = Some (9/10)
   \<and> map_option (\<lambda>r. dims r Formality)
       (voice_profiles (snd (put_voice_profile example_env 1 humor_only formal_world)) 1)
     = Some (1/2)"
proof -
  have at: "map_option (\<lambda>r. dims r d) v = Some (f d)" if "map_option dims v = Some f"
    for v :: "voice_profile_row option" and f d
    using that by auto
  have "users one_user_world 1 \<noteq> None \<and> users formal_world 1 \<noteq> None
        \<and> map_option (\<lambda>r. dims r Formality) (voice_profiles formal_world 1) = Some (9/10)"
    by (simp add: formal_world_def one_user_world_def empty_world_def)
  moreover from at[OF example_upserts(1), of Formality]
  have "map_option (\<lambda>r. dims r Formality)
     (voice_profiles (snd (put_voice_profile example_env 1 formality_two one_user_world)) 1)
     = Some 2"
    by (simp add: routes_state)
  moreover from at[OF example_upserts(2), of Formality]
  have "map_option (\<lambda>r. dims r Formality)
       (voice_profiles (snd (put_voice_profile example_env 1 humor_only formal_world)) 1)
     = Some (1/2)"
    by (simp add: routes_state)
  ultimately show ?thesis by blast
qed

text \<open>
  Claim C1, amended. \<open>upsertVoiceProfile\<close> does not clamp. When it succeeds, the row
  it returns is the row stored for the user; a dimension that the vector lacks is
  stored as 0.5, on the first creation and on an update alike (the stored value is
  not kept); a dimension supplied with a number other than 0 is stored as the decimal
  that the number is written as, rounded to two decimals by the column type; and the
  stored dimensions lie in [0,1] when every supplied one does. It succeeds when the
  query is not failed by the server, the user has a row in \<open>users\<close>, the name fits
  the column and every supplied number lies in [0,1]; for a user without a row in
  \<open>users\<close> it is rejected and stores nothing. Both routes leave the state that the
  upsert of the request body leaves.
\<close>

theorem upsert_profile_stores_what_it_is_given:
  "(upsertVoiceProfile env uid voiceData w = (Inr row, w') \<longrightarrow>
      voice_profiles w' uid = Some row
      \<and> (\<forall>d. supplied voiceData d = None \<longrightarrow> dims row d = 1/2)
      \<and> (\<forall>d v. supplied voiceData d = Some v \<and> v \<noteq> 0 \<longrightarrow>
            dims row d = of_int (round_half_away (Number_toString v * 100)) / 100)
      \<and> ((\<forall>d v. supplied voiceData d = Some v \<longrightarrow> 0 \<le> v \<and> v \<le> 1) \<longrightarrow>
            (\<forall>d. 0 \<le> dims row d \<and> dims row d \<le> 1)))
   \<and> (store_fails env UpsertVoiceProfile = None \<and> users w uid \<noteq> None
        \<and> length (or_default_name (profileName voiceData)) \<le> 100
        \<and> (\<forall>d v. supplied voiceData d = Some v \<longrightarrow> 0 \<le> v \<and> v \<le> 1) \<longrightarrow>
        (\<exists>r. fst (upsertVoiceProfile env uid voiceData w) = Inr r))
   \<and> (users w uid = None \<longrightarrow>
        isl (fst (upsertVoiceProfile env uid voiceData w))
        \<and> voice_profiles (snd (upsertVoiceProfile env uid voiceData w)) = voice_profiles w)
   \<and> snd (post_create_voice_profile env uid voiceData w)
       = snd (upsertVoiceProfile env uid voiceData w)
   \<and> snd (put_voice_profile env uid voiceData w) = snd (upsertVoiceProfile env uid voiceData w)"
proof -
  have unit: "0 \<le> Number_toString (or_default (supplied voiceData d))
              \<and> Number_toString (or_default (supplied voiceData d)) \<le> 1"
    if "\<forall>d v. supplied voiceData d = Some v \<longrightarrow> 0 \<le> v \<and> v \<le> 1" for d
  proof -
    from that have "0 \<le> or_default (supplied voiceData d) \<and> or_default (supplied voiceData d) \<le> 1"
      by (auto simp: or_default_def split: option.splits)
    then show ?thesis by (simp add: Number_toString_unit)
  qed
  have stored: "voice_profiles w' uid = Some row
      \<and> (\<forall>d. supplied voiceData d = None \<longrightarrow> dims row d = 1/2)
      \<and> (\<forall>d v. supplied voiceData d = Some v \<and> v \<noteq> 0 \<longrightarrow>
            dims row d = of_int (round_half_away (Number_toString v * 100)) / 100)
      \<and> ((\<forall>d v. supplied voiceData d = Some v \<longrightarrow> 0 \<le> v \<and> v \<le> 1) \<longrightarrow>
            (\<forall>d. 0 \<le> dims row d \<and> dims row d \<le> 1))"
    if u: "upsertVoiceProfile env uid voiceData w = (Inr row, w')"
  proof -
    from upsertVoiceProfile_row[OF u]
    have st: "voice_profiles w' uid = Some row"
      and col: "\<And>d. decimal_3_2 (Number_toString (or_default (supplied voiceData d)))
                     = Some (dims row d)"
      by auto
    have missing: "dims row d = 1/2" if "supplied voiceData d = None" for d
      using col[of d] that
      by (simp add: or_default_def Number_toString_values decimal_3_2_values)
    have given: "dims row d = of_int (round_half_away (Number_toString v * 100)) / 100"
      if "supplied voiceData d = Some v" and "v \<noteq> 0" for d v
      using decimal_3_2_value[OF col[of d]] that by (simp add: or_default_def)
    have range: "0 \<le> dims row d \<and> dims row d \<le> 1"
      if r: "\<forall>d v. supplied voiceData d = Some v \<longrightarrow> 0 \<le> v \<and> v \<le> 1" for d
    proof -
      from unit[OF r, of d]
      obtain x where "decimal_3_2 (Number_toString (or_default (supplied voiceData d))) = Some x"
        and "0 \<le> x \<and> x \<le> 1"
        using decimal_3_2_unit by blast
      with col[of d] show ?thesis by simp
    qed
    from st missing given range show ?thesis by blast
  qed
  have succeeds: "\<exists>r. fst (upsertVoiceProfile env uid voiceData w) = Inr r"
    if "store_fails env UpsertVoiceProfile = None" and "users w uid \<noteq> None"
      and "length (or_default_name (profileName voiceData)) \<le> 100"
      and r: "\<forall>d v. supplied voiceData d = Some v \<longrightarrow> 0 \<le> v \<and> v \<le> 1"
  proof (rule upsertVoiceProfile_succeeds[OF that(1,2,3)])
    show "\<forall>d. decimal_3_2 (Number_toString (or_default (supplied voiceData d))) \<noteq> None"
    proof
      fix d
      from unit[OF r, of d]
      obtain x where "decimal_3_2 (Number_toString (or_default (supplied voiceData d))) = Some x"
        using decimal_3_2_unit by blast
      then show "decimal_3_2 (Number_toString (or_default (supplied voiceData d))) \<noteq> None"
        by simp
    qed
  qed
  from stored succeeds routes_state[of env uid voiceData w]
    upsertVoiceProfile_unregistered[of w uid env voiceData]
  show ?thesis by blast
qed

theorem upsert_profile_stores_what_it_is_given_witness:
  "fst (upsertVoiceProfile example_env 1 warmth_only formal_world)
     = Inr \<lparr>profile_name = ''Default Profile'',
            dims = (\<lambda>d. if d = Warmth then 29/100 else 1/2), is_active = True\<rparr>
   \<and> voice_profiles (snd (upsertVoiceProfile example_env 1 warmth_only formal_world)) 1
     = Some \<lparr>profile_name = ''Default Profile'',
             dims = (\<lambda>d. if d = Warmth then 29/100 else 1/2), is_active = True\<rparr>"
proof -
  let ?row = "\<lparr>profile_name = ''Default Profile'',
               dims = (\<lambda>d. if d = Warmth then 29/100 else 1/2), is_active = True\<rparr>"
  obtain r w' where u: "upsertVoiceProfile example_env 1 warmth_only formal_world = (r, w')"
    by (cases "upsertVoiceProfile example_env 1 warmth_only formal_world")
  have b: "0 \<le> fl (285/1000) \<and> fl (285/1000) \<le> 1" "fl (285/1000) \<noteq> 0"
    by code_simp+
  then have "store_fails example_env UpsertVoiceProfile = None \<and> users formal_world 1 \<noteq> None
        \<and> length (or_default_name (profileName warmth_only)) \<le> 100
        \<and> (\<forall>d v. supplied warmth_only d = Some v \<longrightarrow> 0 \<le> v \<and> v \<le> 1)"
    by (simp add: example_env_def warmth_only_def or_default_name_def formal_world_def
        one_user_world_def empty_world_def del: divide_le_eq_numeral1 le_divide_eq_numeral1)
  with upsert_profile_stores_what_it_is_given[of example_env 1 warmth_only formal_world]
  obtain row where "fst (upsertVoiceProfile example_env 1 warmth_only formal_world) = Inr row"
    by blast
  with u have u': "upsertVoiceProfile example_env 1 warmth_only formal_world = (Inr row, w')"
    by simp
  from upsert_profile_stores_what_it_is_given[of example_env 1 warmth_only formal_world row w'] u'
  have st: "voice_profiles w' 1 = Some row"
    and missing: "\<And>d. supplied warmth_only d = None \<Longrightarrow> dims row d = 1/2"
    and given: "\<And>d v. supplied warmth_only d = Some v \<Longrightarrow> v \<noteq> 0 \<Longrightarrow>
            dims row d = of_int (round_half_away (Number_toString v * 100)) / 100"
    by blast+
  have h: "of_int (round_half_away (Number_toString (fl (285/1000)) * 100)) / 100 = (29/100 :: rat)"
    by code_simp
  have "dims row = (\<lambda>d. if d = Warmth then 29/100 else 1/2)"
  proof
    fix d show "dims row d = (if d = Warmth then 29/100 else 1/2)"
    proof (cases "d = Warmth")
      case True
      have "dims row d = of_int (round_half_away (Number_toString (fl (285/1000)) * 100)) / 100"
      proof (rule given)
        show "supplied warmth_only d = Some (fl (285/1000))"
          using True by (simp add: warmth_only_def)
        show "fl (285/1000) \<noteq> 0" by (rule b(2))
      qed
      then have "dims row d = 29/100" by (simp only: h)
      with True show ?thesis by simp
    next
      case False
      then have "dims row d = 1/2" by (intro missing) (simp add: warmth_only_def)
      with False show ?thesis by simp
    qed
  qed
  moreover from u' have "profile_name row = ''Default Profile''" and "is_active row"
    by (auto simp: upsertVoiceProfile_def query_def Let_def warmth_only_def formal_world_def
        one_user_world_def empty_world_def or_default_name_def varchar_def
        split: if_splits option.splits)
  ultimately have "row = ?row" by (cases row) simp
  with u' st show ?thesis by simp
qed

subsection \<open>Store failures\<close>

lemma query_fails:
  "store_fails env op = Some m \<Longrightarrow>
   query env op statement w = (Inl (StoreFailure m), w\<lparr>calls := calls w @ [Store op]\<rparr>)"
  by (simp add: query_def Let_def)













subsection \<open>The language recommendation\<close>

lemma recommendLanguage_preferred:
  "truthy (preferredLanguage args) \<Longrightarrow>
   recommendLanguage env args w =
     (Inr \<lparr>mode = ''single'', primary = the (preferredLanguage args), secondary = None,
           reason = ''user-preference'', sources = [''preference'']\<rparr>, w)"
  by (simp add: recommendLanguage_def return_def)

lemma detection_isoCode:
  "detectLanguageFromCaption env t = Some d \<Longrightarrow> isoCode d \<noteq> []"
  by (auto simp: detectLanguageFromCaption_def Let_def split: option.splits if_splits)

lemma recommendLanguage_chain:
  assumes np: "\<not> truthy (preferredLanguage args)"
    and dist: "detectLanguageDistributionForUser env (userId args) 50 w = (Inr distribution, w')"
  shows "recommendLanguage env args w =
    (let srcs = (if caption_detection env args \<noteq> None then [''caption''] else [])
                 @ (if distribution \<noteq> None then [''history''] else [])
     in case caption_detection env args of
          Some d \<Rightarrow>
            (Inr \<lparr>mode = ''single'', primary = isoCode d, secondary = None,
                  reason = ''caption-detected'', sources = srcs\<rparr>, w')
        | None \<Rightarrow>
            if truthy (imageLanguageHint args) then
              (Inr \<lparr>mode = ''single'', primary = the (imageLanguageHint args),
                    secondary = None, reason = ''image-detected'',
                    sources = srcs @ [''image'']\<rparr>, w')
            else case distribution of
                   Some ds \<Rightarrow> from_distribution ds srcs w'
                 | None \<Rightarrow>
                     (Inr \<lparr>mode = ''single'',
                           primary = (case fallbackLanguage args of
                                        None \<Rightarrow> DEFAULT_LANGUAGE | Some f \<Rightarrow> f),
                           secondary = None, reason = ''fallback'', sources = srcs\<rparr>, w'))"
proof (cases "caption_detection env args")
  case None
  with np dist show ?thesis
    by (auto simp: recommendLanguage_def caption_detection_def await_Inr Let_def return_def
        split: option.splits)
next
  case (Some d)
  then have "isoCode d \<noteq> []"
    by (auto simp: caption_detection_def dest: detection_isoCode split: if_splits)
  with Some np dist show ?thesis
    by (auto simp: recommendLanguage_def caption_detection_def await_Inr Let_def return_def
        split: option.splits if_splits)
qed

lemma recommendLanguage_reads_history:
  assumes "\<not> truthy (preferredLanguage args)"
  shows "snd (recommendLanguage env args w)
         = snd (detectLanguageDistributionForUser env (userId args) 50 w)"
proof (cases "detectLanguageDistributionForUser env (userId args) 50 w")
  case (Pair r w')
  show ?thesis
  proof (cases r)
    case (Inl e)
    with Pair assms show ?thesis by (simp add: recommendLanguage_def await_Inl Let_def)
  next
    case (Inr distribution)
    with Pair recommendLanguage_chain[OF assms, of env w distribution w']
    show ?thesis
      by (auto simp: Let_def from_distribution_def return_def throw_def
          split: option.splits list.splits prod.splits)
  qed
qed

lemma distribution_reads_posts:
  "\<not> falsy_id uid \<Longrightarrow>
   calls (snd (detectLanguageDistributionForUser env uid n w)) = calls w @ [Store GetSavedPosts]"
  by (auto simp: detectLanguageDistributionForUser_def getSavedPosts_def await_def query_def
      Let_def return_def split: option.splits prod.splits)

text \<open>
  Claim C8, as stated, fails: the caption of the request is detected as English, and
  the run still reads the saved posts and computes the distribution, which shows in
  the sources of the result.
\<close>

theorem recommend_order_counterexample:
  "fst (recommendLanguage english_env caption_request posted_world)
     = Inr \<lparr>mode = ''single'', primary = ''en'', secondary = None,
            reason = ''caption-detected'', sources = [''caption'', ''history'']\<rparr>
   \<and> calls (snd (recommendLanguage english_env caption_request posted_world))
     = [Store GetSavedPosts]"
  by code_simp

lemma recommendLanguage_rejects:
  assumes "\<not> truthy (preferredLanguage args)"
    and "detectLanguageDistributionForUser env (userId args) 50 w = (Inl e, w')"
  shows "recommendLanguage env args w = (Inl e, w')"
  using assms by (simp add: recommendLanguage_def await_Inl Let_def)

lemma distribution_rejects:
  assumes "\<not> falsy_id uid" and "store_fails env GetSavedPosts = Some m"
  shows "detectLanguageDistributionForUser env uid n w
         = (Inl (StoreFailure m), w\<lparr>calls := calls w @ [Store GetSavedPosts]\<rparr>)"
  using assms
  by (simp add: detectLanguageDistributionForUser_def getSavedPosts_def await_def query_fails)

text \<open>
  Claim C8, amended. A preferred language ends the run of \<open>recommendLanguage\<close> at
  once, with no read of the store. Without one, the distribution of the user's post
  history is computed in every run, before the result of the caption detection is
  returned: the state the run leaves is the state \<open>detectLanguageDistributionForUser\<close>
  leaves, with one read of the saved posts for a user id that is not falsy. When that
  read fails, the run is rejected with the error of the read, also when the caption
  detection or the image hint had a result. When it returns, the result is chosen in
  the order caption detection, image hint, history, fallback, the first of these that
  yields a result decides, and \<open>history\<close> is among the sources whenever the
  distribution is not \<open>null\<close>.
\<close>

theorem recommend_order:
  "(truthy (preferredLanguage args) \<longrightarrow>
      recommendLanguage env args w =
        (Inr \<lparr>mode = ''single'', primary = the (preferredLanguage args), secondary = None,
              reason = ''user-preference'', sources = [''preference'']\<rparr>, w))
   \<and> (\<not> truthy (preferredLanguage args) \<longrightarrow>
        snd (recommendLanguage env args w)
          = snd (detectLanguageDistributionForUser env (userId args) 50 w)
        \<and> (\<not> falsy_id (userId args) \<longrightarrow>
             calls (snd (recommendLanguage env args w)) = calls w @ [Store GetSavedPosts])
        \<and> (\<forall>e w'. detectLanguageDistributionForUser env (userId args) 50 w = (Inl e, w')
             \<longrightarrow> recommendLanguage env args w = (Inl e, w'))
        \<and> (\<forall>m. \<not> falsy_id (userId args) \<and> store_fails env GetSavedPosts = Some m \<longrightarrow>
             recommendLanguage env args w
               = (Inl (StoreFailure m), w\<lparr>calls := calls w @ [Store GetSavedPosts]\<rparr>))
        \<and> (\<forall>distribution w'.
             detectLanguageDistributionForUser env (userId args) 50 w = (Inr distribution, w')
             \<longrightarrow>
             recommendLanguage env args w =
               (let srcs = (if caption_detection env args \<noteq> None then [''caption''] else [])
                            @ (if distribution \<noteq> None then [''history''] else [])
                in case caption_detection env args of
                     Some d \<Rightarrow>
                       (Inr \<lparr>mode = ''single'', primary = isoCode d, secondary = None,
                             reason = ''caption-detected'', sources = srcs\<rparr>, w')
                   | None \<Rightarrow>
                       if truthy (imageLanguageHint args) then
                         (Inr \<lparr>mode = ''single'', primary = the (imageLanguageHint args),
                               secondary = None, reason = ''image-detected'',
                               sources = srcs @ [''image'']\<rparr>, w')
                       else case distribution of
                              Some ds \<Rightarrow> from_distribution ds srcs w'
                            | None \<Rightarrow>
                                (Inr \<lparr>mode = ''single'',
                                      primary = (case fallbackLanguage args of
                                                   None \<Rightarrow> DEFAULT_LANGUAGE | Some f \<Rightarrow> f),
                                      secondary = None, reason = ''fallback'',
                                      sources = srcs\<rparr>, w'))))"
proof -
  have rejects: "recommendLanguage env args w
               = (Inl (StoreFailure m), w\<lparr>calls := calls w @ [Store GetSavedPosts]\<rparr>)"
    if "\<not> truthy (preferredLanguage args)" and "\<not> falsy_id (userId args)"
      and "store_fails env GetSavedPosts = Some m" for m
    using that(1) distribution_rejects[OF that(2,3)] by (rule recommendLanguage_rejects)
  from rejects recommendLanguage_preferred[of args env w]
    recommendLanguage_reads_history[of args env w]
    distribution_reads_posts[of "userId args" env 50 w]
    recommendLanguage_chain[of args env w]
    recommendLanguage_rejects[of args env w]
  show ?thesis
    by (simp del: Let_def split del: if_split)
qed

theorem recommend_order_witness:
  "\<not> truthy (preferredLanguage caption_request) \<and> \<not> falsy_id (userId caption_request)
   \<and> calls (snd (recommendLanguage english_env caption_request posted_world))
       = calls posted_world @ [Store GetSavedPosts]
   \<and> snd (recommendLanguage english_env caption_request posted_world)
       = snd (detectLanguageDistributionForUser english_env (userId caption_request) 50
               posted_world)
   \<and> caption_detection english_failing_env caption_request \<noteq> None
   \<and> store_fails english_failing_env GetSavedPosts = Some ''Connection terminated unexpectedly''
   \<and> recommendLanguage english_failing_env caption_request posted_world
       = (Inl (StoreFailure ''Connection terminated unexpectedly''),
          posted_world\<lparr>calls := calls posted_world @ [Store GetSavedPosts]\<rparr>)"
proof -
  have h: "\<not> truthy (preferredLanguage caption_request)"
    "\<not> falsy_id (userId caption_request)"
    by (simp_all add: caption_request_def truthy_def falsy_id_def)
  have d: "caption_detection english_failing_env caption_request \<noteq> None"
    by code_simp
  have f: "store_fails english_failing_env GetSavedPosts = Some ''Connection terminated unexpectedly''"
    by (simp add: english_failing_env_def)
  from recommend_order[of caption_request english_env posted_world]
    recommend_order[of caption_request english_failing_env posted_world] h d f
  show ?thesis
    by blast
qed

subsection \<open>The consistency score\<close>

lemma fl_small_integers:
  "fl 1 = 1" "fl 2 = 2" "fl 3 = 3" "fl 4 = 4" "fl 5 = 5" "fl 6 = 6" "fl 7 = 7" "fl 8 = 8"
  "fl 100 = 100" "fl (1/8) = 1/8"
  by code_simp+

lemma rounding_steps:
  "fdiv 8 8 = 1" "fmul 1 100 = 100" "Math_round 100 = 100" "fdiv 100 100 = 1"
  by code_simp+

lemma length_all_dimensions: "length all_dimensions = 8"
  by (simp add: all_dimensions_def)

lemma dimension_score_range: "0 \<le> dimension_score P A d \<and> dimension_score P A d \<le> 1"
proof -
  have "1 - \<bar>fsub (profileValue P d) (A d)\<bar> \<le> 1" by simp
  then have "fl (1 - \<bar>fsub (profileValue P d) (A d)\<bar>) \<le> fl 1" by (rule fl_mono)
  then show ?thesis by (simp add: dimension_score_def fsub_def fl_small_integers)
qed

lemma fadd_bounds:
  assumes "0 \<le> t" and "t \<le> of_nat k" and "0 \<le> s" and "s \<le> 1" and "fl (of_nat (Suc k)) = of_nat (Suc k)"
  shows "0 \<le> fadd t s \<and> fadd t s \<le> of_nat (Suc k)"
proof -
  from assms(1,3) have "0 \<le> fl (t + s)" by (intro fl_nonneg) simp
  moreover from assms(2,4) have "t + s \<le> of_nat (Suc k)" by simp
  then have "fl (t + s) \<le> fl (of_nat (Suc k))" by (rule fl_mono)
  ultimately show ?thesis using assms(5) by (simp add: fadd_def)
qed

lemma total_range:
  assumes "\<forall>x \<in> set xs. 0 \<le> x \<and> x \<le> 1" and "length xs \<le> 8"
  shows "0 \<le> foldl fadd 0 xs \<and> foldl fadd 0 xs \<le> of_nat (length xs)"
  using assms
proof (induction xs rule: rev_induct)
  case Nil
  then show ?case by simp
next
  case (snoc x xs)
  then have ih: "0 \<le> foldl fadd 0 xs \<and> foldl fadd 0 xs \<le> of_nat (length xs)" by simp
  from snoc.prems have x: "0 \<le> x \<and> x \<le> 1" and len: "Suc (length xs) \<le> 8" by simp_all
  from len have "length xs = 0 \<or> length xs = 1 \<or> length xs = 2 \<or> length xs = 3
      \<or> length xs = 4 \<or> length xs = 5 \<or> length xs = 6 \<or> length xs = 7" by arith
  then have "fl (of_nat (Suc (length xs))) = of_nat (Suc (length xs))"
    by (elim disjE) (simp_all add: fl_small_integers)
  with fadd_bounds[of "foldl fadd 0 xs" "length xs" x] ih x show ?case by simp
qed

text \<open>The error of one rounding.\<close>

lemma rne_error: "\<bar>of_int (rne q) - q\<bar> \<le> 1/2"
proof -
  have "of_int \<lfloor>q\<rfloor> \<le> q" and "q < of_int \<lfloor>q\<rfloor> + 1" by linarith+
  then show ?thesis by (auto simp: rne_def Let_def)
qed

lemma fl_error:
  assumes "\<bar>x\<bar> \<le> 2 powi m" and "- 1022 \<le> m"
  shows "\<bar>fl x - x\<bar> \<le> 2 powi (m - 53)"
proof (cases "x = 0")
  case True
  then show ?thesis by (simp add: fl_zero less_imp_le[OF two_powi_pos])
next
  case False
  define a where "a = \<bar>x\<bar>"
  from False have apos: "0 < a" by (simp add: a_def)
  have same: "\<bar>fl x - x\<bar> = \<bar>fl a - a\<bar>"
  proof (cases "0 < x")
    case True
    then show ?thesis by (simp add: a_def)
  next
    case False
    then have "a = - x" by (simp add: a_def)
    then show ?thesis by (simp add: fl_minus)
  qed
  let ?e = "max (ilog2 a) (- 1022)"
  let ?u = "(2::rat) powi (?e - 52)"
  have upos: "0 < ?u" by (rule two_powi_pos)
  have "ilog2 a \<le> m"
  proof (rule ccontr)
    assume "\<not> ilog2 a \<le> m"
    then have "(2::rat) powi (m + 1) \<le> 2 powi (ilog2 a)" by (intro two_powi_mono) simp
    also from ilog2_bounds[OF apos] have "\<dots> \<le> a" by simp
    also from assms(1) have "\<dots> \<le> 2 powi m" by (simp add: a_def)
    finally have "(2::rat) powi (m + 1) \<le> 2 powi m" .
    moreover have "(2::rat) powi m * 2 powi 1 = 2 powi (m + 1)"
      by (rule two_powi_mult_eq) simp
    ultimately have "(2::rat) powi m * 2 \<le> 2 powi m" by simp
    with two_powi_pos[of m] show False by simp
  qed
  with assms(2) have e: "?e \<le> m" by simp
  have fa: "fl a = of_int (rne (a / ?u)) * ?u" using apos by (rule fl_pos_eq)
  have "fl a - a = (of_int (rne (a / ?u)) - a / ?u) * ?u"
    using upos by (simp add: fa algebra_simps)
  then have "\<bar>fl a - a\<bar> = \<bar>of_int (rne (a / ?u)) - a / ?u\<bar> * ?u"
    using upos by (simp add: abs_mult)
  also have "\<dots> \<le> 1/2 * ?u"
    using upos by (intro mult_right_mono rne_error) simp
  also have "1/2 * ?u = 2 powi (?e - 53)"
  proof -
    have "(2::rat) powi (- 1) * 2 powi (?e - 52) = 2 powi (?e - 53)"
      by (rule two_powi_mult_eq) simp
    then show ?thesis by (simp add: power_int_minus)
  qed
  also have "\<dots> \<le> 2 powi (m - 53)" using e by (intro two_powi_mono) simp
  finally show ?thesis by (simp only: same)
qed

lemma fl_errors:
  "\<bar>x\<bar> \<le> 1 \<Longrightarrow> \<bar>fl x - x\<bar> \<le> 1 / 9007199254740992"
  "\<bar>x\<bar> \<le> 8 \<Longrightarrow> \<bar>fl x - x\<bar> \<le> 1 / 1125899906842624"
  "\<bar>x\<bar> \<le> 128 \<Longrightarrow> \<bar>fl x - x\<bar> \<le> 1 / 70368744177664"
  using fl_error[of x 0] fl_error[of x 3] fl_error[of x 7]
  by (simp_all add: power_int_minus)

lemma fl_unit: "0 \<le> x \<Longrightarrow> x \<le> 1 \<Longrightarrow> 0 \<le> fl x \<and> fl x \<le> 1"
  using fl_nonneg[of x] fl_mono[of x 1] by (simp add: fl_small_integers)

lemma fl_abs_unit: "\<bar>x\<bar> \<le> 1 \<Longrightarrow> \<bar>fl x\<bar> \<le> 1"
proof -
  assume "\<bar>x\<bar> \<le> 1"
  then have "- 1 \<le> x" and "x \<le> 1" by simp_all
  then have "fl (- 1) \<le> fl x" and "fl x \<le> fl 1" by (simp_all add: fl_mono)
  then show ?thesis by (simp add: fl_minus fl_small_integers)
qed

text \<open>The error of the score of one dimension, and of the sum.\<close>

lemma dimension_error:
  assumes "0 \<le> dims P d" and "dims P d \<le> 1" and "0 \<le> A d" and "A d \<le> 1"
  shows "\<bar>dimension_score P A d - max 0 (1 - \<bar>dims P d - A d\<bar>)\<bar> \<le> 3 / 9007199254740992"
proof -
  define p where "p = fl (dims P d)"
  define t where "t = fl (p - A d)"
  define s where "s = fl (1 - \<bar>t\<bar>)"
  from assms(1,2) have p_err: "\<bar>p - dims P d\<bar> \<le> 1 / 9007199254740992"
    unfolding p_def by (intro fl_errors) simp
  from assms(1,2) have p_range: "0 \<le> p \<and> p \<le> 1"
    unfolding p_def by (rule fl_unit)
  with assms(3,4) have pa: "\<bar>p - A d\<bar> \<le> 1" by (simp add: abs_le_iff)
  then have t_err: "\<bar>t - (p - A d)\<bar> \<le> 1 / 9007199254740992"
    unfolding t_def by (rule fl_errors)
  from pa have t_range: "\<bar>t\<bar> \<le> 1" unfolding t_def by (rule fl_abs_unit)
  then have u: "0 \<le> 1 - \<bar>t\<bar>" "1 - \<bar>t\<bar> \<le> 1" by simp_all
  then have s_err: "\<bar>s - (1 - \<bar>t\<bar>)\<bar> \<le> 1 / 9007199254740992"
    unfolding s_def by (intro fl_errors) simp
  from u have "0 \<le> s" unfolding s_def by (intro fl_nonneg)
  then have score: "dimension_score P A d = s"
    by (simp add: dimension_score_def profileValue_def fsub_def s_def t_def p_def)
  from assms have exact: "max 0 (1 - \<bar>dims P d - A d\<bar>) = 1 - \<bar>dims P d - A d\<bar>" by simp
  from p_err t_err s_err show ?thesis unfolding score exact by linarith
qed

lemma sum_error:
  assumes "\<forall>d \<in> set ds. 0 \<le> s d \<and> s d \<le> 1 \<and> \<bar>s d - e d\<bar> \<le> c" and "length ds \<le> 8"
  shows "\<bar>foldl fadd 0 (map s ds) - (\<Sum>d\<leftarrow>ds. e d)\<bar>
         \<le> of_nat (length ds) * (c + 1 / 1125899906842624)"
  using assms
proof (induction ds rule: rev_induct)
  case Nil
  then show ?case by simp
next
  case (snoc d ds)
  let ?T = "foldl fadd 0 (map s ds)" and ?E = "(\<Sum>d\<leftarrow>ds. e d)"
  from snoc have ih: "\<bar>?T - ?E\<bar> \<le> of_nat (length ds) * (c + 1 / 1125899906842624)"
    by simp
  from snoc.prems have d: "0 \<le> s d" "s d \<le> 1" "\<bar>s d - e d\<bar> \<le> c"
    and len: "length ds \<le> 7" by simp_all
  from snoc.prems have "\<forall>x \<in> set (map s ds). 0 \<le> x \<and> x \<le> 1" by simp
  with total_range[of "map s ds"] len
  have T: "0 \<le> ?T" "?T \<le> of_nat (length ds)" by simp_all
  from len have "(of_nat (length ds) :: rat) \<le> 7" by simp
  with T d have "\<bar>?T + s d\<bar> \<le> 8" by simp
  then have r: "\<bar>fl (?T + s d) - (?T + s d)\<bar> \<le> 1 / 1125899906842624" by (rule fl_errors)
  have "\<bar>fl (?T + s d) - (?E + e d)\<bar>
        \<le> of_nat (length ds) * (c + 1 / 1125899906842624) + (c + 1 / 1125899906842624)"
    using r ih d(3) by linarith
  moreover have "foldl fadd 0 (map s (ds @ [d])) = fl (?T + s d)"
    by (simp add: fadd_def[of ?T "s d"])
  moreover have "(\<Sum>x\<leftarrow>ds @ [d]. e x) = ?E + e d" by simp
  moreover have "of_nat (length (ds @ [d])) * (c + 1 / 1125899906842624)
      = of_nat (length ds) * (c + 1 / 1125899906842624) + (c + 1 / 1125899906842624)"
    by (simp add: algebra_simps)
  ultimately show ?case by (simp only:)
qed

lemma score_unfold:
  "calculateConsistencyScore P A
   = fdiv (Math_round (fmul (fdiv (foldl fadd 0 (map (dimension_score P A) all_dimensions)) 8)
       100)) 100"
proof -
  have "foldl (\<lambda>t d. fadd t (dimension_score P A d)) 0 ds
        = foldl fadd 0 (map (dimension_score P A) ds)" for ds
    by (simp add: foldl_map)
  then show ?thesis
    by (simp add: calculateConsistencyScore_def dimension_score_def Let_def
        length_all_dimensions)
qed

text \<open>The number that \<open>Math.round\<close> receives.\<close>

lemma scaled_mean_range:
  "0 \<le> fmul (fdiv (foldl fadd 0 (map (dimension_score P A) all_dimensions)) 8) 100
   \<and> fmul (fdiv (foldl fadd 0 (map (dimension_score P A) all_dimensions)) 8) 100 \<le> 100"
proof -
  let ?xs = "map (dimension_score P A) all_dimensions"
  have len: "length ?xs = 8" by (simp add: all_dimensions_def)
  have "\<forall>x \<in> set ?xs. 0 \<le> x \<and> x \<le> 1" using dimension_score_range by auto
  with total_range[of ?xs] len
  have t: "0 \<le> foldl fadd 0 ?xs" "foldl fadd 0 ?xs \<le> 8" by simp_all
  let ?m = "fdiv (foldl fadd 0 ?xs) 8"
  from t have "0 \<le> foldl fadd 0 ?xs / 8" and "foldl fadd 0 ?xs / 8 \<le> 1" by simp_all
  then have m: "0 \<le> ?m" "?m \<le> 1"
    using fl_nonneg[of "foldl fadd 0 ?xs / 8"] fl_mono[of "foldl fadd 0 ?xs / 8" 1]
    by (simp_all add: fdiv_def fl_small_integers)
  from m have "0 \<le> ?m * 100" and "?m * 100 \<le> 100" by simp_all
  then show ?thesis
    using fl_nonneg[of "?m * 100"] fl_mono[of "?m * 100" 100]
    by (simp_all add: fmul_def fl_small_integers)
qed

lemma scaled_mean_error:
  assumes "\<forall>d. 0 \<le> dims P d \<and> dims P d \<le> 1 \<and> 0 \<le> A d \<and> A d \<le> 1"
  shows "\<bar>fmul (fdiv (foldl fadd 0 (map (dimension_score P A) all_dimensions)) 8) 100
          - 100 * mean_score P A\<bar> \<le> 1 / 4398046511104"
proof -
  let ?T = "foldl fadd 0 (map (dimension_score P A) all_dimensions)"
  let ?E = "(\<Sum>d\<leftarrow>all_dimensions. max 0 (1 - \<bar>dims P d - A d\<bar>))"
  have "\<forall>d \<in> set all_dimensions. 0 \<le> dimension_score P A d \<and> dimension_score P A d \<le> 1
          \<and> \<bar>dimension_score P A d - max 0 (1 - \<bar>dims P d - A d\<bar>)\<bar> \<le> 3 / 9007199254740992"
    using assms dimension_score_range dimension_error by blast
  from sum_error[OF this] have "\<bar>?T - ?E\<bar> \<le> 8 * (3 / 9007199254740992 + 1 / 1125899906842624)"
    by (simp add: length_all_dimensions)
  moreover have "8 * (3 / 9007199254740992 + 1 / 1125899906842624) = (11 / 1125899906842624 :: rat)"
    by simp
  ultimately have te: "\<bar>?T - ?E\<bar> \<le> 11 / 1125899906842624" by (simp only:)
  have "\<forall>x \<in> set (map (dimension_score P A) all_dimensions). 0 \<le> x \<and> x \<le> 1"
    using dimension_score_range by auto
  with total_range[of "map (dimension_score P A) all_dimensions"]
  have T: "0 \<le> ?T" "?T \<le> 8" by (simp_all add: length_all_dimensions)
  then have "\<bar>?T / 8\<bar> \<le> 1" by simp
  then have q: "\<bar>fl (?T / 8) - ?T / 8\<bar> \<le> 1 / 9007199254740992" by (rule fl_errors)
  from T have "0 \<le> ?T / 8" and "?T / 8 \<le> 1" by simp_all
  then have qr: "0 \<le> fl (?T / 8) \<and> fl (?T / 8) \<le> 1" by (rule fl_unit)
  then have "\<bar>fl (?T / 8) * 100\<bar> \<le> 128" by simp
  then have y: "\<bar>fl (fl (?T / 8) * 100) - fl (?T / 8) * 100\<bar> \<le> 1 / 70368744177664"
    by (rule fl_errors)
  define T where "T = ?T"
  define E where "E = ?E"
  define q where "q = fl (T / 8)"
  define y where "y = fl (q * 100)"
  from te have 1: "T - E \<le> 11 / 1125899906842624"
    and 2: "- (11 / 1125899906842624) \<le> T - E"
    unfolding T_def E_def abs_le_iff by linarith+
  from q have 3: "q - T / 8 \<le> 1 / 9007199254740992"
    and 4: "- (1 / 9007199254740992) \<le> q - T / 8"
    unfolding q_def T_def abs_le_iff by linarith+
  from y have 5: "y - q * 100 \<le> 1 / 70368744177664"
    and 6: "- (1 / 70368744177664) \<le> y - q * 100"
    unfolding y_def q_def T_def abs_le_iff by linarith+
  from 1 3 5 have "y - E / 8 * 100 \<le> 1 / 4398046511104" by linarith
  moreover from 2 4 6 have "- (1 / 4398046511104) \<le> y - E / 8 * 100" by linarith
  ultimately have "\<bar>y - E / 8 * 100\<bar> \<le> 1 / 4398046511104"
    unfolding abs_le_iff by linarith
  moreover have "100 * mean_score P A = E / 8 * 100" by (simp add: mean_score_def E_def)
  ultimately show ?thesis by (simp only: y_def q_def T_def fmul_def fdiv_def)
qed

lemma score_range: "0 \<le> calculateConsistencyScore P A \<and> calculateConsistencyScore P A \<le> 1"
proof -
  let ?h = "fmul (fdiv (foldl fadd 0 (map (dimension_score P A) all_dimensions)) 8) 100"
  from scaled_mean_range[of P A] have h: "0 \<le> ?h" "?h \<le> 100" by simp_all
  from h have "0 \<le> \<lfloor>?h + 1/2\<rfloor>" by simp
  moreover from h have "?h + 1/2 < 101" by simp
  then have "\<lfloor>?h + 1/2\<rfloor> < 101" by (simp add: floor_less_iff)
  then have "\<lfloor>?h + 1/2\<rfloor> \<le> 100" by simp
  then have "(of_int \<lfloor>?h + 1/2\<rfloor> :: rat) \<le> of_int 100" by (simp only: of_int_le_iff)
  ultimately have r: "0 \<le> Math_round ?h" "Math_round ?h \<le> 100"
    by (simp_all add: Math_round_def)
  then have "0 \<le> Math_round ?h / 100" and "Math_round ?h / 100 \<le> 1" by simp_all
  then have "0 \<le> fl (Math_round ?h / 100) \<and> fl (Math_round ?h / 100) \<le> 1"
    by (rule fl_unit)
  then show ?thesis by (simp only: score_unfold fdiv_def[of "Math_round ?h" 100])
qed

lemma score_of_itself: "calculateConsistencyScore P (profileValue P) = 1"
proof -
  have s: "dimension_score P (profileValue P) d = 1" for d
    by (simp add: dimension_score_def fsub_def fl_zero fl_small_integers)
  have "foldl fadd 0 (map (dimension_score P (profileValue P)) all_dimensions) = 8"
    by (simp add: all_dimensions_def s fadd_def fl_small_integers)
  then show ?thesis by (simp add: score_unfold rounding_steps)
qed

lemma example_scores:
  "dimension_score formal_profile neutral_vector Formality
     = 3152519739159347 / 4503599627370496"
  "dimension_score formal_profile neutral_vector Humor = 1"
  "dimension_score formal_profile neutral_vector Enthusiasm = 1"
  "dimension_score formal_profile neutral_vector Professionalism = 1"
  "dimension_score formal_profile neutral_vector Creativity = 1"
  "dimension_score formal_profile neutral_vector Emotional_tone = 1"
  "dimension_score formal_profile neutral_vector Confidence = 1"
  "dimension_score formal_profile neutral_vector Warmth = 1"
  by code_simp+

lemma example_total:
  "foldl fadd 0 [3152519739159347 / 4503599627370496, 1, 1, 1, 1, 1, 1, 1]
     = 8669429282688205 / 1125899906842624"
  by code_simp

lemma example_rounding:
  "fdiv (Math_round (fmul (fdiv (8669429282688205 / 1125899906842624) 8) 100)) 100
   = fl (96/100)"
  by code_simp

lemma score_example: "calculateConsistencyScore formal_profile neutral_vector = fl (96/100)"
proof -
  have "map (dimension_score formal_profile neutral_vector) all_dimensions
        = [3152519739159347 / 4503599627370496, 1, 1, 1, 1, 1, 1, 1]"
    by (simp add: all_dimensions_def example_scores)
  then show ?thesis by (simp only: score_unfold example_total example_rounding)
qed

lemma two_off_scores:
  "dimension_score example_profile two_off_vector Formality = 1"
  "dimension_score example_profile two_off_vector Humor = 1"
  "dimension_score example_profile two_off_vector Enthusiasm
     = 2116691824864133 / 2251799813685248"
  "dimension_score example_profile two_off_vector Professionalism = 1"
  "dimension_score example_profile two_off_vector Creativity = 1"
  "dimension_score example_profile two_off_vector Emotional_tone = 1"
  "dimension_score example_profile two_off_vector Confidence
     = 2116691824864133 / 2251799813685248"
  "dimension_score example_profile two_off_vector Warmth = 1"
  by code_simp+

lemma two_off_total:
  "foldl fadd 0 [1, 1, 2116691824864133 / 2251799813685248, 1, 1, 1,
                 2116691824864133 / 2251799813685248, 1]
     = 2218022816479969 / 281474976710656"
  by code_simp

lemma two_off_rounding:
  "fdiv (Math_round (fmul (fdiv (2218022816479969 / 281474976710656) 8) 100)) 100
   = fl (98/100)"
  by code_simp

lemma two_off_score: "calculateConsistencyScore example_profile two_off_vector = fl (98/100)"
proof -
  have "map (dimension_score example_profile two_off_vector) all_dimensions
        = [1, 1, 2116691824864133 / 2251799813685248, 1, 1, 1,
           2116691824864133 / 2251799813685248, 1]"
    by (simp add: all_dimensions_def two_off_scores)
  then show ?thesis by (simp only: score_unfold two_off_total two_off_rounding)
qed

lemma two_off_formula:
  "computeConsistency example_profile two_off_vector = 99/100"
  "computeConsistency example_profile two_off_decimals = 99/100"
  "fl (98/100) \<noteq> 99/100" "fl (98/100) \<noteq> fl (99/100)"
  "0 \<le> fl (44/100) \<and> fl (44/100) \<le> 1"
  by code_simp+

text \<open>
  Claim C3, as stated, fails: for a profile of 0.5 in every dimension and an analysed
  enthusiasm and confidence of 0.44, every other dimension 0.5, the mean of the scores
  rounded to two decimals is 0.99, whether the analysed values are taken as the
  Numbers or as the decimals; the program returns 0.98.
\<close>

theorem consistency_score_counterexample:
  "(\<forall>d. 0 \<le> dims example_profile d \<and> dims example_profile d \<le> 1
         \<and> 0 \<le> two_off_vector d \<and> two_off_vector d \<le> 1)
   \<and> calculateConsistencyScore example_profile two_off_vector = fl (98/100)
   \<and> computeConsistency example_profile two_off_vector = 99/100
   \<and> computeConsistency example_profile two_off_decimals = 99/100
   \<and> fl (98/100) \<noteq> 99/100 \<and> fl (98/100) \<noteq> fl (99/100)"
proof -
  have "\<forall>d. 0 \<le> dims example_profile d \<and> dims example_profile d \<le> 1
         \<and> 0 \<le> two_off_vector d \<and> two_off_vector d \<le> 1"
    using two_off_formula(5) by (simp add: example_profile_def two_off_vector_def)
  with two_off_score two_off_formula(1-4) show ?thesis by blast
qed

lemma round_near:
  fixes x y :: rat
  assumes "\<bar>y - x\<bar> \<le> c" and "c < tie_distance x" and "c < 1/2"
  shows "\<lfloor>y + 1/2\<rfloor> = \<lfloor>x + 1/2\<rfloor>"
proof -
  define f where "f = \<lfloor>x\<rfloor>"
  have fx: "of_int f \<le> x" "x < of_int f + 1" unfolding f_def by linarith+
  from assms(1) have c: "0 \<le> c" by linarith
  from assms(1) have y: "y \<le> x + c" "x - c \<le> y" unfolding abs_le_iff by linarith+
  have s: "(of_int (f + 1) :: rat) = of_int f + 1" by simp
  from assms(2) have "c < x - (of_int f + 1/2) \<or> c < (of_int f + 1/2) - x"
    unfolding tie_distance_def f_def by linarith
  then show ?thesis
  proof
    assume up: "c < x - (of_int f + 1/2)"
    have "\<lfloor>x + 1/2\<rfloor> = f + 1"
    proof (rule floor_unique)
      show "of_int (f + 1) \<le> x + 1/2" unfolding s using up c by linarith
      show "x + 1/2 < of_int (f + 1) + 1" unfolding s using fx by linarith
    qed
    moreover have "\<lfloor>y + 1/2\<rfloor> = f + 1"
    proof (rule floor_unique)
      show "of_int (f + 1) \<le> y + 1/2" unfolding s using up y by linarith
      show "y + 1/2 < of_int (f + 1) + 1" unfolding s using fx y assms(3) by linarith
    qed
    ultimately show ?thesis by simp
  next
    assume down: "c < (of_int f + 1/2) - x"
    have "\<lfloor>x + 1/2\<rfloor> = f"
    proof (rule floor_unique)
      show "of_int f \<le> x + 1/2" using fx by linarith
      show "x + 1/2 < of_int f + 1" using down c by linarith
    qed
    moreover have "\<lfloor>y + 1/2\<rfloor> = f"
    proof (rule floor_unique)
      show "of_int f \<le> y + 1/2" using fx y assms(3) by linarith
      show "y + 1/2 < of_int f + 1" using down y by linarith
    qed
    ultimately show ?thesis by simp
  qed
qed

lemma score_rounds:
  assumes "\<forall>d. 0 \<le> dims P d \<and> dims P d \<le> 1 \<and> 0 \<le> A d \<and> A d \<le> 1"
  shows "(\<exists>n. calculateConsistencyScore P A = fl (of_int n / 100) \<and> 0 \<le> n \<and> n \<le> 100
              \<and> \<bar>of_int n - 100 * mean_score P A\<bar> \<le> 1/2 + 2 powi (- 40))
    \<and> (2 powi (- 40) < tie_distance (100 * mean_score P A) \<longrightarrow>
          calculateConsistencyScore P A = fl (computeConsistency P A))"
proof -
  define y where
    "y = fmul (fdiv (foldl fadd 0 (map (dimension_score P A) all_dimensions)) 8) 100"
  define n where "n = \<lfloor>y + 1/2\<rfloor>"
  have p: "(2::rat) powi (- 40) = 1 / 1099511627776" by (simp add: power_int_minus)
  have score: "calculateConsistencyScore P A = fl (of_int n / 100)"
    by (simp add: score_unfold y_def n_def Math_round_def fdiv_def[of "of_int _" 100])
  from scaled_mean_range[of P A] have h: "0 \<le> y" "y \<le> 100" by (simp_all add: y_def)
  from h have n0: "0 \<le> n" by (simp add: n_def)
  from h have "y + 1/2 < 101" by simp
  then have "n < 101" by (simp add: n_def floor_less_iff)
  then have n100: "n \<le> 100" by simp
  from scaled_mean_error[OF assms] have e: "\<bar>y - 100 * mean_score P A\<bar> \<le> 1 / 4398046511104"
    by (simp only: y_def)
  have "of_int n \<le> y + 1/2" and "y + 1/2 < of_int n + 1" unfolding n_def by linarith+
  with e have "\<bar>of_int n - 100 * mean_score P A\<bar> \<le> 1/2 + 1 / 1099511627776"
    unfolding abs_le_iff by linarith
  then have near: "\<bar>of_int n - 100 * mean_score P A\<bar> \<le> 1/2 + 2 powi (- 40)"
    by (simp only: p)
  have "calculateConsistencyScore P A = fl (computeConsistency P A)"
    if "2 powi (- 40) < tie_distance (100 * mean_score P A)"
  proof -
    from that have "1 / 4398046511104 < tie_distance (100 * mean_score P A)"
      unfolding p by linarith
    with e have "\<lfloor>y + 1/2\<rfloor> = \<lfloor>100 * mean_score P A + 1/2\<rfloor>"
      by (intro round_near[where c = "1 / 4398046511104"]) simp_all
    then have "of_int n / 100 = computeConsistency P A"
      by (simp add: n_def computeConsistency_def mult.commute)
    with score show ?thesis by simp
  qed
  with score n0 n100 near show ?thesis by blast
qed

text \<open>
  Claim C3, amended. For a profile and an analysed vector with every dimension in
  [0,1], \<open>calculateConsistencyScore\<close> evaluates the mean over the eight dimensions of
  \<open>max(0, 1 - |P[d] - A[d]|)\<close>, rounded to two decimals, in the arithmetic of Numbers:
  the result is the Number nearest to \<open>n/100\<close> for an integer \<open>n\<close> from 0 to 100 that
  lies within \<open>1/2 + 2 powi - 40\<close> of a hundred times the mean; and it is the Number
  nearest to the value of the formula whenever a hundred times the mean is farther
  than \<open>2 powi - 40\<close> from a tie of the rounding. Whatever the vectors are, the
  result lies in [0,1]; a profile scored against its own values gives 1; and a
  formality of 0.8 against 0.5, every other dimension 0.5 on both sides, gives the
  Number 0.96.
\<close>

theorem consistency_score:
  "((\<forall>d. 0 \<le> dims P d \<and> dims P d \<le> 1 \<and> 0 \<le> A d \<and> A d \<le> 1) \<longrightarrow>
      (\<exists>n. calculateConsistencyScore P A = fl (of_int n / 100) \<and> 0 \<le> n \<and> n \<le> 100
            \<and> \<bar>of_int n - 100 * mean_score P A\<bar> \<le> 1/2 + 2 powi (- 40))
      \<and> (2 powi (- 40) < tie_distance (100 * mean_score P A) \<longrightarrow>
            calculateConsistencyScore P A = fl (computeConsistency P A)))
   \<and> 0 \<le> calculateConsistencyScore P A \<and> calculateConsistencyScore P A \<le> 1
   \<and> calculateConsistencyScore P (profileValue P) = 1
   \<and> calculateConsistencyScore formal_profile neutral_vector = fl (96/100)"
  using score_rounds[of P A] score_range[of P A] score_of_itself[of P] score_example
  by blast

theorem consistency_score_witness:
  "(\<forall>d. 0 \<le> dims formal_profile d \<and> dims formal_profile d \<le> 1
         \<and> 0 \<le> neutral_vector d \<and> neutral_vector d \<le> 1)
   \<and> 2 powi (- 40) < tie_distance (100 * mean_score formal_profile neutral_vector)
   \<and> computeConsistency formal_profile neutral_vector = 96/100
   \<and> calculateConsistencyScore formal_profile neutral_vector
       = fl (computeConsistency formal_profile neutral_vector)"
proof -
  have b: "\<forall>d. 0 \<le> dims formal_profile d \<and> dims formal_profile d \<le> 1
         \<and> 0 \<le> neutral_vector d \<and> neutral_vector d \<le> 1"
    by (simp add: formal_profile_def neutral_vector_def)
  have t: "2 powi (- 40) < tie_distance (100 * mean_score formal_profile neutral_vector)"
    by code_simp
  have c: "computeConsistency formal_profile neutral_vector = 96/100"
    by code_simp
  from consistency_score[of formal_profile neutral_vector] b t c show ?thesis
    by blast
qed

subsection \<open>The recommendations\<close>

lemma recommendations_filter:
  "foldl (\<lambda>recommendations d.
            if threshold < \<bar>fsub (profileValue P d) (A d)\<bar>
            then recommendations @ [recommend_entry P A d] else recommendations) acc ds
   = acc @ map (recommend_entry P A)
             (filter (\<lambda>d. threshold < \<bar>fsub (profileValue P d) (A d)\<bar>) ds)"
  by (induction ds arbitrary: acc) simp_all

lemma recommendations_are:
  "generateConsistencyRecommendations P A
   = map (recommend_entry P A)
       (filter (\<lambda>d. threshold < \<bar>fsub (profileValue P d) (A d)\<bar>) all_dimensions)"
  by (simp add: generateConsistencyRecommendations_def recommendations_filter)

lemma example_deltas:
  "threshold = 5404319552844595 / 18014398509481984"
  "\<bar>fsub (profileValue formal_profile Formality) (neutral_vector Formality)\<bar>
     = 1351079888211149 / 4503599627370496"
  "\<bar>fsub (profileValue formal_profile Humor) (neutral_vector Humor)\<bar> = 0"
  "\<bar>fsub (profileValue formal_profile Enthusiasm) (neutral_vector Enthusiasm)\<bar> = 0"
  "\<bar>fsub (profileValue formal_profile Professionalism) (neutral_vector Professionalism)\<bar> = 0"
  "\<bar>fsub (profileValue formal_profile Creativity) (neutral_vector Creativity)\<bar> = 0"
  "\<bar>fsub (profileValue formal_profile Emotional_tone) (neutral_vector Emotional_tone)\<bar> = 0"
  "\<bar>fsub (profileValue formal_profile Confidence) (neutral_vector Confidence)\<bar> = 0"
  "\<bar>fsub (profileValue formal_profile Warmth) (neutral_vector Warmth)\<bar> = 0"
  by code_simp+

lemma example_entry:
  "recommend_entry formal_profile neutral_vector Formality
   = \<lparr>dimension = ''Formality'', difference = 30,
      suggestion = ''Consider making the content less formal to better match your brand voice''\<rparr>"
  by code_simp

text \<open>
  Claim C4, as stated, fails at its own example: for a profile formality of 0.8 and an
  analysed formality of 0.5 the difference computed is 0.30000000000000004, which
  exceeds the threshold 0.3 (the Number 0.299999999999999988...), and one entry is
  produced.
\<close>

theorem recommendations_counterexample:
  "generateConsistencyRecommendations formal_profile neutral_vector
   = [\<lparr>dimension = ''Formality'', difference = 30,
       suggestion = ''Consider making the content less formal to better match your brand voice''\<rparr>]"
  by (simp add: recommendations_are all_dimensions_def example_deltas example_entry)

lemma boundary_deltas:
  "\<bar>fsub (profileValue boundary_profile Formality) (boundary_vector Formality)\<bar>
     = 5404319552844595 / 18014398509481984"
  "\<bar>fsub (profileValue boundary_profile Humor) (boundary_vector Humor)\<bar> = 0"
  "\<bar>fsub (profileValue boundary_profile Enthusiasm) (boundary_vector Enthusiasm)\<bar> = 0"
  "\<bar>fsub (profileValue boundary_profile Professionalism) (boundary_vector Professionalism)\<bar>
     = 0"
  "\<bar>fsub (profileValue boundary_profile Creativity) (boundary_vector Creativity)\<bar> = 0"
  "\<bar>fsub (profileValue boundary_profile Emotional_tone) (boundary_vector Emotional_tone)\<bar>
     = 0"
  "\<bar>fsub (profileValue boundary_profile Confidence) (boundary_vector Confidence)\<bar> = 0"
  "\<bar>fsub (profileValue boundary_profile Warmth) (boundary_vector Warmth)\<bar> = 0"
  by code_simp+

lemma boundary_example: "generateConsistencyRecommendations boundary_profile boundary_vector = []"
  by (simp add: recommendations_are all_dimensions_def example_deltas(1) boundary_deltas)

text \<open>
  Claim C4, amended. \<open>generateConsistencyRecommendations\<close> emits, in the fixed order
  of the dimensions, an entry for exactly those dimensions whose difference
  \<open>|profile[d] - analyzed[d]|\<close>, as the program computes it in double precision,
  strictly exceeds the threshold, the Number 0.3; the suggestion of an entry says
  \<open>more\<close> if and only if the analysed value is greater than the profile value. The
  boundary is exclusive: a profile formality of 0.3 against an analysed 0, where the
  difference computed is the threshold itself, gives no entry. A profile formality of
  0.8 against an analysed 0.5 gives the one entry for Formality, with a difference of
  30 and \<open>less\<close>, since the difference computed, 0.30000000000000004, exceeds the
  threshold.
\<close>

theorem recommendations_exceed_threshold:
  "generateConsistencyRecommendations P A
     = map (recommend_entry P A)
         (filter (\<lambda>d. threshold < \<bar>fsub (profileValue P d) (A d)\<bar>) all_dimensions)
   \<and> map dimension (generateConsistencyRecommendations P A)
     = map profileLabel
         (filter (\<lambda>d. threshold < \<bar>fsub (profileValue P d) (A d)\<bar>) all_dimensions)
   \<and> threshold = fl (3/10)
   \<and> suggestion (recommend_entry P A d)
     = ''Consider making the content '' @ direction P A d @ '' ''
         @ toLowerCase (contentLabel d) @ '' to better match your brand voice''
   \<and> (direction P A d = ''more'' \<longleftrightarrow> profileValue P d < A d)
   \<and> (direction P A d = ''less'' \<longleftrightarrow> \<not> profileValue P d < A d)
   \<and> generateConsistencyRecommendations boundary_profile boundary_vector = []
   \<and> generateConsistencyRecommendations formal_profile neutral_vector
     = [\<lparr>dimension = ''Formality'', difference = 30,
         suggestion =
           ''Consider making the content less formal to better match your brand voice''\<rparr>]"
proof -
  have "map dimension (generateConsistencyRecommendations P A)
     = map profileLabel
         (filter (\<lambda>d. threshold < \<bar>fsub (profileValue P d) (A d)\<bar>) all_dimensions)"
    by (simp add: recommendations_are recommend_entry_def comp_def)
  moreover have "generateConsistencyRecommendations formal_profile neutral_vector
     = [\<lparr>dimension = ''Formality'', difference = 30,
         suggestion =
           ''Consider making the content less formal to better match your brand voice''\<rparr>]"
    by (simp add: recommendations_are all_dimensions_def example_deltas example_entry)
  ultimately show ?thesis
    using recommendations_are[of P A] boundary_example
    by (simp add: threshold_def recommend_entry_def direction_def)
qed

subsection \<open>The history stage\<close>

lemma sort_insert_set: "set (sort_insert cmp x ys) = insert x (set ys)"
  by (induction ys) auto

lemma sort_insert_length: "length (sort_insert cmp x ys) = Suc (length ys)"
  by (induction ys) auto

lemma js_sort_fold:
  "set (foldl (\<lambda>acc x. sort_insert cmp x acc) acc xs) = set acc \<union> set xs
   \<and> length (foldl (\<lambda>acc x. sort_insert cmp x acc) acc xs) = length acc + length xs"
  by (induction xs arbitrary: acc) (auto simp: sort_insert_set sort_insert_length)

lemma js_sort_set: "set (js_sort cmp xs) = set xs"
  using js_sort_fold[of cmp "[]" xs] by (simp add: js_sort_def)

lemma js_sort_length: "length (js_sort cmp xs) = length xs"
  using js_sort_fold[of cmp "[]" xs] by (simp add: js_sort_def)

text \<open>On Numbers, the comparator of the ranking puts the greater share first.\<close>

lemma sort_insert_sorted:
  assumes "\<exists>k. snd x = of_int k * 2 powi (- 1074)"
    and "\<forall>y \<in> set ys. \<exists>k. snd y = of_int k * 2 powi (- 1074)"
    and "sorted_wrt (\<lambda>a b. snd b \<le> snd a) ys"
  shows "sorted_wrt (\<lambda>a b. snd b \<le> snd a) (sort_insert (\<lambda>a b. fsub (snd b) (snd a)) x ys)"
  using assms(2,3)
proof (induction ys)
  case Nil
  then show ?case by simp
next
  case (Cons y ys)
  from Cons.prems(1) have gy: "\<exists>k. snd y = of_int k * 2 powi (- 1074)" by simp
  have sign: "0 < fsub (snd x) (snd y) \<longleftrightarrow> snd y < snd x"
    using assms(1) gy by (rule fl_positive_difference)
  show ?case
  proof (cases "snd y < snd x")
    case True
    with Cons.prems(2) sign show ?thesis by (auto simp: less_imp_le)
  next
    case False
    with sign have nf: "\<not> 0 < fsub (snd x) (snd y)" by simp
    from Cons have "sorted_wrt (\<lambda>a b. snd b \<le> snd a)
                      (sort_insert (\<lambda>a b. fsub (snd b) (snd a)) x ys)" by simp
    with False nf Cons.prems(2) show ?thesis
      by (auto simp: sort_insert_set)
  qed
qed

lemma js_sort_sorted_fold:
  assumes "\<forall>y \<in> set xs. \<exists>k. snd y = of_int k * 2 powi (- 1074)"
    and "\<forall>y \<in> set acc. \<exists>k. snd y = of_int k * 2 powi (- 1074)"
    and "sorted_wrt (\<lambda>a b. snd b \<le> snd a) acc"
  shows "sorted_wrt (\<lambda>a b. snd b \<le> snd a)
           (foldl (\<lambda>acc x. sort_insert (\<lambda>a b. fsub (snd b) (snd a)) x acc) acc xs)"
  using assms
proof (induction xs arbitrary: acc)
  case Nil
  then show ?case by simp
next
  case (Cons x xs)
  from Cons.prems have "sorted_wrt (\<lambda>a b. snd b \<le> snd a)
         (sort_insert (\<lambda>a b. fsub (snd b) (snd a)) x acc)"
    by (intro sort_insert_sorted) simp_all
  moreover from Cons.prems
  have "\<forall>y \<in> set (sort_insert (\<lambda>a b. fsub (snd b) (snd a)) x acc).
          \<exists>k. snd y = of_int k * 2 powi (- 1074)"
    by (simp add: sort_insert_set)
  ultimately show ?case using Cons.IH Cons.prems(1) by simp
qed

lemma ranked_sorted:
  assumes "\<forall>y \<in> set ds. \<exists>k. snd y = of_int k * 2 powi (- 1074)"
  shows "sorted_wrt (\<lambda>a b. snd b \<le> snd a) (js_sort (\<lambda>a b. fsub (snd b) (snd a)) ds)"
  unfolding js_sort_def using assms by (intro js_sort_sorted_fold) simp_all

lemma count_word_nonempty: "count_word tally lang \<noteq> []"
  by (induction tally lang rule: count_word.induct) simp_all

lemma tally_posts_nonempty:
  "tally \<noteq> [] \<or> tot = 0 \<Longrightarrow> tally_posts env posts (tally, tot) = (tally', tot')
   \<Longrightarrow> tally' \<noteq> [] \<or> tot' = 0"
proof (induction posts arbitrary: tally tot)
  case Nil
  then show ?case by simp
next
  case (Cons post posts)
  show ?case
  proof (cases "post_language env post")
    case None
    with Cons show ?thesis by simp
  next
    case (Some lang)
    with Cons.prems(2)
    have "tally_posts env posts (count_word tally lang, tot + 1) = (tally', tot')" by simp
    moreover have "count_word tally lang \<noteq> [] \<or> tot + 1 = 0"
      by (simp add: count_word_nonempty)
    ultimately show ?thesis by (rule Cons.IH[rotated])
  qed
qed

lemma distribution_shape:
  assumes "detectLanguageDistributionForUser env uid n w = (Inr (Some ds), w')"
  shows "ds \<noteq> [] \<and> (\<forall>y \<in> set ds. \<exists>k. snd y = of_int k * 2 powi (- 1074))"
proof -
  from assms have nf: "\<not> falsy_id uid"
    by (auto simp: detectLanguageDistributionForUser_def return_def split: if_splits)
  obtain r w1 where g: "getSavedPosts env (the uid) (Some n) w = (r, w1)"
    by (cases "getSavedPosts env (the uid) (Some n) w")
  with assms nf obtain posts where r: "r = Inr posts"
    by (cases r) (auto simp: detectLanguageDistributionForUser_def await_def)
  obtain tally tot where t: "tally_posts env posts ([], 0) = (tally, tot)"
    by (cases "tally_posts env posts ([], 0)")
  from assms nf g r t have tot: "tot \<noteq> 0"
    and ds: "ds = map (\<lambda>(lang, c). (lang, fdiv (of_nat c) (of_nat tot))) tally"
    by (auto simp: detectLanguageDistributionForUser_def await_def return_def
        split: if_splits)
  from tally_posts_nonempty[OF _ t] tot have "tally \<noteq> []" by simp
  with ds have "ds \<noteq> []" by simp
  moreover have "\<exists>k. snd y = of_int k * 2 powi (- 1074)" if "y \<in> set ds" for y
    using that ds fl_on_grid by (auto simp: fdiv_def)
  ultimately show ?thesis by blast
qed

lemma by_share_eq: "(\<lambda>a b. fsub (snd b) (snd a)) = by_share"
  by (rule ext)+ (simp add: by_share_def)

lemma example_rankings:
  "js_sort by_share majority_distribution
     = [(''en'', 3602879701896397 / 4503599627370496),
        (''hi'', 3602879701896397 / 18014398509481984)]"
  "js_sort by_share mixed_distribution
     = [(''en'', 2476979795053773 / 4503599627370496), (''hi'', 1 / 4),
        (''ta'', 3602879701896397 / 18014398509481984)]"
  "fl (7/10) = 3152519739159347 / 4503599627370496"
  "fl (1/2) = 1 / 2"
  "fl (2/10) = 3602879701896397 / 18014398509481984"
  "fl (1/5) = 3602879701896397 / 18014398509481984"
  by code_simp+

lemma example_recommendations:
  "from_distribution majority_distribution srcs w
     = (Inr \<lparr>mode = ''single'', primary = ''en'', secondary = None,
             reason = ''audience-majority'', sources = srcs\<rparr>, w)"
  "from_distribution mixed_distribution srcs w
     = (Inr \<lparr>mode = ''bilingual'', primary = ''en'', secondary = Some ''hi'',
             reason = ''audience-mixed'', sources = srcs\<rparr>, w)"
  by (simp_all add: from_distribution_def by_share_eq example_rankings return_def)

lemma example_distribution:
  "fst (detectLanguageDistributionForUser example_env (Some 1) 50 five_posts_world)
   = Inr (Some majority_distribution)"
  by code_simp

text \<open>
  Claim C2. When no language is preferred, the caption detection finds nothing, no
  image hint is given and the distribution of the history is not \<open>null\<close>, the
  languages are ranked by descending share, and the result is single with reason
  \<open>audience-majority\<close> for a top share of at least 0.7; otherwise bilingual, the
  second language secondary, with reason \<open>audience-mixed\<close> for a top share of at
  least 0.5 and a second share of at least 0.2; otherwise single with reason
  \<open>audience-default\<close>; the primary language is the top one each time. Shares of 0.8
  and 0.2 give single, \<open>en\<close>, \<open>audience-majority\<close>; shares of 0.55, 0.25 and 0.2 give
  bilingual with \<open>en\<close> and \<open>hi\<close>.
\<close>

theorem history_stage:
  assumes "\<not> truthy (preferredLanguage args)" and "caption_detection env args = None"
    and "\<not> truthy (imageLanguageHint args)"
    and "detectLanguageDistributionForUser env (userId args) 50 w
           = (Inr (Some distribution), w')"
  shows "(\<exists>topLang topShare others.
            js_sort by_share distribution = (topLang, topShare) # others
            \<and> sorted_wrt (\<lambda>a b. snd b \<le> snd a) (js_sort by_share distribution)
            \<and> set (js_sort by_share distribution) = set distribution
            \<and> recommendLanguage env args w =
                (Inr (if fl (7/10) \<le> topShare then
                        \<lparr>mode = ''single'', primary = topLang, secondary = None,
                         reason = ''audience-majority'', sources = [''history'']\<rparr>
                      else if fl (1/2) \<le> topShare \<and> others \<noteq> []
                              \<and> fl (2/10) \<le> snd (hd others) then
                        \<lparr>mode = ''bilingual'', primary = topLang,
                         secondary = Some (fst (hd others)),
                         reason = ''audience-mixed'', sources = [''history'']\<rparr>
                      else
                        \<lparr>mode = ''single'', primary = topLang, secondary = None,
                         reason = ''audience-default'', sources = [''history'']\<rparr>), w'))
    \<and> from_distribution majority_distribution srcs v
        = (Inr \<lparr>mode = ''single'', primary = ''en'', secondary = None,
                reason = ''audience-majority'', sources = srcs\<rparr>, v)
    \<and> from_distribution mixed_distribution srcs v
        = (Inr \<lparr>mode = ''bilingual'', primary = ''en'', secondary = Some ''hi'',
                reason = ''audience-mixed'', sources = srcs\<rparr>, v)"
proof -
  from distribution_shape[OF assms(4)]
  have ne: "distribution \<noteq> []"
    and grid: "\<forall>y \<in> set distribution. \<exists>k. snd y = of_int k * 2 powi (- 1074)"
    by simp_all
  let ?ranked = "js_sort by_share distribution"
  from ne have "?ranked \<noteq> []" using js_sort_length[of by_share distribution] by auto
  then obtain topLang topShare others where r: "?ranked = (topLang, topShare) # others"
    by (cases ?ranked) auto
  have s: "sorted_wrt (\<lambda>a b. snd b \<le> snd a) ?ranked"
    using ranked_sorted[OF grid] by (simp only: by_share_eq)
  have chain: "recommendLanguage env args w = from_distribution distribution [''history''] w'"
    using recommendLanguage_chain[OF assms(1) assms(4)] assms(2,3) by simp
  have "from_distribution distribution [''history''] w' =
      (Inr (if fl (7/10) \<le> topShare then
              \<lparr>mode = ''single'', primary = topLang, secondary = None,
               reason = ''audience-majority'', sources = [''history'']\<rparr>
            else if fl (1/2) \<le> topShare \<and> others \<noteq> [] \<and> fl (2/10) \<le> snd (hd others) then
              \<lparr>mode = ''bilingual'', primary = topLang, secondary = Some (fst (hd others)),
               reason = ''audience-mixed'', sources = [''history'']\<rparr>
            else
              \<lparr>mode = ''single'', primary = topLang, secondary = None,
               reason = ''audience-default'', sources = [''history'']\<rparr>), w')"
  proof (cases others)
    case Nil
    have "\<not> fl (2/10) \<le> 0" by (simp only: example_rankings)
    with Nil r show ?thesis
      by (simp add: from_distribution_def by_share_eq return_def)
  next
    case (Cons second rest)
    with r show ?thesis
      by (simp add: from_distribution_def by_share_eq return_def)
  qed
  with chain r s js_sort_set[of by_share distribution] example_recommendations[of srcs v]
  show ?thesis by (simp only:) blast
qed

theorem history_stage_witness:
  "\<not> truthy (preferredLanguage history_request)
   \<and> caption_detection example_env history_request = None
   \<and> \<not> truthy (imageLanguageHint history_request)
   \<and> fst (detectLanguageDistributionForUser example_env (userId history_request) 50
           five_posts_world) = Inr (Some majority_distribution)
   \<and> fst (recommendLanguage example_env history_request five_posts_world)
       = Inr \<lparr>mode = ''single'', primary = ''en'', secondary = None,
              reason = ''audience-majority'', sources = [''history'']\<rparr>"
proof -
  have h: "\<not> truthy (preferredLanguage history_request)"
    "caption_detection example_env history_request = None"
    "\<not> truthy (imageLanguageHint history_request)"
    by (simp_all add: history_request_def truthy_def caption_detection_def)
  have u: "userId history_request = Some 1" by (simp add: history_request_def)
  have d: "fst (detectLanguageDistributionForUser example_env (userId history_request) 50
              five_posts_world) = Inr (Some majority_distribution)"
    by (simp only: u example_distribution)
  then have d': "detectLanguageDistributionForUser example_env (userId history_request) 50
                   five_posts_world
                 = (Inr (Some majority_distribution),
                    snd (detectLanguageDistributionForUser example_env
                           (userId history_request) 50 five_posts_world))"
    by (simp add: prod_eq_iff)
  from history_stage[OF h d']
  obtain topLang topShare others where
    r: "js_sort by_share majority_distribution = (topLang, topShare) # others"
    and res: "fst (recommendLanguage example_env history_request five_posts_world) =
        Inr (if fl (7/10) \<le> topShare then
               \<lparr>mode = ''single'', primary = topLang, secondary = None,
                reason = ''audience-majority'', sources = [''history'']\<rparr>
             else if fl (1/2) \<le> topShare \<and> others \<noteq> [] \<and> fl (2/10) \<le> snd (hd others) then
               \<lparr>mode = ''bilingual'', primary = topLang, secondary = Some (fst (hd others)),
                reason = ''audience-mixed'', sources = [''history'']\<rparr>
             else
               \<lparr>mode = ''single'', primary = topLang, secondary = None,
                reason = ''audience-default'', sources = [''history'']\<rparr>)"
    by fastforce
  from r have "topLang = ''en''" and "topShare = 3602879701896397 / 4503599627370496"
    by (simp_all add: example_rankings)
  with res have "fst (recommendLanguage example_env history_request five_posts_world)
       = Inr \<lparr>mode = ''single'', primary = ''en'', secondary = None,
              reason = ''audience-majority'', sources = [''history'']\<rparr>"
    by (simp add: example_rankings)
  with h d show ?thesis by simp
qed

end
